theory Spec2Isabelle
  imports Main "HOL-Library.Word"
begin

unbundle bit_operations_syntax

section \<open>Common types\<close>

type_synonym u16 = "16 word"
type_synonym u32 = "32 word"
type_synonym u64 = "64 word"

text \<open>
  Ways in which a modelled function can stop without returning a value.  An \<^verbatim>\<open>assert\<close>
  of the source is a branch of the model: where its condition is false the function
  stops with \<open>assertion_failed\<close> (the behaviour of a build with assertions enabled; a
  function that has the macro \<^verbatim>\<open>NDEBUG\<close> as a parameter skips its assertions when the
  macro is defined).  Reading the inactive member of a union, dereferencing a null or
  foreign pointer and indexing a vector out of range stop with \<open>undefined_behaviour\<close>.
  An allocation that the free store does not grant throws \<^verbatim>\<open>std::bad_alloc\<close>; the
  functions modelled here have no \<^verbatim>\<open>try\<close> block, so the exception leaves the function
  that made the allocation and every caller of it: the function stops with \<open>bad_alloc\<close>.
\<close>

datatype error = assertion_failed | undefined_behaviour | bad_alloc

section \<open>The neutral descriptor model (include/reshade\_api.hpp)\<close>

datatype resource_type =
  resource_type_unknown
| resource_type_buffer
| resource_type_texture_1d
| resource_type_texture_2d
| resource_type_texture_3d
| resource_type_surface

datatype memory_heap =
  memory_heap_unknown
| memory_heap_gpu_only
| memory_heap_cpu_to_gpu
| memory_heap_gpu_to_cpu
| memory_heap_cpu_only

text \<open>\<^verbatim>\<open>enum class resource_usage : uint32_t\<close>: OR-combined bit flags.\<close>

definition resource_usage_undefined :: u32 where "resource_usage_undefined = 0"
definition resource_usage_depth_stencil :: u32 where "resource_usage_depth_stencil = 0x30"
definition resource_usage_depth_stencil_read :: u32 where "resource_usage_depth_stencil_read = 0x20"
definition resource_usage_depth_stencil_write :: u32 where "resource_usage_depth_stencil_write = 0x10"
definition resource_usage_render_target :: u32 where "resource_usage_render_target = 0x4"
definition resource_usage_shader_resource :: u32 where "resource_usage_shader_resource = 0xC0"
definition resource_usage_shader_resource_pixel :: u32 where "resource_usage_shader_resource_pixel = 0x80"
definition resource_usage_shader_resource_non_pixel :: u32 where "resource_usage_shader_resource_non_pixel = 0x40"
definition resource_usage_unordered_access :: u32 where "resource_usage_unordered_access = 0x8"
definition resource_usage_copy_dest :: u32 where "resource_usage_copy_dest = 0x400"
definition resource_usage_copy_source :: u32 where "resource_usage_copy_source = 0x800"
definition resource_usage_resolve_dest :: u32 where "resource_usage_resolve_dest = 0x1000"
definition resource_usage_resolve_source :: u32 where "resource_usage_resolve_source = 0x2000"
definition resource_usage_index_buffer :: u32 where "resource_usage_index_buffer = 0x2"
definition resource_usage_vertex_buffer :: u32 where "resource_usage_vertex_buffer = 0x1"
definition resource_usage_constant_buffer :: u32 where "resource_usage_constant_buffer = 0x8000"

lemmas resource_usage_defs =
  resource_usage_undefined_def resource_usage_depth_stencil_def
  resource_usage_depth_stencil_read_def resource_usage_depth_stencil_write_def
  resource_usage_render_target_def resource_usage_shader_resource_def
  resource_usage_shader_resource_pixel_def resource_usage_shader_resource_non_pixel_def
  resource_usage_unordered_access_def resource_usage_copy_dest_def
  resource_usage_copy_source_def resource_usage_resolve_dest_def
  resource_usage_resolve_source_def resource_usage_index_buffer_def
  resource_usage_vertex_buffer_def resource_usage_constant_buffer_def

text \<open>
  \<^verbatim>\<open>struct resource_desc\<close>.  The anonymous union of the struct (the \<^verbatim>\<open>buffer\<close> member
  with \<^verbatim>\<open>size\<close>, the \<^verbatim>\<open>texture\<close> member with \<^verbatim>\<open>width\<close> ... \<^verbatim>\<open>samples\<close>) is a datatype
  with one constructor for each member; the constructor records which member was
  written last.  \<^verbatim>\<open>api::format\<close> is its underlying \<^verbatim>\<open>uint32_t\<close>.
\<close>

datatype resource_desc_union =
  buffer_member (buffer_size: u64)
| texture_member (texture_width: u32) (texture_height: u32) (texture_depth_or_layers: u16)
    (texture_levels: u16) (texture_format: u32) (texture_samples: u16)

record resource_desc =
  desc_type :: resource_type
  desc_union :: resource_desc_union
  desc_heap :: memory_heap
  desc_usage :: u32

section \<open>Direct3D 11: descriptor conversion (source/d3d11/render\_d3d11\_utils.cpp)\<close>

subsection \<open>Native structures and constants of the Windows SDK (d3d11.h)\<close>

datatype D3D11_USAGE =
  D3D11_USAGE_DEFAULT
| D3D11_USAGE_IMMUTABLE
| D3D11_USAGE_DYNAMIC
| D3D11_USAGE_STAGING

definition D3D11_BIND_VERTEX_BUFFER :: u32 where "D3D11_BIND_VERTEX_BUFFER = 0x1"
definition D3D11_BIND_INDEX_BUFFER :: u32 where "D3D11_BIND_INDEX_BUFFER = 0x2"
definition D3D11_BIND_CONSTANT_BUFFER :: u32 where "D3D11_BIND_CONSTANT_BUFFER = 0x4"
definition D3D11_BIND_SHADER_RESOURCE :: u32 where "D3D11_BIND_SHADER_RESOURCE = 0x8"
definition D3D11_BIND_RENDER_TARGET :: u32 where "D3D11_BIND_RENDER_TARGET = 0x20"
definition D3D11_BIND_DEPTH_STENCIL :: u32 where "D3D11_BIND_DEPTH_STENCIL = 0x40"
definition D3D11_BIND_UNORDERED_ACCESS :: u32 where "D3D11_BIND_UNORDERED_ACCESS = 0x80"

lemmas D3D11_BIND_defs =
  D3D11_BIND_VERTEX_BUFFER_def D3D11_BIND_INDEX_BUFFER_def D3D11_BIND_CONSTANT_BUFFER_def
  D3D11_BIND_SHADER_RESOURCE_def D3D11_BIND_RENDER_TARGET_def D3D11_BIND_DEPTH_STENCIL_def
  D3D11_BIND_UNORDERED_ACCESS_def

definition D3D11_CPU_ACCESS_WRITE :: u32 where "D3D11_CPU_ACCESS_WRITE = 0x10000"
definition D3D11_CPU_ACCESS_READ :: u32 where "D3D11_CPU_ACCESS_READ = 0x20000"

definition DXGI_FORMAT_UNKNOWN :: u32 where "DXGI_FORMAT_UNKNOWN = 0"

record D3D11_BUFFER_DESC =
  buf_ByteWidth :: u32
  buf_Usage :: D3D11_USAGE
  buf_BindFlags :: u32
  buf_CPUAccessFlags :: u32
  buf_MiscFlags :: u32
  buf_StructureByteStride :: u32

record D3D11_TEXTURE1D_DESC =
  tex1d_Width :: u32
  tex1d_MipLevels :: u32
  tex1d_ArraySize :: u32
  tex1d_Format :: u32
  tex1d_Usage :: D3D11_USAGE
  tex1d_BindFlags :: u32
  tex1d_CPUAccessFlags :: u32
  tex1d_MiscFlags :: u32

record D3D11_TEXTURE2D_DESC =
  tex2d_Width :: u32
  tex2d_Height :: u32
  tex2d_MipLevels :: u32
  tex2d_ArraySize :: u32
  tex2d_Format :: u32
  tex2d_SampleDesc_Count :: u32
  tex2d_SampleDesc_Quality :: u32
  tex2d_Usage :: D3D11_USAGE
  tex2d_BindFlags :: u32
  tex2d_CPUAccessFlags :: u32
  tex2d_MiscFlags :: u32

record D3D11_TEXTURE3D_DESC =
  tex3d_Width :: u32
  tex3d_Height :: u32
  tex3d_Depth :: u32
  tex3d_MipLevels :: u32
  tex3d_Format :: u32
  tex3d_Usage :: D3D11_USAGE
  tex3d_BindFlags :: u32
  tex3d_CPUAccessFlags :: u32
  tex3d_MiscFlags :: u32

subsection \<open>Formats, heaps and usage flags\<close>

text \<open>\<^verbatim>\<open>convert_format(api::format) -> DXGI_FORMAT\<close> and its inverse overload.\<close>

definition convert_format_to_dxgi :: "u32 \<Rightarrow> u32" where
  "convert_format_to_dxgi format = (if format \<ge> 1000 then DXGI_FORMAT_UNKNOWN else format)"

definition convert_format_from_dxgi :: "u32 \<Rightarrow> u32" where
  "convert_format_from_dxgi format = format"

text \<open>
  The conversions below write through reference parameters; the model takes the value
  the parameter had and returns the value it has afterwards.
\<close>

fun convert_memory_heap_to_d3d_usage :: "memory_heap \<Rightarrow> D3D11_USAGE \<times> u32 \<Rightarrow> D3D11_USAGE \<times> u32" where
  "convert_memory_heap_to_d3d_usage memory_heap_gpu_only (usage, cpu_access_flags) =
     (D3D11_USAGE_DEFAULT, cpu_access_flags)"
| "convert_memory_heap_to_d3d_usage memory_heap_cpu_to_gpu (usage, cpu_access_flags) =
     (D3D11_USAGE_DYNAMIC, cpu_access_flags OR D3D11_CPU_ACCESS_WRITE)"
| "convert_memory_heap_to_d3d_usage memory_heap_gpu_to_cpu (usage, cpu_access_flags) =
     (D3D11_USAGE_STAGING, cpu_access_flags OR D3D11_CPU_ACCESS_READ)"
| "convert_memory_heap_to_d3d_usage memory_heap_cpu_only (usage, cpu_access_flags) =
     (D3D11_USAGE_STAGING, cpu_access_flags OR (D3D11_CPU_ACCESS_READ OR D3D11_CPU_ACCESS_WRITE))"
| "convert_memory_heap_to_d3d_usage memory_heap_unknown (usage, cpu_access_flags) =
     (usage, cpu_access_flags)"

fun convert_d3d_usage_to_memory_heap :: "D3D11_USAGE \<Rightarrow> memory_heap \<Rightarrow> memory_heap" where
  "convert_d3d_usage_to_memory_heap D3D11_USAGE_DEFAULT heap = memory_heap_gpu_only"
| "convert_d3d_usage_to_memory_heap D3D11_USAGE_IMMUTABLE heap = memory_heap_gpu_only"
| "convert_d3d_usage_to_memory_heap D3D11_USAGE_DYNAMIC heap = memory_heap_cpu_to_gpu"
| "convert_d3d_usage_to_memory_heap D3D11_USAGE_STAGING heap = memory_heap_gpu_to_cpu"

text \<open>
  One \<^verbatim>\<open>if (usage & u) bind_flags |= b; else bind_flags &= ~b;\<close> statement, and one
  \<^verbatim>\<open>if (bind_flags & b) usage |= u;\<close> statement.
\<close>

definition set_or_clear_bind_flag :: "u32 \<Rightarrow> u32 \<Rightarrow> u32 \<Rightarrow> u32 \<Rightarrow> u32" where
  "set_or_clear_bind_flag usage u b bind_flags =
     (if usage AND u \<noteq> 0 then bind_flags OR b else bind_flags AND NOT b)"

definition add_usage_if_bound :: "u32 \<Rightarrow> u32 \<Rightarrow> u32 \<Rightarrow> u32 \<Rightarrow> u32" where
  "add_usage_if_bound bind_flags b u usage =
     (if bind_flags AND b \<noteq> 0 then usage OR u else usage)"

definition convert_resource_usage_to_bind_flags :: "u32 \<Rightarrow> u32 \<Rightarrow> u32" where
  "convert_resource_usage_to_bind_flags usage bind_flags =
     (set_or_clear_bind_flag usage resource_usage_constant_buffer D3D11_BIND_CONSTANT_BUFFER
     (set_or_clear_bind_flag usage resource_usage_vertex_buffer D3D11_BIND_VERTEX_BUFFER
     (set_or_clear_bind_flag usage resource_usage_index_buffer D3D11_BIND_INDEX_BUFFER
     (set_or_clear_bind_flag usage resource_usage_unordered_access D3D11_BIND_UNORDERED_ACCESS
     (set_or_clear_bind_flag usage resource_usage_shader_resource D3D11_BIND_SHADER_RESOURCE
     (set_or_clear_bind_flag usage resource_usage_depth_stencil D3D11_BIND_DEPTH_STENCIL
     (set_or_clear_bind_flag usage resource_usage_render_target D3D11_BIND_RENDER_TARGET
        bind_flags)))))))"

definition convert_bind_flags_to_resource_usage :: "u32 \<Rightarrow> u32 \<Rightarrow> u32" where
  "convert_bind_flags_to_resource_usage bind_flags usage =
     (add_usage_if_bound bind_flags D3D11_BIND_CONSTANT_BUFFER resource_usage_constant_buffer
     (add_usage_if_bound bind_flags D3D11_BIND_VERTEX_BUFFER resource_usage_vertex_buffer
     (add_usage_if_bound bind_flags D3D11_BIND_INDEX_BUFFER resource_usage_index_buffer
     (add_usage_if_bound bind_flags D3D11_BIND_UNORDERED_ACCESS resource_usage_unordered_access
     (add_usage_if_bound bind_flags D3D11_BIND_SHADER_RESOURCE resource_usage_shader_resource
     (add_usage_if_bound bind_flags D3D11_BIND_DEPTH_STENCIL resource_usage_depth_stencil
     (add_usage_if_bound bind_flags D3D11_BIND_RENDER_TARGET resource_usage_render_target
        (usage OR (resource_usage_copy_dest OR resource_usage_copy_source)))))))))"

subsection \<open>Resource descriptions\<close>

text \<open>
  \<^verbatim>\<open>convert_resource_desc(const api::resource_desc &, D3D11_..._DESC &)\<close>, one overload for
  each native structure.  The native structure is updated in place: the fields the
  function does not assign keep the value of \<open>internal_desc\<close>.
\<close>

definition convert_resource_desc_to_buffer ::
  "resource_desc \<Rightarrow> D3D11_BUFFER_DESC \<Rightarrow> error + D3D11_BUFFER_DESC" where
  "convert_resource_desc_to_buffer desc internal_desc =
     (if desc_type desc \<noteq> resource_type_buffer then Inl assertion_failed
      else case desc_union desc of
        texture_member w h d l f s \<Rightarrow> Inl undefined_behaviour
      | buffer_member sz \<Rightarrow>
          if \<not> sz \<le> 0xFFFFFFFF then Inl assertion_failed
          else
            let (usage, cpu_access_flags) =
                  convert_memory_heap_to_d3d_usage (desc_heap desc)
                    (buf_Usage internal_desc, buf_CPUAccessFlags internal_desc)
            in Inr (internal_desc
                 \<lparr> buf_ByteWidth := ucast sz,
                   buf_Usage := usage,
                   buf_CPUAccessFlags := cpu_access_flags,
                   buf_BindFlags :=
                     convert_resource_usage_to_bind_flags (desc_usage desc) (buf_BindFlags internal_desc) \<rparr>))"

definition convert_resource_desc_to_texture1d ::
  "resource_desc \<Rightarrow> D3D11_TEXTURE1D_DESC \<Rightarrow> error + D3D11_TEXTURE1D_DESC" where
  "convert_resource_desc_to_texture1d desc internal_desc =
     (if desc_type desc \<noteq> resource_type_texture_1d then Inl assertion_failed
      else case desc_union desc of
        buffer_member sz \<Rightarrow> Inl undefined_behaviour
      | texture_member width height depth_or_layers levels format samples \<Rightarrow>
          if height \<noteq> 1 then Inl assertion_failed
          else if samples \<noteq> 1 then Inl assertion_failed
          else
            let (usage, cpu_access_flags) =
                  convert_memory_heap_to_d3d_usage (desc_heap desc)
                    (tex1d_Usage internal_desc, tex1d_CPUAccessFlags internal_desc)
            in Inr (internal_desc
                 \<lparr> tex1d_Width := width,
                   tex1d_MipLevels := ucast levels,
                   tex1d_ArraySize := ucast depth_or_layers,
                   tex1d_Format := convert_format_to_dxgi format,
                   tex1d_Usage := usage,
                   tex1d_CPUAccessFlags := cpu_access_flags,
                   tex1d_BindFlags :=
                     convert_resource_usage_to_bind_flags (desc_usage desc) (tex1d_BindFlags internal_desc) \<rparr>))"

definition convert_resource_desc_to_texture2d ::
  "resource_desc \<Rightarrow> D3D11_TEXTURE2D_DESC \<Rightarrow> error + D3D11_TEXTURE2D_DESC" where
  "convert_resource_desc_to_texture2d desc internal_desc =
     (if desc_type desc \<noteq> resource_type_texture_2d then Inl assertion_failed
      else case desc_union desc of
        buffer_member sz \<Rightarrow> Inl undefined_behaviour
      | texture_member width height depth_or_layers levels format samples \<Rightarrow>
          let (usage, cpu_access_flags) =
                convert_memory_heap_to_d3d_usage (desc_heap desc)
                  (tex2d_Usage internal_desc, tex2d_CPUAccessFlags internal_desc)
          in Inr (internal_desc
               \<lparr> tex2d_Width := width,
                 tex2d_Height := height,
                 tex2d_MipLevels := ucast levels,
                 tex2d_ArraySize := ucast depth_or_layers,
                 tex2d_Format := convert_format_to_dxgi format,
                 tex2d_SampleDesc_Count := ucast samples,
                 tex2d_Usage := usage,
                 tex2d_CPUAccessFlags := cpu_access_flags,
                 tex2d_BindFlags :=
                   convert_resource_usage_to_bind_flags (desc_usage desc) (tex2d_BindFlags internal_desc) \<rparr>))"

definition convert_resource_desc_to_texture3d ::
  "resource_desc \<Rightarrow> D3D11_TEXTURE3D_DESC \<Rightarrow> error + D3D11_TEXTURE3D_DESC" where
  "convert_resource_desc_to_texture3d desc internal_desc =
     (if desc_type desc \<noteq> resource_type_texture_3d then Inl assertion_failed
      else case desc_union desc of
        buffer_member sz \<Rightarrow> Inl undefined_behaviour
      | texture_member width height depth_or_layers levels format samples \<Rightarrow>
          if samples \<noteq> 1 then Inl assertion_failed
          else
            let (usage, cpu_access_flags) =
                  convert_memory_heap_to_d3d_usage (desc_heap desc)
                    (tex3d_Usage internal_desc, tex3d_CPUAccessFlags internal_desc)
            in Inr (internal_desc
                 \<lparr> tex3d_Width := width,
                   tex3d_Height := height,
                   tex3d_Depth := ucast depth_or_layers,
                   tex3d_MipLevels := ucast levels,
                   tex3d_Format := convert_format_to_dxgi format,
                   tex3d_Usage := usage,
                   tex3d_CPUAccessFlags := cpu_access_flags,
                   tex3d_BindFlags :=
                     convert_resource_usage_to_bind_flags (desc_usage desc) (tex3d_BindFlags internal_desc) \<rparr>))"

text \<open>
  \<^verbatim>\<open>api::resource_desc convert_resource_desc(const D3D11_..._DESC &)\<close>.  Each overload
  starts from the value-initialised \<^verbatim>\<open>api::resource_desc desc = {}\<close>, whose heap is
  \<^verbatim>\<open>unknown\<close> and whose usage is \<^verbatim>\<open>undefined\<close>.
\<close>

definition convert_resource_desc_from_buffer :: "D3D11_BUFFER_DESC \<Rightarrow> error + resource_desc" where
  "convert_resource_desc_from_buffer internal_desc =
     Inr \<lparr> desc_type = resource_type_buffer,
           desc_union = buffer_member (ucast (buf_ByteWidth internal_desc)),
           desc_heap = convert_d3d_usage_to_memory_heap (buf_Usage internal_desc) memory_heap_unknown,
           desc_usage =
             convert_bind_flags_to_resource_usage (buf_BindFlags internal_desc) resource_usage_undefined \<rparr>"

definition convert_resource_desc_from_texture1d :: "D3D11_TEXTURE1D_DESC \<Rightarrow> error + resource_desc" where
  "convert_resource_desc_from_texture1d internal_desc =
     (if \<not> tex1d_ArraySize internal_desc \<le> 0xFFFF then Inl assertion_failed
      else if \<not> tex1d_MipLevels internal_desc \<le> 0xFFFF then Inl assertion_failed
      else Inr
        \<lparr> desc_type = resource_type_texture_1d,
          desc_union = texture_member (tex1d_Width internal_desc) 1
            (ucast (tex1d_ArraySize internal_desc)) (ucast (tex1d_MipLevels internal_desc))
            (convert_format_from_dxgi (tex1d_Format internal_desc)) 1,
          desc_heap = convert_d3d_usage_to_memory_heap (tex1d_Usage internal_desc) memory_heap_unknown,
          desc_usage =
            convert_bind_flags_to_resource_usage (tex1d_BindFlags internal_desc) resource_usage_undefined \<rparr>)"

definition convert_resource_desc_from_texture2d :: "D3D11_TEXTURE2D_DESC \<Rightarrow> error + resource_desc" where
  "convert_resource_desc_from_texture2d internal_desc =
     (if \<not> tex2d_ArraySize internal_desc \<le> 0xFFFF then Inl assertion_failed
      else if \<not> tex2d_MipLevels internal_desc \<le> 0xFFFF then Inl assertion_failed
      else
        let samples = (ucast (tex2d_SampleDesc_Count internal_desc) :: u16);
            usage = convert_bind_flags_to_resource_usage (tex2d_BindFlags internal_desc) resource_usage_undefined
        in Inr
          \<lparr> desc_type = resource_type_texture_2d,
            desc_union = texture_member (tex2d_Width internal_desc) (tex2d_Height internal_desc)
              (ucast (tex2d_ArraySize internal_desc)) (ucast (tex2d_MipLevels internal_desc))
              (convert_format_from_dxgi (tex2d_Format internal_desc)) samples,
            desc_heap = convert_d3d_usage_to_memory_heap (tex2d_Usage internal_desc) memory_heap_unknown,
            desc_usage =
              usage OR (if samples > 1 then resource_usage_resolve_source else resource_usage_resolve_dest) \<rparr>)"

definition convert_resource_desc_from_texture3d :: "D3D11_TEXTURE3D_DESC \<Rightarrow> error + resource_desc" where
  "convert_resource_desc_from_texture3d internal_desc =
     (if \<not> tex3d_Depth internal_desc \<le> 0xFFFF then Inl assertion_failed
      else if \<not> tex3d_MipLevels internal_desc \<le> 0xFFFF then Inl assertion_failed
      else Inr
        \<lparr> desc_type = resource_type_texture_3d,
          desc_union = texture_member (tex3d_Width internal_desc) (tex3d_Height internal_desc)
            (ucast (tex3d_Depth internal_desc)) (ucast (tex3d_MipLevels internal_desc))
            (convert_format_from_dxgi (tex3d_Format internal_desc)) 1,
          desc_heap = convert_d3d_usage_to_memory_heap (tex3d_Usage internal_desc) memory_heap_unknown,
          desc_usage =
            convert_bind_flags_to_resource_usage (tex3d_BindFlags internal_desc) resource_usage_undefined \<rparr>)"

text \<open>Bit-set inclusion of flag words: every bit of \<open>a\<close> is a bit of \<open>b\<close>.\<close>

definition flags_subset :: "u32 \<Rightarrow> u32 \<Rightarrow> bool" where
  "flags_subset a b = (a AND b = a)"

section \<open>Direct3D 10: the device implementation (source/d3d10/d3d10\_impl\_device.cpp)\<close>

subsection \<open>Descriptors of the device interface\<close>

text \<open>
  The device implementation is written against a revision of the interface whose header
  is not among the sources.  The types below have the enumerators and the fields that
  the device implementation names; the remaining values of an enumeration are carried by
  a last constructor that holds the raw value.
\<close>

datatype device_caps =
  device_caps_compute_shader
| device_caps_geometry_shader
| device_caps_hull_and_domain_shader
| device_caps_logic_op
| device_caps_dual_source_blend
| device_caps_independent_blend
| device_caps_fill_mode_non_solid
| device_caps_conservative_rasterization
| device_caps_bind_render_targets_and_depth_stencil
| device_caps_multi_viewport
| device_caps_partial_push_constant_updates
| device_caps_partial_push_descriptor_updates
| device_caps_draw_instanced
| device_caps_draw_or_dispatch_indirect
| device_caps_copy_buffer_region
| device_caps_copy_buffer_to_texture
| device_caps_blit
| device_caps_resolve_region
| device_caps_copy_query_pool_results
| device_caps_sampler_compare
| device_caps_sampler_anisotropic
| device_caps_sampler_with_resource_view
| device_caps_shared_resource
| device_caps_shared_resource_nt_handle
| device_caps_other u32

text \<open>
  \<^verbatim>\<open>api::resource_desc\<close> of this revision has a \<^verbatim>\<open>flags\<close> field.  The two enumerators of
  \<^verbatim>\<open>api::resource_flags\<close> that the device names are parameters of the model, since their
  values are declared in the absent header.
\<close>

record resource_desc_with_flags = resource_desc +
  desc_flags :: u32

record resource_flags =
  resource_flags_shared :: u32
  resource_flags_shared_nt_handle :: u32

datatype descriptor_type =
  descriptor_type_sampler
| descriptor_type_shader_resource_view
| descriptor_type_constant_buffer
| descriptor_type_other u32

record descriptor_range =
  range_binding :: u32
  range_dx_register_index :: u32
  range_dx_register_space :: u32
  range_type :: descriptor_type
  range_count :: u32
  range_array_size :: u32
  range_visibility :: u32

record constant_range =
  constant_dx_register_index :: u32
  constant_dx_register_space :: u32

text \<open>
  \<^verbatim>\<open>struct pipeline_layout_param\<close>: the \<^verbatim>\<open>type\<close> tag with the union it selects.  The
  \<^verbatim>\<open>descriptor_set\<close> member's \<^verbatim>\<open>count\<close> and \<^verbatim>\<open>ranges\<close> pointer are the list of ranges.
\<close>

datatype pipeline_layout_param =
  pipeline_layout_param_descriptor_set "descriptor_range list"
| pipeline_layout_param_push_descriptors descriptor_range
| pipeline_layout_param_push_constants constant_range


datatype dynamic_state = dynamic_state_primitive_topology | dynamic_state_other u32

datatype primitive_topology = primitive_topology_triangle_fan | primitive_topology_other u32



subsection \<open>The native device and the records the device owns\<close>

text \<open>
  The native \<^verbatim>\<open>ID3D10Device1\<close> behind \<^verbatim>\<open>_orig\<close> is an oracle: for each native call the
  device makes, the object the call returns (\<open>Some\<close> of its address when the call
  \<^verbatim>\<open>SUCCEEDED\<close>, \<open>None\<close> when it \<^verbatim>\<open>FAILED\<close>).  The conversions of
  \<^verbatim>\<open>d3d10_impl_type_convert.cpp\<close>, which is not among the sources, only prepare the
  arguments of these calls; \<open>internal_elements_empty\<close> says whether the converted input
  layout has no element, \<open>internal_elements_requests\<close> is the number of requests the
  conversion makes to the free store for the vector it fills, and
  \<open>convert_primitive_topology\<close> is the conversion of that name.
\<close>

record d3d10_native =
  hr_GetFeatureLevel :: u32
  hr_CreateSamplerState :: "u64 option"
  hr_OpenSharedResource :: "u64 option"
  hr_CreateBuffer :: "u64 option"
  hr_CreateTexture1D :: "u64 option"
  hr_CreateTexture2D :: "u64 option"
  hr_CreateTexture3D :: "u64 option"
  hr_QueryInterface_IDXGIResource :: "u64 option"
  hr_GetSharedHandle :: "u64 option"
  hr_CreateDepthStencilView :: "u64 option"
  hr_CreateRenderTargetView :: "u64 option"
  hr_CreateShaderResourceView1 :: "u64 option"
  internal_elements_empty :: bool
  internal_elements_requests :: nat
  hr_CreateInputLayout :: "u64 option"
  hr_CreateVertexShader :: "u64 option"
  hr_CreateGeometryShader :: "u64 option"
  hr_CreatePixelShader :: "u64 option"
  hr_CreateBlendState1 :: "u64 option"
  hr_CreateRasterizerState :: "u64 option"
  hr_CreateDepthStencilState :: "u64 option"
  hr_CreateQuery :: "nat \<Rightarrow> u64 option"
  convert_primitive_topology :: "primitive_topology \<Rightarrow> u32"

definition D3D_FEATURE_LEVEL_10_0 :: u32 where "D3D_FEATURE_LEVEL_10_0 = 0xa000"

record pipeline_impl =
  impl_vs :: u64
  impl_gs :: u64
  impl_ps :: u64
  impl_input_layout :: u64
  impl_blend_state :: u64
  impl_rasterizer_state :: u64
  impl_depth_stencil_state :: u64
  impl_topology :: u32
  impl_sample_mask :: u32
  impl_stencil_reference_value :: u32
  impl_blend_constant :: "u32 list"

record descriptor_set_impl =
  set_type :: descriptor_type
  set_count :: u32
  set_descriptors :: "u64 list"

datatype side_record =
  pipeline_impl_record pipeline_impl
| pipeline_layout_impl_record "descriptor_range list"
| descriptor_set_impl_record descriptor_set_impl
| query_pool_impl_record "u64 list"

text \<open>
  What a device operation does besides returning: the native calls it makes, the COM
  references it releases and the side records it deletes, in order.
\<close>

datatype effect =
  native_call string
| com_release u64
| delete_side_record u64

text \<open>
  The state the device operations act on: the side records allocated with \<^verbatim>\<open>new\<close>, by
  address; the address the next \<^verbatim>\<open>new\<close> returns; the number of allocation requests the
  free store still grants, the request after them being the one that throws
  \<^verbatim>\<open>std::bad_alloc\<close>; and the effects so far.  The number says which request of an
  operation is the first to fail; it is no account of the memory, and storage that is
  freed does not change it.
\<close>

record d3d10_device =
  dev_heap :: "u64 \<rightharpoonup> side_record"
  dev_next_alloc :: u64
  dev_free_store :: nat
  dev_effects :: "effect list"

definition perform :: "effect \<Rightarrow> d3d10_device \<Rightarrow> d3d10_device" where
  "perform e dev = dev\<lparr> dev_effects := dev_effects dev @ [e] \<rparr>"

text \<open>
  One allocation request to the free store (\<^verbatim>\<open>operator new\<close>); the request a
  \<^verbatim>\<open>std::vector\<close> makes when it is constructed with or resized to \<open>n\<close> elements, which is
  one request for its storage unless \<open>n\<close> is zero; and \<open>n\<close> requests in a row.
\<close>

definition operator_new :: "d3d10_device \<Rightarrow> error + d3d10_device" where
  "operator_new dev =
     (if dev_free_store dev = 0 then Inl bad_alloc
      else Inr (dev\<lparr> dev_free_store := dev_free_store dev - 1 \<rparr>))"

definition vector_storage :: "nat \<Rightarrow> d3d10_device \<Rightarrow> error + d3d10_device" where
  "vector_storage n dev = (if n = 0 then Inr dev else operator_new dev)"


text \<open>
  The side record \<open>r\<close> constructed in storage the free store has granted, and the whole
  \<^verbatim>\<open>new\<close> expression: the request, then the construction.
\<close>

definition construct_side_record :: "side_record \<Rightarrow> d3d10_device \<Rightarrow> u64 \<times> d3d10_device" where
  "construct_side_record r dev =
     (dev_next_alloc dev,
      dev\<lparr> dev_heap := (dev_heap dev)(dev_next_alloc dev \<mapsto> r),
           dev_next_alloc := dev_next_alloc dev + 16 \<rparr>)"

definition new_side_record :: "side_record \<Rightarrow> d3d10_device \<Rightarrow> error + (u64 \<times> d3d10_device)" where
  "new_side_record r dev =
     (case operator_new dev of
        Inl e \<Rightarrow> Inl e
      | Inr dev1 \<Rightarrow> Inr (construct_side_record r dev1))"

text \<open>A \<^verbatim>\<open>com_ptr\<close> that goes out of scope releases its object unless it is null.\<close>

definition com_ptr_release :: "u64 \<Rightarrow> d3d10_device \<Rightarrow> d3d10_device" where
  "com_ptr_release object dev = (if object \<noteq> 0 then perform (com_release object) dev else dev)"

subsection \<open>Capabilities\<close>

fun check_capability :: "d3d10_native \<Rightarrow> device_caps \<Rightarrow> bool" where
  "check_capability native device_caps_compute_shader = False"
| "check_capability native device_caps_geometry_shader =
     (hr_GetFeatureLevel native \<ge> D3D_FEATURE_LEVEL_10_0)"
| "check_capability native device_caps_hull_and_domain_shader = False"
| "check_capability native device_caps_logic_op = False"
| "check_capability native device_caps_dual_source_blend = True"
| "check_capability native device_caps_independent_blend = True"
| "check_capability native device_caps_fill_mode_non_solid = True"
| "check_capability native device_caps_conservative_rasterization = False"
| "check_capability native device_caps_bind_render_targets_and_depth_stencil = True"
| "check_capability native device_caps_multi_viewport = True"
| "check_capability native device_caps_partial_push_constant_updates = False"
| "check_capability native device_caps_partial_push_descriptor_updates = True"
| "check_capability native device_caps_draw_instanced = True"
| "check_capability native device_caps_draw_or_dispatch_indirect = False"
| "check_capability native device_caps_copy_buffer_region = True"
| "check_capability native device_caps_copy_buffer_to_texture = False"
| "check_capability native device_caps_blit = False"
| "check_capability native device_caps_resolve_region = False"
| "check_capability native device_caps_copy_query_pool_results = False"
| "check_capability native device_caps_sampler_compare = True"
| "check_capability native device_caps_sampler_anisotropic = True"
| "check_capability native device_caps_sampler_with_resource_view = False"
| "check_capability native device_caps_shared_resource = True"
| "check_capability native device_caps_shared_resource_nt_handle = False"
| "check_capability native (device_caps_other v) = False"

subsection \<open>Samplers, resources and resource views\<close>


definition destroy_sampler :: "u64 \<Rightarrow> d3d10_device \<Rightarrow> d3d10_device" where
  "destroy_sampler handle dev =
     (if handle \<noteq> 0 then perform (com_release handle) dev else dev)"

text \<open>
  \<^verbatim>\<open>get_shared_resource\<close> returns the shared handle it read, if both native calls
  succeeded; the \<^verbatim>\<open>IDXGIResource\<close> interface it queried is held by the local \<^verbatim>\<open>com_ptr\<close>
  \<^verbatim>\<open>object_dxgi\<close>, which releases it when the function returns.
  \<^verbatim>\<open>open_shared_resource\<close> returns the object it opened.
\<close>

definition get_shared_resource :: "d3d10_native \<Rightarrow> d3d10_device \<Rightarrow> u64 option \<times> d3d10_device" where
  "get_shared_resource native dev =
     (let dev1 = perform (native_call ''QueryInterface'') dev
      in case hr_QueryInterface_IDXGIResource native of
           Some object_dxgi \<Rightarrow>
             (hr_GetSharedHandle native,
              com_ptr_release object_dxgi (perform (native_call ''GetSharedHandle'') dev1))
         | None \<Rightarrow> (None, dev1))"

definition open_shared_resource :: "d3d10_native \<Rightarrow> d3d10_device \<Rightarrow> u64 option \<times> d3d10_device" where
  "open_shared_resource native dev =
     (hr_OpenSharedResource native, perform (native_call ''OpenSharedResource'') dev)"

text \<open>
  One \<^verbatim>\<open>case\<close> of the \<^verbatim>\<open>switch\<close> of \<^verbatim>\<open>create_resource\<close>: the native create call \<open>name\<close>
  with outcome \<open>hr\<close>, then the export of the shared handle if the resource is shared.
  The result is the boolean, the output handle and the value of \<^verbatim>\<open>*shared_handle\<close>.
\<close>

definition create_native_resource ::
  "string \<Rightarrow> u64 option \<Rightarrow> bool \<Rightarrow> u64 \<Rightarrow> d3d10_native \<Rightarrow> d3d10_device \<Rightarrow>
     (bool \<times> u64 \<times> u64) \<times> d3d10_device" where
  "create_native_resource name hr is_shared shared native dev =
     (let dev1 = perform (native_call name) dev
      in case hr of
           None \<Rightarrow> ((False, 0, shared), dev1)
         | Some object \<Rightarrow>
             if is_shared then
               (case get_shared_resource native dev1 of
                  (None, dev2) \<Rightarrow> ((False, 0, shared), com_ptr_release object dev2)
                | (Some exported, dev2) \<Rightarrow> ((True, object, exported), dev2))
             else ((True, object, shared), dev1))"

text \<open>
  \<^verbatim>\<open>create_resource\<close>.  \<open>initial_data\<close> says whether \<^verbatim>\<open>initial_data\<close> is non-null;
  \<open>shared_handle\<close> is \<open>None\<close> for a null \<^verbatim>\<open>shared_handle\<close> pointer and otherwise holds the
  \<^verbatim>\<open>HANDLE\<close> it points to.  The result holds the boolean, the handle written to
  \<^verbatim>\<open>*out_handle\<close> and the final value of \<^verbatim>\<open>*shared_handle\<close>.
\<close>

definition create_resource ::
  "resource_flags \<Rightarrow> d3d10_native \<Rightarrow> resource_desc_with_flags \<Rightarrow> bool \<Rightarrow> u64 option \<Rightarrow>
     d3d10_device \<Rightarrow> error + ((bool \<times> u64 \<times> u64 option) \<times> d3d10_device)" where
  "create_resource flags native desc initial_data shared_handle dev =
     (let is_shared = (desc_flags desc AND resource_flags_shared flags \<noteq> 0)
      in if is_shared \<and>
            (shared_handle = None \<or> desc_flags desc AND resource_flags_shared_nt_handle flags \<noteq> 0)
         then Inr ((False, 0, shared_handle), dev)
         else if is_shared \<and> the shared_handle \<noteq> 0 then
           (if initial_data then Inl assertion_failed
            else case open_shared_resource native dev of
                   (Some object, dev1) \<Rightarrow> Inr ((True, object, shared_handle), dev1)
                 | (None, dev1) \<Rightarrow> Inr ((False, 0, shared_handle), dev1))
         else
           let shared = (case shared_handle of None \<Rightarrow> 0 | Some h \<Rightarrow> h);
               finish = (\<lambda>((ok, handle, exported), dev1).
                 Inr ((ok, handle, map_option (\<lambda>h. exported) shared_handle), dev1))
           in case desc_type desc of
                resource_type_buffer \<Rightarrow>
                  finish (create_native_resource ''CreateBuffer'' (hr_CreateBuffer native)
                            is_shared shared native dev)
              | resource_type_texture_1d \<Rightarrow>
                  finish (create_native_resource ''CreateTexture1D'' (hr_CreateTexture1D native)
                            is_shared shared native dev)
              | resource_type_texture_2d \<Rightarrow>
                  finish (create_native_resource ''CreateTexture2D'' (hr_CreateTexture2D native)
                            is_shared shared native dev)
              | resource_type_texture_3d \<Rightarrow>
                  finish (create_native_resource ''CreateTexture3D'' (hr_CreateTexture3D native)
                            is_shared shared native dev)
              | resource_type_unknown \<Rightarrow> Inr ((False, 0, shared_handle), dev)
              | resource_type_surface \<Rightarrow> Inr ((False, 0, shared_handle), dev))"

definition destroy_resource :: "u64 \<Rightarrow> d3d10_device \<Rightarrow> d3d10_device" where
  "destroy_resource handle dev =
     (if handle \<noteq> 0 then perform (com_release handle) dev else dev)"


definition destroy_resource_view :: "u64 \<Rightarrow> d3d10_device \<Rightarrow> d3d10_device" where
  "destroy_resource_view handle dev =
     (if handle \<noteq> 0 then perform (com_release handle) dev else dev)"

subsection \<open>Pipelines\<close>












text \<open>
  \<^verbatim>\<open>destroy_pipeline\<close>.  Deleting a \<^verbatim>\<open>pipeline_impl\<close> releases the state objects it
  holds and frees the record; a tagged handle that is not the address of such a record
  is undefined behaviour.
\<close>

definition destroy_pipeline :: "u64 \<Rightarrow> d3d10_device \<Rightarrow> error + d3d10_device" where
  "destroy_pipeline handle dev =
     (if handle AND 1 \<noteq> 0 then
        (case dev_heap dev (handle XOR 1) of
           Some (pipeline_impl_record impl) \<Rightarrow>
             Inr (perform (delete_side_record (handle XOR 1))
                   (fold com_ptr_release
                      [impl_depth_stencil_state impl, impl_rasterizer_state impl, impl_blend_state impl,
                       impl_input_layout impl, impl_ps impl, impl_gs impl, impl_vs impl]
                      (dev\<lparr> dev_heap := (dev_heap dev)(handle XOR 1 := None) \<rparr>)))
         | _ \<Rightarrow> Inl undefined_behaviour)
      else if handle \<noteq> 0 then Inr (perform (com_release handle) dev)
      else Inr dev)"

subsection \<open>Pipeline layouts\<close>

text \<open>
  The loop over \<^verbatim>\<open>k = 1 .. count - 1\<close> of \<^verbatim>\<open>create_pipeline_layout\<close>: the ranges that
  remain are merged into \<open>merged_range\<close> one after the other; \<open>None\<close> is \<^verbatim>\<open>return false\<close>.
  All arithmetic is that of \<^verbatim>\<open>uint32_t\<close>.
\<close>

fun merge_descriptor_ranges :: "descriptor_range \<Rightarrow> descriptor_range list \<Rightarrow> descriptor_range option" where
  "merge_descriptor_ranges merged_range [] = Some merged_range"
| "merge_descriptor_ranges merged_range (rng # ranges) =
     (if range_type rng \<noteq> range_type merged_range \<or> range_array_size rng > 1 \<or>
         range_dx_register_space rng \<noteq> range_dx_register_space merged_range
      then None
      else if range_binding rng \<ge> range_binding merged_range then
        (let distance = range_binding rng - range_binding merged_range
         in if range_dx_register_index rng - range_dx_register_index merged_range \<noteq> distance
            then None
            else merge_descriptor_ranges
                   (merged_range\<lparr> range_count := range_count merged_range + distance,
                                  range_visibility := range_visibility merged_range OR range_visibility rng \<rparr>)
                   ranges)
      else
        (let distance = range_binding merged_range - range_binding rng
         in if range_dx_register_index merged_range - range_dx_register_index rng \<noteq> distance
            then None
            else merge_descriptor_ranges
                   (merged_range\<lparr> range_binding := range_binding rng,
                                  range_dx_register_index := range_dx_register_index rng,
                                  range_count := range_count merged_range + distance,
                                  range_visibility := range_visibility merged_range OR range_visibility rng \<rparr>)
                   ranges))"

text \<open>
  The body of the loop over the parameters: the merged range of one parameter, or \<open>None\<close>
  for \<^verbatim>\<open>return false\<close>.  \<open>default_range\<close> is the value-initialised \<^verbatim>\<open>api::descriptor_range\<close>
  that \<^verbatim>\<open>std::vector<api::descriptor_range> ranges(param_count)\<close> holds at first; its
  declaration is in the absent header, so it is a parameter.
\<close>

fun merge_layout_param :: "descriptor_range \<Rightarrow> pipeline_layout_param \<Rightarrow> descriptor_range option" where
  "merge_layout_param default_range (pipeline_layout_param_descriptor_set []) = None"
| "merge_layout_param default_range (pipeline_layout_param_descriptor_set (range0 # ranges)) =
     (if range_array_size range0 > 1 \<or> range_dx_register_space range0 \<noteq> 0 then None
      else merge_descriptor_ranges range0 ranges)"
| "merge_layout_param default_range (pipeline_layout_param_push_descriptors rng) =
     (if range_dx_register_space rng \<noteq> 0 then None else Some rng)"
| "merge_layout_param default_range (pipeline_layout_param_push_constants constants) =
     (if constant_dx_register_space constants \<noteq> 0 then None
      else Some (default_range\<lparr> range_dx_register_index := constant_dx_register_index constants,
                               range_dx_register_space := constant_dx_register_space constants \<rparr>))"

fun merge_layout_params :: "descriptor_range \<Rightarrow> pipeline_layout_param list \<Rightarrow> descriptor_range list option" where
  "merge_layout_params default_range [] = Some []"
| "merge_layout_params default_range (param # params) =
     (case merge_layout_param default_range param of
        None \<Rightarrow> None
      | Some merged_range \<Rightarrow>
          (case merge_layout_params default_range params of
             None \<Rightarrow> None
           | Some ranges \<Rightarrow> Some (merged_range # ranges)))"

text \<open>
  \<^verbatim>\<open>create_pipeline_layout\<close>: \<open>params\<close> is the array of \<^verbatim>\<open>param_count\<close> parameters.  The
  function first constructs the vector \<^verbatim>\<open>ranges\<close> of \<^verbatim>\<open>param_count\<close> elements, then merges
  the parameters into it, then allocates the \<^verbatim>\<open>pipeline_layout_impl\<close> the vector is moved
  into.
\<close>

definition create_pipeline_layout ::
  "descriptor_range \<Rightarrow> pipeline_layout_param list \<Rightarrow> d3d10_device \<Rightarrow>
     error + ((bool \<times> u64) \<times> d3d10_device)" where
  "create_pipeline_layout default_range params dev =
     (case vector_storage (length params) dev of
        Inl e \<Rightarrow> Inl e
      | Inr dev1 \<Rightarrow>
          (case merge_layout_params default_range params of
             None \<Rightarrow> Inr ((False, 0), dev1)
           | Some ranges \<Rightarrow>
               (case new_side_record (pipeline_layout_impl_record ranges) dev1 of
                  Inl e \<Rightarrow> Inl e
                | Inr (p, dev2) \<Rightarrow> Inr ((True, p), dev2))))"

subsection \<open>Descriptor sets\<close>

text \<open>
  The \<^verbatim>\<open>switch\<close> of \<^verbatim>\<open>allocate_descriptor_sets\<close> that sizes the descriptor array of a new
  set; the products are those of \<^verbatim>\<open>uint32_t\<close>, and the \<^verbatim>\<open>default\<close> case asserts.
\<close>

fun resize_descriptors :: "descriptor_type \<Rightarrow> u32 \<Rightarrow> error + u64 list" where
  "resize_descriptors descriptor_type_sampler count = Inr (replicate (unat (count * 1)) 0)"
| "resize_descriptors descriptor_type_shader_resource_view count = Inr (replicate (unat (count * 1)) 0)"
| "resize_descriptors descriptor_type_constant_buffer count = Inr (replicate (unat (count * 3)) 0)"
| "resize_descriptors (descriptor_type_other v) count = Inl assertion_failed"

text \<open>
  The loop of \<^verbatim>\<open>allocate_descriptor_sets\<close> for a non-null \<^verbatim>\<open>layout_impl\<close>, with \<open>n\<close>
  iterations left; it returns the handles written to \<^verbatim>\<open>out_sets\<close>.  An iteration
  allocates the \<^verbatim>\<open>descriptor_set_impl\<close>, reads the range of the layout, and resizes the
  descriptor array, which requests its storage.  A layout handle that is not the address
  of a \<^verbatim>\<open>pipeline_layout_impl\<close> and a \<^verbatim>\<open>layout_param\<close> that is not an index of its ranges
  are undefined behaviour.
\<close>

fun allocate_descriptor_sets_loop ::
  "nat \<Rightarrow> u64 \<Rightarrow> u32 \<Rightarrow> d3d10_device \<Rightarrow> error + (u64 list \<times> d3d10_device)" where
  "allocate_descriptor_sets_loop 0 layout layout_param dev = Inr ([], dev)"
| "allocate_descriptor_sets_loop (Suc n) layout layout_param dev =
     (case operator_new dev of
        Inl e \<Rightarrow> Inl e
      | Inr dev1 \<Rightarrow>
          (case dev_heap dev1 layout of
             Some (pipeline_layout_impl_record ranges) \<Rightarrow>
               if \<not> unat layout_param < length ranges then Inl undefined_behaviour
               else
                 let rng = ranges ! unat layout_param
                 in (case resize_descriptors (range_type rng) (range_count rng) of
                       Inl e \<Rightarrow> Inl e
                     | Inr descriptors \<Rightarrow>
                         (case vector_storage (length descriptors) dev1 of
                            Inl e \<Rightarrow> Inl e
                          | Inr dev2 \<Rightarrow>
                              let (p, dev3) = construct_side_record
                                    (descriptor_set_impl_record
                                       \<lparr> set_type = range_type rng, set_count = range_count rng,
                                         set_descriptors = descriptors \<rparr>) dev2
                              in (case allocate_descriptor_sets_loop n layout layout_param dev3 of
                                    Inl e \<Rightarrow> Inl e
                                  | Inr (out_sets, dev4) \<Rightarrow> Inr (p # out_sets, dev4))))
           | _ \<Rightarrow> Inl undefined_behaviour))"

definition allocate_descriptor_sets ::
  "u32 \<Rightarrow> u64 \<Rightarrow> u32 \<Rightarrow> d3d10_device \<Rightarrow> error + ((bool \<times> u64 list) \<times> d3d10_device)" where
  "allocate_descriptor_sets count layout layout_param dev =
     (if layout \<noteq> 0 then
        (case allocate_descriptor_sets_loop (unat count) layout layout_param dev of
           Inl e \<Rightarrow> Inl e
         | Inr (out_sets, dev1) \<Rightarrow> Inr ((True, out_sets), dev1))
      else Inr ((False, replicate (unat count) 0), dev))"

subsection \<open>Query pools\<close>



section \<open>Vulkan: the device hooks (source/vulkan/vulkan\_hooks\_device.cpp)\<close>

subsection \<open>Device creation\<close>

text \<open>Constants of the Vulkan headers.\<close>

definition VK_SUCCESS :: int where "VK_SUCCESS = 0"
definition VK_ERROR_INITIALIZATION_FAILED :: int where "VK_ERROR_INITIALIZATION_FAILED = - 3"
definition VK_QUEUE_GRAPHICS_BIT :: u32 where "VK_QUEUE_GRAPHICS_BIT = 0x1"
definition VK_MAX_EXTENSION_NAME_SIZE :: nat where "VK_MAX_EXTENSION_NAME_SIZE = 256"

definition VK_KHR_SWAPCHAIN_EXTENSION_NAME :: string where
  "VK_KHR_SWAPCHAIN_EXTENSION_NAME = ''VK_KHR_swapchain''"
definition VK_KHR_PUSH_DESCRIPTOR_EXTENSION_NAME :: string where
  "VK_KHR_PUSH_DESCRIPTOR_EXTENSION_NAME = ''VK_KHR_push_descriptor''"
definition VK_KHR_IMAGE_FORMAT_LIST_EXTENSION_NAME :: string where
  "VK_KHR_IMAGE_FORMAT_LIST_EXTENSION_NAME = ''VK_KHR_image_format_list''"
definition VK_KHR_SWAPCHAIN_MUTABLE_FORMAT_EXTENSION_NAME :: string where
  "VK_KHR_SWAPCHAIN_MUTABLE_FORMAT_EXTENSION_NAME = ''VK_KHR_swapchain_mutable_format''"
definition VK_EXT_DEBUG_MARKER_EXTENSION_NAME :: string where
  "VK_EXT_DEBUG_MARKER_EXTENSION_NAME = ''VK_EXT_debug_marker''"

lemmas VK_EXTENSION_NAME_defs =
  VK_KHR_SWAPCHAIN_EXTENSION_NAME_def VK_KHR_PUSH_DESCRIPTOR_EXTENSION_NAME_def
  VK_KHR_IMAGE_FORMAT_LIST_EXTENSION_NAME_def VK_KHR_SWAPCHAIN_MUTABLE_FORMAT_EXTENSION_NAME_def
  VK_EXT_DEBUG_MARKER_EXTENSION_NAME_def

definition UINT32_MAX :: u32 where "UINT32_MAX = 0xFFFFFFFF"

text \<open>
  \<^verbatim>\<open>VkPhysicalDeviceFeatures\<close> is a structure of boolean fields; it is modelled as the
  function from the name of a field to its value.  \<^verbatim>\<open>VkDeviceCreateInfo\<close> has the fields
  the hook reads: the queue create infos, the enabled extension names, the features of a
  \<^verbatim>\<open>VkPhysicalDeviceFeatures2\<close> in the \<^verbatim>\<open>pNext\<close> chain (if there is one) and
  \<^verbatim>\<open>pEnabledFeatures\<close> (if not null).
\<close>

type_synonym VkPhysicalDeviceFeatures = "string \<Rightarrow> bool"

record VkDeviceQueueCreateInfo =
  queueFamilyIndex :: u32
  queueCount :: u32

record VkDeviceCreateInfo =
  pQueueCreateInfos :: "VkDeviceQueueCreateInfo list"
  ppEnabledExtensionNames :: "string list"
  pNext_features2 :: "VkPhysicalDeviceFeatures option"
  pEnabledFeatures :: "VkPhysicalDeviceFeatures option"

text \<open>
  What the instance dispatch table reports of the physical device: the \<^verbatim>\<open>queueFlags\<close> of
  its queue families and the names of the extensions it supports.
\<close>

record VkPhysicalDevice =
  queue_families :: "u32 list"
  extensions :: "string list"

text \<open>
  The outcome of the hook: the \<^verbatim>\<open>VkResult\<close> it returns; the extension names and features
  of the \<^verbatim>\<open>create_info\<close> it passed to the trampoline, if it called it; and the
  \<^verbatim>\<open>_graphics_queue_family_index\<close> of the \<^verbatim>\<open>device_impl\<close> it created, if it created one.
\<close>

record vkCreateDevice_outcome =
  returned :: int
  trampoline_extensions :: "string list option"
  trampoline_features :: "VkPhysicalDeviceFeatures option"
  graphics_queue_family_index_of_device :: "u32 option"

text \<open>
  The loop that looks for the first queue family which supports graphics and has at
  least one queue; the result is the value of \<^verbatim>\<open>graphics_queue_family_index\<close> after it.
  The assertion that the queue family index is one of the device is compiled only
  without \<^verbatim>\<open>NDEBUG\<close>; with it, the vector of queue families is indexed out of range when
  the index is not, unless \<^verbatim>\<open>queueCount\<close> is zero, in which case \<^verbatim>\<open>&&\<close> does not evaluate
  the access.
\<close>

fun find_graphics_queue_family ::
  "bool \<Rightarrow> u32 list \<Rightarrow> VkDeviceQueueCreateInfo list \<Rightarrow> error + u32" where
  "find_graphics_queue_family NDEBUG families [] = Inr UINT32_MAX"
| "find_graphics_queue_family NDEBUG families (info # infos) =
     (if \<not> NDEBUG \<and> \<not> unat (queueFamilyIndex info) < length families then Inl assertion_failed
      else if queueCount info > 0 then
        (if \<not> unat (queueFamilyIndex info) < length families then Inl undefined_behaviour
         else if families ! unat (queueFamilyIndex info) AND VK_QUEUE_GRAPHICS_BIT \<noteq> 0
           then Inr (queueFamilyIndex info)
         else find_graphics_queue_family NDEBUG families infos)
      else find_graphics_queue_family NDEBUG families infos)"

text \<open>
  The \<^verbatim>\<open>std::find_if\<close> of the \<^verbatim>\<open>add_extension\<close> lambda: is there a supported extension
  whose name agrees with \<open>name\<close> on the first \<^verbatim>\<open>VK_MAX_EXTENSION_NAME_SIZE\<close> characters
  (\<^verbatim>\<open>strncmp\<close>)?
\<close>

definition extension_supported :: "string list \<Rightarrow> string \<Rightarrow> bool" where
  "extension_supported supported name =
     list_ex (\<lambda>props. take VK_MAX_EXTENSION_NAME_SIZE props = take VK_MAX_EXTENSION_NAME_SIZE name)
       supported"

text \<open>
  The \<^verbatim>\<open>add_extension\<close> lambda, on the two variables it captures by reference and
  changes: \<^verbatim>\<open>enabled_extensions\<close> and \<^verbatim>\<open>graphics_queue_family_index\<close>.  Its boolean result
  is discarded by every call.
\<close>

definition add_extension ::
  "string list \<Rightarrow> string \<Rightarrow> bool \<Rightarrow> string list \<times> u32 \<Rightarrow> string list \<times> u32" where
  "add_extension supported name required =
     (\<lambda>(enabled_extensions, graphics_queue_family_index).
        if extension_supported supported name
          then (enabled_extensions @ [name], graphics_queue_family_index)
        else if required then (enabled_extensions, UINT32_MAX)
        else (enabled_extensions, graphics_queue_family_index))"

text \<open>
  \<^verbatim>\<open>vkCreateDevice\<close>.  \<open>NDEBUG\<close> is the macro of that name.  \<open>trampoline\<close> is the next
  \<^verbatim>\<open>vkCreateDevice\<close> of the call chain as the hook resolved it, \<open>None\<close> when it could not
  be resolved; it is an oracle that maps the extension names and the features it is
  called with to its \<^verbatim>\<open>VkResult\<close>.  The initialisation of the dispatch table and the
  registration of the device and its queues, which follow a successful native creation,
  are represented by the \<^verbatim>\<open>device_impl\<close> field of the outcome.
\<close>

definition vkCreateDevice ::
  "bool \<Rightarrow> (string list \<Rightarrow> VkPhysicalDeviceFeatures \<Rightarrow> int) option \<Rightarrow> VkPhysicalDevice \<Rightarrow>
     VkDeviceCreateInfo \<Rightarrow> error + vkCreateDevice_outcome" where
  "vkCreateDevice NDEBUG trampoline physicalDevice pCreateInfo =
     (case trampoline of
        None \<Rightarrow>
          Inr \<lparr> returned = VK_ERROR_INITIALIZATION_FAILED, trampoline_extensions = None,
                trampoline_features = None, graphics_queue_family_index_of_device = None \<rparr>
      | Some next_vkCreateDevice \<Rightarrow>
          (case find_graphics_queue_family NDEBUG (queue_families physicalDevice)
                  (pQueueCreateInfos pCreateInfo) of
             Inl e \<Rightarrow> Inl e
           | Inr found \<Rightarrow>
               let enabled_features =
                     (case pNext_features2 pCreateInfo of
                        Some features \<Rightarrow> features
                      | None \<Rightarrow>
                          (case pEnabledFeatures pCreateInfo of
                             Some features \<Rightarrow> features
                           | None \<Rightarrow> (\<lambda>field. False)));
                   enabled_extensions = ppEnabledExtensionNames pCreateInfo;
                   (enabled_features, enabled_extensions, graphics_queue_family_index) =
                     (if \<not> list_ex (\<lambda>name. name = VK_KHR_SWAPCHAIN_EXTENSION_NAME) enabled_extensions
                        then (enabled_features, enabled_extensions, UINT32_MAX)
                      else if found = UINT32_MAX
                        then (enabled_features, enabled_extensions, found)
                      else
                        let (extensions, index) =
                              (if NDEBUG then id
                               else add_extension (extensions physicalDevice)
                                      VK_EXT_DEBUG_MARKER_EXTENSION_NAME False)
                              (add_extension (extensions physicalDevice)
                                 VK_KHR_SWAPCHAIN_MUTABLE_FORMAT_EXTENSION_NAME True
                              (add_extension (extensions physicalDevice)
                                 VK_KHR_IMAGE_FORMAT_LIST_EXTENSION_NAME True
                              (add_extension (extensions physicalDevice)
                                 VK_KHR_PUSH_DESCRIPTOR_EXTENSION_NAME False
                                 (enabled_extensions, found))))
                        in (enabled_features
                              (''shaderImageGatherExtended'' := True,
                               ''shaderStorageImageWriteWithoutFormat'' := True),
                            extensions, index));
                   result = next_vkCreateDevice enabled_extensions enabled_features
               in if result \<noteq> VK_SUCCESS
                  then Inr \<lparr> returned = result, trampoline_extensions = Some enabled_extensions,
                             trampoline_features = Some enabled_features,
                             graphics_queue_family_index_of_device = None \<rparr>
                  else Inr \<lparr> returned = VK_SUCCESS, trampoline_extensions = Some enabled_extensions,
                             trampoline_features = Some enabled_features,
                             graphics_queue_family_index_of_device = Some graphics_queue_family_index \<rparr>))"

subsection \<open>The object registries and the destruction hooks\<close>

text \<open>
  Modelled from the spec: \<^verbatim>\<open>lockfree_table.hpp\<close> is not among the sources.  By the
  specification of the object registry, \<^verbatim>\<open>at(key)\<close> looks a key up and returns its value or
  null, \<^verbatim>\<open>erase(key)\<close> removes the key and returns the value it had or null, and
  \<^verbatim>\<open>clear()\<close> removes every key.  A table is a map; null is \<open>None\<close>.
\<close>

definition table_at :: "('k \<rightharpoonup> 'v) \<Rightarrow> 'k \<Rightarrow> 'v option" where
  "table_at table key = table key"

definition table_erase :: "('k \<rightharpoonup> 'v) \<Rightarrow> 'k \<Rightarrow> 'v option \<times> ('k \<rightharpoonup> 'v)" where
  "table_erase table key = (table key, table(key := None))"

definition table_clear :: "('k \<rightharpoonup> 'v) \<Rightarrow> ('k \<rightharpoonup> 'v)" where
  "table_clear table = Map.empty"

text \<open>
  The \<^verbatim>\<open>device_impl\<close> of a device, as far as the hooks use it: the native handles
  (\<^verbatim>\<open>_orig\<close>) of the \<^verbatim>\<open>command_queue_impl\<close> objects in \<^verbatim>\<open>_queues\<close>, the entries of
  \<^verbatim>\<open>_dispatch_table\<close> that are not null, by name, and the registry of the buffers of the
  device.

  Modelled from the spec: \<^verbatim>\<open>device_impl::unregister_buffer\<close> is declared in a header that
  is not among the sources.  By the specification, registry entries are erased on
  destruction: it erases the entry of the buffer from the registry of the device.
\<close>

record vk_device_impl =
  impl_queues :: "u64 list"
  impl_dispatch_table :: "string \<Rightarrow> bool"
  impl_buffers :: "u64 \<rightharpoonup> unit"

definition unregister_buffer :: "u64 \<Rightarrow> vk_device_impl \<Rightarrow> vk_device_impl" where
  "unregister_buffer buffer impl =
     impl\<lparr> impl_buffers := snd (table_erase (impl_buffers impl) buffer) \<rparr>"

text \<open>
  The registries of the layer.  A \<^verbatim>\<open>device_impl *\<close> in \<^verbatim>\<open>g_vulkan_devices\<close> is modelled by
  the object it points to; the wrapper objects in the other two tables are modelled by
  their addresses.
\<close>

record vk_registries =
  g_vulkan_devices :: "u64 \<rightharpoonup> vk_device_impl"
  s_vulkan_queues :: "u64 \<rightharpoonup> u64"
  s_vulkan_command_buffers :: "u64 \<rightharpoonup> u64"

text \<open>
  What a hook does, in order: the registry entries it erases, the wrapper objects it
  deletes and the trampoline it calls with its arguments.  Every event is recorded with
  the registries as they are when it has happened, which is what a lookup made at that
  moment finds.
\<close>

datatype vk_event =
  erased string u64
| cleared string
| deleted u64
| trampoline_called string "u64 list"

record vk_layer =
  registries :: vk_registries
  events :: "(vk_event \<times> vk_registries) list"

definition record_event :: "vk_event \<Rightarrow> vk_layer \<Rightarrow> vk_layer" where
  "record_event e layer = layer\<lparr> events := events layer @ [(e, registries layer)] \<rparr>"

text \<open>\<^verbatim>\<open>delete p\<close> of a wrapper object: nothing happens for a null pointer.\<close>

definition delete_wrapper :: "u64 option \<Rightarrow> vk_layer \<Rightarrow> vk_layer" where
  "delete_wrapper p layer = (case p of None \<Rightarrow> layer | Some object \<Rightarrow> record_event (deleted object) layer)"

text \<open>
  \<^verbatim>\<open>GET_DISPATCH_PTR_FROM(name, data)\<close> followed by the call of the trampoline: both
  assertions of the macro, then the call.
\<close>

definition call_trampoline ::
  "string \<Rightarrow> vk_device_impl option \<Rightarrow> u64 list \<Rightarrow> vk_layer \<Rightarrow> error + vk_layer" where
  "call_trampoline name data arguments layer =
     (case data of
        None \<Rightarrow> Inl assertion_failed
      | Some impl \<Rightarrow>
          if \<not> impl_dispatch_table impl name then Inl assertion_failed
          else Inr (record_event (trampoline_called name arguments) layer))"

text \<open>
  \<^verbatim>\<open>vkDestroyBuffer\<close>.  \<open>RESHADE_ADDON\<close> is the macro of that name and
  \<open>dispatch_key_from_handle\<close> the function of that name, which is not among the sources.
\<close>

definition vkDestroyBuffer ::
  "bool \<Rightarrow> (u64 \<Rightarrow> u64) \<Rightarrow> u64 \<Rightarrow> u64 \<Rightarrow> u64 \<Rightarrow> vk_layer \<Rightarrow> error + vk_layer" where
  "vkDestroyBuffer RESHADE_ADDON dispatch_key_from_handle device buffer pAllocator layer =
     (case table_at (g_vulkan_devices (registries layer)) (dispatch_key_from_handle device) of
        None \<Rightarrow> Inl assertion_failed
      | Some device_impl \<Rightarrow>
          let layer1 =
                (if RESHADE_ADDON then
                   record_event (erased ''device_impl::_buffers'' buffer)
                     (layer\<lparr> registries := (registries layer)
                        \<lparr> g_vulkan_devices := (g_vulkan_devices (registries layer))
                             (dispatch_key_from_handle device \<mapsto> unregister_buffer buffer device_impl) \<rparr> \<rparr>)
                 else layer)
          in call_trampoline ''DestroyBuffer'' (Some device_impl) [device, buffer, pAllocator] layer1)"

text \<open>The loop of \<^verbatim>\<open>vkFreeCommandBuffers\<close> over \<^verbatim>\<open>pCommandBuffers\<close>.\<close>

fun erase_command_buffers :: "u64 list \<Rightarrow> vk_layer \<Rightarrow> vk_layer" where
  "erase_command_buffers [] layer = layer"
| "erase_command_buffers (commandBuffer # commandBuffers) layer =
     (let (cmd_impl, table) = table_erase (s_vulkan_command_buffers (registries layer)) commandBuffer;
          layer1 = record_event (erased ''s_vulkan_command_buffers'' commandBuffer)
                     (layer\<lparr> registries := (registries layer)\<lparr> s_vulkan_command_buffers := table \<rparr> \<rparr>)
      in erase_command_buffers commandBuffers (delete_wrapper cmd_impl layer1))"

definition vkFreeCommandBuffers ::
  "bool \<Rightarrow> (u64 \<Rightarrow> u64) \<Rightarrow> u64 \<Rightarrow> u64 \<Rightarrow> u64 list \<Rightarrow> vk_layer \<Rightarrow> error + vk_layer" where
  "vkFreeCommandBuffers RESHADE_ADDON dispatch_key_from_handle device commandPool pCommandBuffers layer =
     (let layer1 = (if RESHADE_ADDON then erase_command_buffers pCommandBuffers layer else layer)
      in call_trampoline ''FreeCommandBuffers''
           (table_at (g_vulkan_devices (registries layer1)) (dispatch_key_from_handle device))
           (device # commandPool # pCommandBuffers) layer1)"

text \<open>
  The loop of \<^verbatim>\<open>vkDestroyDevice\<close> over the queues of the device.  Deleting a
  \<^verbatim>\<open>command_queue_impl\<close> removes it from the queue list of the device, as the comment in
  the source says, so that the assertion after the loop holds.
\<close>

fun erase_queues :: "u64 list \<Rightarrow> vk_layer \<Rightarrow> vk_layer" where
  "erase_queues [] layer = layer"
| "erase_queues (queue # queues) layer =
     (let (queue_impl, table) = table_erase (s_vulkan_queues (registries layer)) queue;
          layer1 = record_event (erased ''s_vulkan_queues'' queue)
                     (layer\<lparr> registries := (registries layer)\<lparr> s_vulkan_queues := table \<rparr> \<rparr>)
      in erase_queues queues (record_event (deleted queue) layer1))"

definition vkDestroyDevice ::
  "(u64 \<Rightarrow> u64) \<Rightarrow> u64 \<Rightarrow> u64 \<Rightarrow> vk_layer \<Rightarrow> error + vk_layer" where
  "vkDestroyDevice dispatch_key_from_handle device pAllocator layer =
     (let layer1 = record_event (cleared ''s_vulkan_command_buffers'')
                     (layer\<lparr> registries := (registries layer)
                        \<lparr> s_vulkan_command_buffers :=
                             table_clear (s_vulkan_command_buffers (registries layer)) \<rparr> \<rparr>);
          (device_impl, table) =
            table_erase (g_vulkan_devices (registries layer1)) (dispatch_key_from_handle device);
          layer2 = record_event (erased ''g_vulkan_devices'' (dispatch_key_from_handle device))
                     (layer1\<lparr> registries := (registries layer1)\<lparr> g_vulkan_devices := table \<rparr> \<rparr>)
      in case device_impl of
           None \<Rightarrow> Inl assertion_failed
         | Some impl \<Rightarrow>
             let layer3 = erase_queues (impl_queues impl) layer2
             in if \<not> impl_dispatch_table impl ''DestroyDevice'' then Inl assertion_failed
                else call_trampoline ''DestroyDevice'' (Some impl) [device, pAllocator]
                       (record_event (deleted device) layer3))"

section \<open>Verified properties of the Direct3D 11 descriptor conversion\<close>

subsection \<open>Round trip of resource descriptions\<close>

lemma ucast_u16_u32_u16: "(ucast (ucast (x::u16) :: u32) :: u16) = x"
  by (simp add: ucast_up_ucast_id is_up)

lemma ucast_u16_le: "(ucast (x::u16) :: u32) \<le> 0xFFFF"
proof -
  have "unat x < 2 ^ 16" using unsigned_less [of x] by simp
  then have "unat (ucast x :: u32) < 65536" by (simp add: unsigned_ucast_eq take_bit_nat_eq_self)
  then show ?thesis by (simp add: word_le_nat_alt)
qed

lemma ucast_u64_u32_u64:
  assumes "(sz::u64) \<le> 0xFFFFFFFF"
  shows "(ucast (ucast sz :: u32) :: u64) = sz"
proof -
  have a: "unat sz < 2 ^ 32" using assms by (simp add: word_le_nat_alt)
  have "unat (ucast (ucast sz :: u32) :: u64) = unat sz"
    using a by (simp add: unsigned_ucast_eq unsigned_take_bit_eq take_bit_nat_eq_self)
  then show ?thesis by (simp add: word_unat_eq_iff)
qed

lemma set_or_clear_other:
  "f AND g = 0 \<Longrightarrow> set_or_clear_bind_flag u c f b AND g = b AND g"
proof -
  assume fg: "f AND g = 0"
  have 1: "(b OR f) AND g = b AND g"
    using fg by (simp add: bit.conj_disj_distrib2)
  have "\<not> bit (f AND g) n" for n using fg by simp
  then have "\<And>n. bit g n \<Longrightarrow> \<not> bit f n"
    by (auto simp: bit_and_iff)
  then have 2: "(b AND NOT f) AND g = b AND g"
    by (intro bit_eqI) (auto simp: bit_and_iff bit_not_iff)
  show ?thesis using 1 2 by (simp add: set_or_clear_bind_flag_def)
qed

lemma set_or_clear_same:
  "f \<noteq> 0 \<Longrightarrow> (set_or_clear_bind_flag u c f b AND f = 0) \<longleftrightarrow> (u AND c = 0)"
proof -
  assume f: "f \<noteq> 0"
  have 1: "(b OR f) AND f = f" by (intro bit_eqI) (auto simp: bit_and_iff bit_or_iff)
  have 2: "(b AND NOT f) AND f = 0" by (intro bit_eqI) (auto simp: bit_and_iff bit_not_iff)
  show ?thesis using f 1 2 by (simp add: set_or_clear_bind_flag_def)
qed

lemma bind_flag_tests:
  "convert_resource_usage_to_bind_flags u b AND D3D11_BIND_RENDER_TARGET = 0 \<longleftrightarrow> u AND resource_usage_render_target = 0"
  "convert_resource_usage_to_bind_flags u b AND D3D11_BIND_DEPTH_STENCIL = 0 \<longleftrightarrow> u AND resource_usage_depth_stencil = 0"
  "convert_resource_usage_to_bind_flags u b AND D3D11_BIND_SHADER_RESOURCE = 0 \<longleftrightarrow> u AND resource_usage_shader_resource = 0"
  "convert_resource_usage_to_bind_flags u b AND D3D11_BIND_UNORDERED_ACCESS = 0 \<longleftrightarrow> u AND resource_usage_unordered_access = 0"
  "convert_resource_usage_to_bind_flags u b AND D3D11_BIND_INDEX_BUFFER = 0 \<longleftrightarrow> u AND resource_usage_index_buffer = 0"
  "convert_resource_usage_to_bind_flags u b AND D3D11_BIND_VERTEX_BUFFER = 0 \<longleftrightarrow> u AND resource_usage_vertex_buffer = 0"
  "convert_resource_usage_to_bind_flags u b AND D3D11_BIND_CONSTANT_BUFFER = 0 \<longleftrightarrow> u AND resource_usage_constant_buffer = 0"
  unfolding convert_resource_usage_to_bind_flags_def D3D11_BIND_defs
  by (simp_all add: set_or_clear_other set_or_clear_same)

lemma add_usage_if_bound_alt:
  "add_usage_if_bound b f u x = x OR (if b AND f = 0 then 0 else u)"
  by (simp add: add_usage_if_bound_def)

lemma usage_round_trip:
  "convert_bind_flags_to_resource_usage (convert_resource_usage_to_bind_flags u b) resource_usage_undefined =
     resource_usage_copy_dest OR resource_usage_copy_source
     OR (if u AND resource_usage_render_target = 0 then 0 else resource_usage_render_target)
     OR (if u AND resource_usage_depth_stencil = 0 then 0 else resource_usage_depth_stencil)
     OR (if u AND resource_usage_shader_resource = 0 then 0 else resource_usage_shader_resource)
     OR (if u AND resource_usage_unordered_access = 0 then 0 else resource_usage_unordered_access)
     OR (if u AND resource_usage_index_buffer = 0 then 0 else resource_usage_index_buffer)
     OR (if u AND resource_usage_vertex_buffer = 0 then 0 else resource_usage_vertex_buffer)
     OR (if u AND resource_usage_constant_buffer = 0 then 0 else resource_usage_constant_buffer)"
  unfolding convert_bind_flags_to_resource_usage_def add_usage_if_bound_alt bind_flag_tests
    resource_usage_undefined_def
  by (simp only: or.assoc or.left_neutral)

lemma heap_round_trip:
  "h = memory_heap_gpu_only \<or> h = memory_heap_cpu_to_gpu \<or> h = memory_heap_gpu_to_cpu \<Longrightarrow>
   convert_d3d_usage_to_memory_heap (fst (convert_memory_heap_to_d3d_usage h (u, c))) x = h"
  by auto

lemma buffer_round_trip:
  assumes "convert_resource_desc_to_buffer d b = Inr n"
  shows "convert_resource_desc_from_buffer n = Inr
    \<lparr> desc_type = desc_type d, desc_union = desc_union d,
      desc_heap = convert_d3d_usage_to_memory_heap
        (fst (convert_memory_heap_to_d3d_usage (desc_heap d) (buf_Usage b, buf_CPUAccessFlags b))) memory_heap_unknown,
      desc_usage = convert_bind_flags_to_resource_usage
        (convert_resource_usage_to_bind_flags (desc_usage d) (buf_BindFlags b)) resource_usage_undefined \<rparr>"
  using assms
  by (auto simp: convert_resource_desc_to_buffer_def convert_resource_desc_from_buffer_def
      ucast_u64_u32_u64 split: if_splits resource_desc_union.splits prod.splits)

lemma texture1d_round_trip:
  assumes "convert_resource_desc_to_texture1d d b = Inr n"
  shows "\<exists>w h z l f s. desc_union d = texture_member w h z l f s \<and>
    convert_resource_desc_from_texture1d n = Inr
    \<lparr> desc_type = desc_type d, desc_union = texture_member w h z l (convert_format_to_dxgi f) s,
      desc_heap = convert_d3d_usage_to_memory_heap
        (fst (convert_memory_heap_to_d3d_usage (desc_heap d) (tex1d_Usage b, tex1d_CPUAccessFlags b))) memory_heap_unknown,
      desc_usage = convert_bind_flags_to_resource_usage
        (convert_resource_usage_to_bind_flags (desc_usage d) (tex1d_BindFlags b)) resource_usage_undefined \<rparr>"
  using assms
  by (auto simp: convert_resource_desc_to_texture1d_def convert_resource_desc_from_texture1d_def
      convert_format_from_dxgi_def ucast_u16_u32_u16 ucast_u16_le
      split: if_splits resource_desc_union.splits prod.splits)

lemma texture2d_round_trip:
  assumes "convert_resource_desc_to_texture2d d b = Inr n"
  shows "\<exists>w h z l f s. desc_union d = texture_member w h z l f s \<and>
    convert_resource_desc_from_texture2d n = Inr
    \<lparr> desc_type = desc_type d, desc_union = texture_member w h z l (convert_format_to_dxgi f) s,
      desc_heap = convert_d3d_usage_to_memory_heap
        (fst (convert_memory_heap_to_d3d_usage (desc_heap d) (tex2d_Usage b, tex2d_CPUAccessFlags b))) memory_heap_unknown,
      desc_usage = convert_bind_flags_to_resource_usage
        (convert_resource_usage_to_bind_flags (desc_usage d) (tex2d_BindFlags b)) resource_usage_undefined
        OR (if s > 1 then resource_usage_resolve_source else resource_usage_resolve_dest) \<rparr>"
  using assms
  by (auto simp: convert_resource_desc_to_texture2d_def convert_resource_desc_from_texture2d_def
      convert_format_from_dxgi_def ucast_u16_u32_u16 ucast_u16_le Let_def
      split: if_splits resource_desc_union.splits prod.splits)

lemma texture3d_round_trip:
  assumes "convert_resource_desc_to_texture3d d b = Inr n"
  shows "\<exists>w h z l f s. desc_union d = texture_member w h z l f s \<and>
    convert_resource_desc_from_texture3d n = Inr
    \<lparr> desc_type = desc_type d, desc_union = texture_member w h z l (convert_format_to_dxgi f) s,
      desc_heap = convert_d3d_usage_to_memory_heap
        (fst (convert_memory_heap_to_d3d_usage (desc_heap d) (tex3d_Usage b, tex3d_CPUAccessFlags b))) memory_heap_unknown,
      desc_usage = convert_bind_flags_to_resource_usage
        (convert_resource_usage_to_bind_flags (desc_usage d) (tex3d_BindFlags b)) resource_usage_undefined \<rparr>"
  using assms
  by (auto simp: convert_resource_desc_to_texture3d_def convert_resource_desc_from_texture3d_def
      convert_format_from_dxgi_def ucast_u16_u32_u16 ucast_u16_le
      split: if_splits resource_desc_union.splits prod.splits)

lemma convert_format_to_dxgi_alt:
  "convert_format_to_dxgi f = (if f < 1000 then f else DXGI_FORMAT_UNKNOWN)"
  using leD [of 1000 f] by (auto simp: convert_format_to_dxgi_def not_le)

lemmas conv_defs =
  convert_resource_desc_to_buffer_def convert_resource_desc_to_texture1d_def
  convert_resource_desc_to_texture2d_def convert_resource_desc_to_texture3d_def
  convert_resource_desc_from_buffer_def convert_resource_desc_from_texture1d_def
  convert_resource_desc_from_texture2d_def convert_resource_desc_from_texture3d_def
  convert_resource_usage_to_bind_flags_def convert_bind_flags_to_resource_usage_def
  set_or_clear_bind_flag_def add_usage_if_bound_def convert_format_to_dxgi_def
  convert_format_from_dxgi_def DXGI_FORMAT_UNKNOWN_def D3D11_CPU_ACCESS_READ_def
  D3D11_CPU_ACCESS_WRITE_def

text \<open>
  Claim C1 (amended).  For every neutral resource descriptor the D3D11 conversion accepts
  (every assertion of the conversion to the native description holds), converting it to
  the native description and back succeeds and yields a descriptor with the original
  type, the original buffer size or texture width, height, depth or layers, levels and
  samples, the original format when it is below 1000 (a format the native enumeration
  cannot express comes back as \<^verbatim>\<open>DXGI_FORMAT_UNKNOWN\<close>), and the original heap when that
  is \<^verbatim>\<open>gpu_only\<close>, \<^verbatim>\<open>cpu_to_gpu\<close> or \<^verbatim>\<open>gpu_to_cpu\<close>.  The usage is not returned unchanged:
  it comes back as \<^verbatim>\<open>copy_dest | copy_source\<close> together with every bind-related usage class
  (render target, depth-stencil, shader resource, unordered access, index, vertex and
  constant buffer) of which the original had at least one bit, and, for 2D textures, the
  resolve flag the sample count implies.  The native description the conversion writes
  into (\<open>ib\<close>, \<open>i1\<close>, \<open>i2\<close>, \<open>i3\<close>) is arbitrary.
\<close>

theorem convert_resource_desc_round_trip:
  "(convert_resource_desc_to_buffer db ib = Inr nb \<longrightarrow>
      (\<exists>d'. convert_resource_desc_from_buffer nb = Inr d' \<and>
         desc_type d' = desc_type db \<and> desc_union d' = desc_union db \<and>
         (desc_heap db \<in> {memory_heap_gpu_only, memory_heap_cpu_to_gpu, memory_heap_gpu_to_cpu} \<longrightarrow>
            desc_heap d' = desc_heap db) \<and>
         desc_usage d' = convert_bind_flags_to_resource_usage
           (convert_resource_usage_to_bind_flags (desc_usage db) (buf_BindFlags ib)) resource_usage_undefined)) \<and>
   (convert_resource_desc_to_texture1d d1 i1 = Inr n1 \<longrightarrow>
      (\<exists>d' w h z l f s. convert_resource_desc_from_texture1d n1 = Inr d' \<and>
         desc_type d' = desc_type d1 \<and> desc_union d1 = texture_member w h z l f s \<and>
         desc_union d' = texture_member w h z l (if f < 1000 then f else DXGI_FORMAT_UNKNOWN) s \<and>
         (desc_heap d1 \<in> {memory_heap_gpu_only, memory_heap_cpu_to_gpu, memory_heap_gpu_to_cpu} \<longrightarrow>
            desc_heap d' = desc_heap d1) \<and>
         desc_usage d' = convert_bind_flags_to_resource_usage
           (convert_resource_usage_to_bind_flags (desc_usage d1) (tex1d_BindFlags i1)) resource_usage_undefined)) \<and>
   (convert_resource_desc_to_texture2d d2 i2 = Inr n2 \<longrightarrow>
      (\<exists>d' w h z l f s. convert_resource_desc_from_texture2d n2 = Inr d' \<and>
         desc_type d' = desc_type d2 \<and> desc_union d2 = texture_member w h z l f s \<and>
         desc_union d' = texture_member w h z l (if f < 1000 then f else DXGI_FORMAT_UNKNOWN) s \<and>
         (desc_heap d2 \<in> {memory_heap_gpu_only, memory_heap_cpu_to_gpu, memory_heap_gpu_to_cpu} \<longrightarrow>
            desc_heap d' = desc_heap d2) \<and>
         desc_usage d' = convert_bind_flags_to_resource_usage
           (convert_resource_usage_to_bind_flags (desc_usage d2) (tex2d_BindFlags i2)) resource_usage_undefined
           OR (if s > 1 then resource_usage_resolve_source else resource_usage_resolve_dest))) \<and>
   (convert_resource_desc_to_texture3d d3 i3 = Inr n3 \<longrightarrow>
      (\<exists>d' w h z l f s. convert_resource_desc_from_texture3d n3 = Inr d' \<and>
         desc_type d' = desc_type d3 \<and> desc_union d3 = texture_member w h z l f s \<and>
         desc_union d' = texture_member w h z l (if f < 1000 then f else DXGI_FORMAT_UNKNOWN) s \<and>
         (desc_heap d3 \<in> {memory_heap_gpu_only, memory_heap_cpu_to_gpu, memory_heap_gpu_to_cpu} \<longrightarrow>
            desc_heap d' = desc_heap d3) \<and>
         desc_usage d' = convert_bind_flags_to_resource_usage
           (convert_resource_usage_to_bind_flags (desc_usage d3) (tex3d_BindFlags i3)) resource_usage_undefined)) \<and>
   convert_bind_flags_to_resource_usage (convert_resource_usage_to_bind_flags u b) resource_usage_undefined =
     resource_usage_copy_dest OR resource_usage_copy_source
     OR (if u AND resource_usage_render_target = 0 then 0 else resource_usage_render_target)
     OR (if u AND resource_usage_depth_stencil = 0 then 0 else resource_usage_depth_stencil)
     OR (if u AND resource_usage_shader_resource = 0 then 0 else resource_usage_shader_resource)
     OR (if u AND resource_usage_unordered_access = 0 then 0 else resource_usage_unordered_access)
     OR (if u AND resource_usage_index_buffer = 0 then 0 else resource_usage_index_buffer)
     OR (if u AND resource_usage_vertex_buffer = 0 then 0 else resource_usage_vertex_buffer)
     OR (if u AND resource_usage_constant_buffer = 0 then 0 else resource_usage_constant_buffer)"
proof (intro conjI impI)
  assume "convert_resource_desc_to_buffer db ib = Inr nb"
  from buffer_round_trip [OF this]
  show "\<exists>d'. convert_resource_desc_from_buffer nb = Inr d' \<and>
         desc_type d' = desc_type db \<and> desc_union d' = desc_union db \<and>
         (desc_heap db \<in> {memory_heap_gpu_only, memory_heap_cpu_to_gpu, memory_heap_gpu_to_cpu} \<longrightarrow>
            desc_heap d' = desc_heap db) \<and>
         desc_usage d' = convert_bind_flags_to_resource_usage
           (convert_resource_usage_to_bind_flags (desc_usage db) (buf_BindFlags ib)) resource_usage_undefined"
    by (auto simp: heap_round_trip)
next
  assume "convert_resource_desc_to_texture1d d1 i1 = Inr n1"
  from texture1d_round_trip [OF this]
  show "\<exists>d' w h z l f s. convert_resource_desc_from_texture1d n1 = Inr d' \<and>
         desc_type d' = desc_type d1 \<and> desc_union d1 = texture_member w h z l f s \<and>
         desc_union d' = texture_member w h z l (if f < 1000 then f else DXGI_FORMAT_UNKNOWN) s \<and>
         (desc_heap d1 \<in> {memory_heap_gpu_only, memory_heap_cpu_to_gpu, memory_heap_gpu_to_cpu} \<longrightarrow>
            desc_heap d' = desc_heap d1) \<and>
         desc_usage d' = convert_bind_flags_to_resource_usage
           (convert_resource_usage_to_bind_flags (desc_usage d1) (tex1d_BindFlags i1)) resource_usage_undefined"
    by (auto simp: heap_round_trip convert_format_to_dxgi_alt split del: if_split)
next
  assume "convert_resource_desc_to_texture2d d2 i2 = Inr n2"
  from texture2d_round_trip [OF this]
  show "\<exists>d' w h z l f s. convert_resource_desc_from_texture2d n2 = Inr d' \<and>
         desc_type d' = desc_type d2 \<and> desc_union d2 = texture_member w h z l f s \<and>
         desc_union d' = texture_member w h z l (if f < 1000 then f else DXGI_FORMAT_UNKNOWN) s \<and>
         (desc_heap d2 \<in> {memory_heap_gpu_only, memory_heap_cpu_to_gpu, memory_heap_gpu_to_cpu} \<longrightarrow>
            desc_heap d' = desc_heap d2) \<and>
         desc_usage d' = convert_bind_flags_to_resource_usage
           (convert_resource_usage_to_bind_flags (desc_usage d2) (tex2d_BindFlags i2)) resource_usage_undefined
           OR (if s > 1 then resource_usage_resolve_source else resource_usage_resolve_dest)"
    by (auto simp: heap_round_trip convert_format_to_dxgi_alt split del: if_split)
next
  assume "convert_resource_desc_to_texture3d d3 i3 = Inr n3"
  from texture3d_round_trip [OF this]
  show "\<exists>d' w h z l f s. convert_resource_desc_from_texture3d n3 = Inr d' \<and>
         desc_type d' = desc_type d3 \<and> desc_union d3 = texture_member w h z l f s \<and>
         desc_union d' = texture_member w h z l (if f < 1000 then f else DXGI_FORMAT_UNKNOWN) s \<and>
         (desc_heap d3 \<in> {memory_heap_gpu_only, memory_heap_cpu_to_gpu, memory_heap_gpu_to_cpu} \<longrightarrow>
            desc_heap d' = desc_heap d3) \<and>
         desc_usage d' = convert_bind_flags_to_resource_usage
           (convert_resource_usage_to_bind_flags (desc_usage d3) (tex3d_BindFlags i3)) resource_usage_undefined"
    by (auto simp: heap_round_trip convert_format_to_dxgi_alt split del: if_split)
next
  show "convert_bind_flags_to_resource_usage (convert_resource_usage_to_bind_flags u b) resource_usage_undefined =
     resource_usage_copy_dest OR resource_usage_copy_source
     OR (if u AND resource_usage_render_target = 0 then 0 else resource_usage_render_target)
     OR (if u AND resource_usage_depth_stencil = 0 then 0 else resource_usage_depth_stencil)
     OR (if u AND resource_usage_shader_resource = 0 then 0 else resource_usage_shader_resource)
     OR (if u AND resource_usage_unordered_access = 0 then 0 else resource_usage_unordered_access)
     OR (if u AND resource_usage_index_buffer = 0 then 0 else resource_usage_index_buffer)
     OR (if u AND resource_usage_vertex_buffer = 0 then 0 else resource_usage_vertex_buffer)
     OR (if u AND resource_usage_constant_buffer = 0 then 0 else resource_usage_constant_buffer)"
    by (rule usage_round_trip)
qed

text \<open>
  The round trip theorem at one accepted descriptor of each resource type, written into
  zero-initialised native descriptions.
\<close>

theorem convert_resource_desc_round_trip_witness:
  "convert_resource_desc_to_buffer
     \<lparr> desc_type = resource_type_buffer, desc_union = buffer_member 1024,
       desc_heap = memory_heap_gpu_only, desc_usage = 0xC01 \<rparr>
     \<lparr> buf_ByteWidth = 0, buf_Usage = D3D11_USAGE_DEFAULT, buf_BindFlags = 0,
       buf_CPUAccessFlags = 0, buf_MiscFlags = 0, buf_StructureByteStride = 0 \<rparr>
   = Inr \<lparr> buf_ByteWidth = 1024, buf_Usage = D3D11_USAGE_DEFAULT, buf_BindFlags = 0x1,
       buf_CPUAccessFlags = 0, buf_MiscFlags = 0, buf_StructureByteStride = 0 \<rparr> \<and>
   convert_resource_desc_from_buffer
     \<lparr> buf_ByteWidth = 1024, buf_Usage = D3D11_USAGE_DEFAULT, buf_BindFlags = 0x1,
       buf_CPUAccessFlags = 0, buf_MiscFlags = 0, buf_StructureByteStride = 0 \<rparr>
   = Inr \<lparr> desc_type = resource_type_buffer, desc_union = buffer_member 1024,
       desc_heap = memory_heap_gpu_only, desc_usage = 0xC01 \<rparr> \<and>
   convert_resource_desc_to_texture1d
     \<lparr> desc_type = resource_type_texture_1d, desc_union = texture_member 64 1 1 1 28 1,
       desc_heap = memory_heap_cpu_to_gpu, desc_usage = resource_usage_shader_resource \<rparr>
     \<lparr> tex1d_Width = 0, tex1d_MipLevels = 0, tex1d_ArraySize = 0, tex1d_Format = 0,
       tex1d_Usage = D3D11_USAGE_DEFAULT, tex1d_BindFlags = 0, tex1d_CPUAccessFlags = 0,
       tex1d_MiscFlags = 0 \<rparr>
   = Inr \<lparr> tex1d_Width = 64, tex1d_MipLevels = 1, tex1d_ArraySize = 1, tex1d_Format = 28,
       tex1d_Usage = D3D11_USAGE_DYNAMIC, tex1d_BindFlags = 0x8, tex1d_CPUAccessFlags = 0x10000,
       tex1d_MiscFlags = 0 \<rparr> \<and>
   convert_resource_desc_from_texture1d
     \<lparr> tex1d_Width = 64, tex1d_MipLevels = 1, tex1d_ArraySize = 1, tex1d_Format = 28,
       tex1d_Usage = D3D11_USAGE_DYNAMIC, tex1d_BindFlags = 0x8, tex1d_CPUAccessFlags = 0x10000,
       tex1d_MiscFlags = 0 \<rparr>
   = Inr \<lparr> desc_type = resource_type_texture_1d, desc_union = texture_member 64 1 1 1 28 1,
       desc_heap = memory_heap_cpu_to_gpu, desc_usage = 0xCC0 \<rparr> \<and>
   convert_resource_desc_to_texture2d
     \<lparr> desc_type = resource_type_texture_2d, desc_union = texture_member 256 256 1 1 28 1,
       desc_heap = memory_heap_gpu_only, desc_usage = resource_usage_shader_resource \<rparr>
     \<lparr> tex2d_Width = 0, tex2d_Height = 0, tex2d_MipLevels = 0, tex2d_ArraySize = 0,
       tex2d_Format = 0, tex2d_SampleDesc_Count = 0, tex2d_SampleDesc_Quality = 0,
       tex2d_Usage = D3D11_USAGE_DEFAULT, tex2d_BindFlags = 0, tex2d_CPUAccessFlags = 0,
       tex2d_MiscFlags = 0 \<rparr>
   = Inr \<lparr> tex2d_Width = 256, tex2d_Height = 256, tex2d_MipLevels = 1, tex2d_ArraySize = 1,
       tex2d_Format = 28, tex2d_SampleDesc_Count = 1, tex2d_SampleDesc_Quality = 0,
       tex2d_Usage = D3D11_USAGE_DEFAULT, tex2d_BindFlags = 0x8, tex2d_CPUAccessFlags = 0,
       tex2d_MiscFlags = 0 \<rparr> \<and>
   convert_resource_desc_from_texture2d
     \<lparr> tex2d_Width = 256, tex2d_Height = 256, tex2d_MipLevels = 1, tex2d_ArraySize = 1,
       tex2d_Format = 28, tex2d_SampleDesc_Count = 1, tex2d_SampleDesc_Quality = 0,
       tex2d_Usage = D3D11_USAGE_DEFAULT, tex2d_BindFlags = 0x8, tex2d_CPUAccessFlags = 0,
       tex2d_MiscFlags = 0 \<rparr>
   = Inr \<lparr> desc_type = resource_type_texture_2d, desc_union = texture_member 256 256 1 1 28 1,
       desc_heap = memory_heap_gpu_only, desc_usage = 0x1CC0 \<rparr> \<and>
   convert_resource_desc_to_texture3d
     \<lparr> desc_type = resource_type_texture_3d, desc_union = texture_member 16 16 16 1 28 1,
       desc_heap = memory_heap_gpu_to_cpu, desc_usage = resource_usage_render_target \<rparr>
     \<lparr> tex3d_Width = 0, tex3d_Height = 0, tex3d_Depth = 0, tex3d_MipLevels = 0,
       tex3d_Format = 0, tex3d_Usage = D3D11_USAGE_DEFAULT, tex3d_BindFlags = 0,
       tex3d_CPUAccessFlags = 0, tex3d_MiscFlags = 0 \<rparr>
   = Inr \<lparr> tex3d_Width = 16, tex3d_Height = 16, tex3d_Depth = 16, tex3d_MipLevels = 1,
       tex3d_Format = 28, tex3d_Usage = D3D11_USAGE_STAGING, tex3d_BindFlags = 0x20,
       tex3d_CPUAccessFlags = 0x20000, tex3d_MiscFlags = 0 \<rparr> \<and>
   convert_resource_desc_from_texture3d
     \<lparr> tex3d_Width = 16, tex3d_Height = 16, tex3d_Depth = 16, tex3d_MipLevels = 1,
       tex3d_Format = 28, tex3d_Usage = D3D11_USAGE_STAGING, tex3d_BindFlags = 0x20,
       tex3d_CPUAccessFlags = 0x20000, tex3d_MiscFlags = 0 \<rparr>
   = Inr \<lparr> desc_type = resource_type_texture_3d, desc_union = texture_member 16 16 16 1 28 1,
       desc_heap = memory_heap_gpu_to_cpu, desc_usage = 0xC04 \<rparr> \<and>
   (28 :: u32) < 1000"
  using convert_resource_desc_round_trip
    [of "\<lparr> desc_type = resource_type_buffer, desc_union = buffer_member 1024,
           desc_heap = memory_heap_gpu_only, desc_usage = 0xC01 \<rparr>"
        "\<lparr> buf_ByteWidth = 0, buf_Usage = D3D11_USAGE_DEFAULT, buf_BindFlags = 0,
           buf_CPUAccessFlags = 0, buf_MiscFlags = 0, buf_StructureByteStride = 0 \<rparr>"
        "\<lparr> buf_ByteWidth = 1024, buf_Usage = D3D11_USAGE_DEFAULT, buf_BindFlags = 0x1,
           buf_CPUAccessFlags = 0, buf_MiscFlags = 0, buf_StructureByteStride = 0 \<rparr>"
        "\<lparr> desc_type = resource_type_texture_1d, desc_union = texture_member 64 1 1 1 28 1,
           desc_heap = memory_heap_cpu_to_gpu, desc_usage = resource_usage_shader_resource \<rparr>"
        "\<lparr> tex1d_Width = 0, tex1d_MipLevels = 0, tex1d_ArraySize = 0, tex1d_Format = 0,
           tex1d_Usage = D3D11_USAGE_DEFAULT, tex1d_BindFlags = 0, tex1d_CPUAccessFlags = 0,
           tex1d_MiscFlags = 0 \<rparr>"
        "\<lparr> tex1d_Width = 64, tex1d_MipLevels = 1, tex1d_ArraySize = 1, tex1d_Format = 28,
           tex1d_Usage = D3D11_USAGE_DYNAMIC, tex1d_BindFlags = 0x8, tex1d_CPUAccessFlags = 0x10000,
           tex1d_MiscFlags = 0 \<rparr>"
        "\<lparr> desc_type = resource_type_texture_2d, desc_union = texture_member 256 256 1 1 28 1,
           desc_heap = memory_heap_gpu_only, desc_usage = resource_usage_shader_resource \<rparr>"
        "\<lparr> tex2d_Width = 0, tex2d_Height = 0, tex2d_MipLevels = 0, tex2d_ArraySize = 0,
           tex2d_Format = 0, tex2d_SampleDesc_Count = 0, tex2d_SampleDesc_Quality = 0,
           tex2d_Usage = D3D11_USAGE_DEFAULT, tex2d_BindFlags = 0, tex2d_CPUAccessFlags = 0,
           tex2d_MiscFlags = 0 \<rparr>"
        "\<lparr> tex2d_Width = 256, tex2d_Height = 256, tex2d_MipLevels = 1, tex2d_ArraySize = 1,
           tex2d_Format = 28, tex2d_SampleDesc_Count = 1, tex2d_SampleDesc_Quality = 0,
           tex2d_Usage = D3D11_USAGE_DEFAULT, tex2d_BindFlags = 0x8, tex2d_CPUAccessFlags = 0,
           tex2d_MiscFlags = 0 \<rparr>"
        "\<lparr> desc_type = resource_type_texture_3d, desc_union = texture_member 16 16 16 1 28 1,
           desc_heap = memory_heap_gpu_to_cpu, desc_usage = resource_usage_render_target \<rparr>"
        "\<lparr> tex3d_Width = 0, tex3d_Height = 0, tex3d_Depth = 0, tex3d_MipLevels = 0,
           tex3d_Format = 0, tex3d_Usage = D3D11_USAGE_DEFAULT, tex3d_BindFlags = 0,
           tex3d_CPUAccessFlags = 0, tex3d_MiscFlags = 0 \<rparr>"
        "\<lparr> tex3d_Width = 16, tex3d_Height = 16, tex3d_Depth = 16, tex3d_MipLevels = 1,
           tex3d_Format = 28, tex3d_Usage = D3D11_USAGE_STAGING, tex3d_BindFlags = 0x20,
           tex3d_CPUAccessFlags = 0x20000, tex3d_MiscFlags = 0 \<rparr>"
        0 0]
  by (simp add: conv_defs resource_usage_defs D3D11_BIND_defs)

text \<open>
  Claim C1 as stated fails.  A 256 x 256 2D texture with one mip level, format 28
  (\<^verbatim>\<open>DXGI_FORMAT_R8G8B8A8_UNORM\<close>), one sample, heap \<^verbatim>\<open>gpu_only\<close> and usage
  \<^verbatim>\<open>shader_resource\<close>, converted into a zero-initialised native description and back,
  has usage \<open>0x1CC0\<close> (shader resource, copy source, copy dest and resolve dest); and a
  buffer on the \<^verbatim>\<open>cpu_only\<close> heap comes back on the \<^verbatim>\<open>gpu_to_cpu\<close> heap.
\<close>

theorem convert_resource_desc_round_trip_counterexample:
  "convert_resource_desc_to_texture2d
     \<lparr> desc_type = resource_type_texture_2d, desc_union = texture_member 256 256 1 1 28 1,
       desc_heap = memory_heap_gpu_only, desc_usage = resource_usage_shader_resource \<rparr>
     \<lparr> tex2d_Width = 0, tex2d_Height = 0, tex2d_MipLevels = 0, tex2d_ArraySize = 0,
       tex2d_Format = 0, tex2d_SampleDesc_Count = 0, tex2d_SampleDesc_Quality = 0,
       tex2d_Usage = D3D11_USAGE_DEFAULT, tex2d_BindFlags = 0, tex2d_CPUAccessFlags = 0,
       tex2d_MiscFlags = 0 \<rparr>
   = Inr \<lparr> tex2d_Width = 256, tex2d_Height = 256, tex2d_MipLevels = 1, tex2d_ArraySize = 1,
       tex2d_Format = 28, tex2d_SampleDesc_Count = 1, tex2d_SampleDesc_Quality = 0,
       tex2d_Usage = D3D11_USAGE_DEFAULT, tex2d_BindFlags = 0x8, tex2d_CPUAccessFlags = 0,
       tex2d_MiscFlags = 0 \<rparr> \<and>
   convert_resource_desc_from_texture2d
     \<lparr> tex2d_Width = 256, tex2d_Height = 256, tex2d_MipLevels = 1, tex2d_ArraySize = 1,
       tex2d_Format = 28, tex2d_SampleDesc_Count = 1, tex2d_SampleDesc_Quality = 0,
       tex2d_Usage = D3D11_USAGE_DEFAULT, tex2d_BindFlags = 0x8, tex2d_CPUAccessFlags = 0,
       tex2d_MiscFlags = 0 \<rparr>
   = Inr \<lparr> desc_type = resource_type_texture_2d, desc_union = texture_member 256 256 1 1 28 1,
       desc_heap = memory_heap_gpu_only, desc_usage = 0x1CC0 \<rparr> \<and>
   resource_usage_shader_resource \<noteq> (0x1CC0 :: u32) \<and>
   convert_resource_desc_to_buffer
     \<lparr> desc_type = resource_type_buffer, desc_union = buffer_member 1024,
       desc_heap = memory_heap_cpu_only, desc_usage = 0xC01 \<rparr>
     \<lparr> buf_ByteWidth = 0, buf_Usage = D3D11_USAGE_DEFAULT, buf_BindFlags = 0,
       buf_CPUAccessFlags = 0, buf_MiscFlags = 0, buf_StructureByteStride = 0 \<rparr>
   = Inr \<lparr> buf_ByteWidth = 1024, buf_Usage = D3D11_USAGE_STAGING, buf_BindFlags = 0x1,
       buf_CPUAccessFlags = 0x30000, buf_MiscFlags = 0, buf_StructureByteStride = 0 \<rparr> \<and>
   convert_resource_desc_from_buffer
     \<lparr> buf_ByteWidth = 1024, buf_Usage = D3D11_USAGE_STAGING, buf_BindFlags = 0x1,
       buf_CPUAccessFlags = 0x30000, buf_MiscFlags = 0, buf_StructureByteStride = 0 \<rparr>
   = Inr \<lparr> desc_type = resource_type_buffer, desc_union = buffer_member 1024,
       desc_heap = memory_heap_gpu_to_cpu, desc_usage = 0xC01 \<rparr>"
  by (simp add: conv_defs resource_usage_defs D3D11_BIND_defs)

subsection \<open>Monotonic flag conversion\<close>

lemma flags_subset_refl: "flags_subset x x"
  by (simp add: flags_subset_def)

lemma flags_subset_bit: "flags_subset a b \<longleftrightarrow> (\<forall>n. bit a n \<longrightarrow> bit b n)"
proof
  assume "flags_subset a b"
  then have "a AND b = a" by (simp add: flags_subset_def)
  then show "\<forall>n. bit a n \<longrightarrow> bit b n" by (metis bit_and_iff)
next
  assume "\<forall>n. bit a n \<longrightarrow> bit b n"
  then have "a AND b = a" by (intro bit_eqI) (auto simp: bit_and_iff)
  then show "flags_subset a b" by (simp add: flags_subset_def)
qed

lemma flags_subset_nonzero:
  assumes "flags_subset a b" and "a AND f \<noteq> 0"
  shows "b AND f \<noteq> 0"
proof
  assume "b AND f = 0"
  have "a AND f = (a AND b) AND f" using assms(1) by (simp add: flags_subset_def)
  also have "\<dots> = a AND (b AND f)" by (simp add: and.assoc)
  also have "\<dots> = 0" using \<open>b AND f = 0\<close> by simp
  finally show False using assms(2) by simp
qed

lemma add_usage_if_bound_mono:
  assumes "flags_subset a b" and "flags_subset x y"
  shows "flags_subset (add_usage_if_bound a f u x) (add_usage_if_bound b f u y)"
proof -
  have 1: "flags_subset (x OR u) (y OR u)"
    using assms(2) by (auto simp: flags_subset_bit bit_or_iff)
  have 2: "flags_subset x (y OR u)"
    using assms(2) by (auto simp: flags_subset_bit bit_or_iff)
  show ?thesis
    using 1 2 assms(2) flags_subset_nonzero [OF assms(1)]
    by (auto simp: add_usage_if_bound_def)
qed

lemma add_usage_if_bound_keeps:
  assumes "flags_subset c x"
  shows "flags_subset c (add_usage_if_bound a f u x)"
  using assms by (auto simp: add_usage_if_bound_def flags_subset_bit bit_or_iff)

text \<open>
  Claim C2.  The conversion of native bind flags to the neutral usage flags is monotonic:
  whenever the bind flags \<open>a\<close> are a subset of the bind flags \<open>b\<close> (as bit sets), the usage
  converted from \<open>a\<close> is a subset of the usage converted from \<open>b\<close>; and for every input
  the converted usage contains \<^verbatim>\<open>copy_source\<close> and \<^verbatim>\<open>copy_dest\<close>.  The function ORs into the
  usage value it is given, so the statement holds for every such starting value \<open>usage\<close>.
\<close>

theorem convert_bind_flags_to_resource_usage_monotonic:
  "(flags_subset a b \<longrightarrow>
      flags_subset (convert_bind_flags_to_resource_usage a usage)
                   (convert_bind_flags_to_resource_usage b usage)) \<and>
   flags_subset (resource_usage_copy_source OR resource_usage_copy_dest)
                (convert_bind_flags_to_resource_usage a usage)"
proof
  show "flags_subset a b \<longrightarrow>
      flags_subset (convert_bind_flags_to_resource_usage a usage)
                   (convert_bind_flags_to_resource_usage b usage)"
    unfolding convert_bind_flags_to_resource_usage_def
    by (intro impI add_usage_if_bound_mono flags_subset_refl)
next
  have "flags_subset (resource_usage_copy_source OR resource_usage_copy_dest)
          (usage OR (resource_usage_copy_dest OR resource_usage_copy_source))"
    by (auto simp: flags_subset_bit bit_or_iff)
  then show "flags_subset (resource_usage_copy_source OR resource_usage_copy_dest)
                (convert_bind_flags_to_resource_usage a usage)"
    unfolding convert_bind_flags_to_resource_usage_def
    by (intro add_usage_if_bound_keeps)
qed

text \<open>
  The theorem at the shader-resource bind flag (\<open>0x8\<close>) and at shader-resource plus
  render-target (\<open>0x28\<close>), starting from the empty usage.
\<close>

theorem convert_bind_flags_to_resource_usage_monotonic_witness:
  "flags_subset (0x8 :: u32) 0x28 \<and>
   convert_bind_flags_to_resource_usage 0x8 0 = 0xCC0 \<and>
   convert_bind_flags_to_resource_usage 0x28 0 = 0xCC4 \<and>
   flags_subset (convert_bind_flags_to_resource_usage 0x8 0) (convert_bind_flags_to_resource_usage 0x28 0) \<and>
   flags_subset (resource_usage_copy_source OR resource_usage_copy_dest)
                (convert_bind_flags_to_resource_usage 0x8 0)"
  using convert_bind_flags_to_resource_usage_monotonic [of "0x8" "0x28" 0]
  by (simp add: flags_subset_def convert_bind_flags_to_resource_usage_def add_usage_if_bound_def
      resource_usage_defs D3D11_BIND_defs)

section \<open>Verified properties of the Direct3D 10 device\<close>

subsection \<open>Pipeline layouts\<close>

lemma merge_descriptor_ranges_invariant:
  "merge_descriptor_ranges m rs = Some m' \<Longrightarrow>
     (\<forall>r \<in> set rs.
        range_dx_register_index r - range_binding r = range_dx_register_index m - range_binding m \<and>
        range_type r = range_type m \<and>
        range_dx_register_space r = range_dx_register_space m) \<and>
     range_dx_register_index m' - range_binding m' = range_dx_register_index m - range_binding m \<and>
     range_type m' = range_type m \<and>
     range_dx_register_space m' = range_dx_register_space m"
proof (induction rs arbitrary: m)
  case Nil
  then show ?case by simp
next
  case (Cons r rs)
  from Cons.prems have ok:
    "range_type r = range_type m" "range_dx_register_space r = range_dx_register_space m"
    by (auto split: if_splits)
  show ?case
  proof (cases "range_binding r \<ge> range_binding m")
    case True
    let ?m1 = "m\<lparr> range_count := range_count m + (range_binding r - range_binding m),
                    range_visibility := range_visibility m OR range_visibility r \<rparr>"
    from Cons.prems True ok have d:
      "range_dx_register_index r - range_dx_register_index m = range_binding r - range_binding m"
      and rec: "merge_descriptor_ranges ?m1 rs = Some m'"
      by (auto simp: Let_def split: if_splits)
    from d have e: "range_dx_register_index r - range_binding r = range_dx_register_index m - range_binding m"
      by (simp add: algebra_simps)
    from Cons.IH [OF rec] e ok show ?thesis by simp
  next
    case False
    let ?m1 = "m\<lparr> range_binding := range_binding r,
                    range_dx_register_index := range_dx_register_index r,
                    range_count := range_count m + (range_binding m - range_binding r),
                    range_visibility := range_visibility m OR range_visibility r \<rparr>"
    from Cons.prems False ok have d:
      "range_dx_register_index m - range_dx_register_index r = range_binding m - range_binding r"
      and rec: "merge_descriptor_ranges ?m1 rs = Some m'"
      by (auto simp: Let_def split: if_splits)
    from d have e: "range_dx_register_index r - range_binding r = range_dx_register_index m - range_binding m"
      by (simp add: algebra_simps)
    from Cons.IH [OF rec] e ok show ?thesis by simp
  qed
qed

lemma merge_descriptor_ranges_visibility:
  "merge_descriptor_ranges m rs = Some m' \<Longrightarrow>
     range_visibility m' = fold (\<lambda>r v. v OR range_visibility r) rs (range_visibility m)"
proof (induction rs arbitrary: m)
  case Nil
  then show ?case by simp
next
  case (Cons r rs)
  show ?case
  proof (cases "range_binding r \<ge> range_binding m")
    case True
    with Cons.prems have
      "merge_descriptor_ranges
         (m\<lparr> range_count := range_count m + (range_binding r - range_binding m),
             range_visibility := range_visibility m OR range_visibility r \<rparr>) rs = Some m'"
      by (auto simp: Let_def split: if_splits)
    from Cons.IH [OF this] show ?thesis by simp
  next
    case False
    with Cons.prems have
      "merge_descriptor_ranges
         (m\<lparr> range_binding := range_binding r,
             range_dx_register_index := range_dx_register_index r,
             range_count := range_count m + (range_binding m - range_binding r),
             range_visibility := range_visibility m OR range_visibility r \<rparr>) rs = Some m'"
      by (auto simp: Let_def split: if_splits)
    from Cons.IH [OF this] show ?thesis by simp
  qed
qed

text \<open>A descriptor set that is accepted has ranges of one type and register space whose
  register indices run with their binding indices.\<close>

lemma merge_layout_param_descriptor_set:
  assumes "merge_layout_param default_range (pipeline_layout_param_descriptor_set ranges) = Some m"
    and "a < length ranges" and "b < length ranges"
  shows "range_dx_register_index (ranges ! a) - range_dx_register_index (ranges ! b) =
           range_binding (ranges ! a) - range_binding (ranges ! b) \<and>
         range_type (ranges ! a) = range_type (ranges ! b) \<and>
         range_dx_register_space (ranges ! a) = range_dx_register_space (ranges ! b)"
proof -
  from assms(1) obtain r0 rs where ranges: "ranges = r0 # rs"
    by (cases ranges) auto
  with assms(1) have "merge_descriptor_ranges r0 rs = Some m"
    by (auto split: if_splits)
  from merge_descriptor_ranges_invariant [OF this]
  have all: "\<forall>r \<in> set ranges.
        range_dx_register_index r - range_binding r = range_dx_register_index r0 - range_binding r0 \<and>
        range_type r = range_type r0 \<and>
        range_dx_register_space r = range_dx_register_space r0"
    by (simp add: ranges)
  have "ranges ! a \<in> set ranges" "ranges ! b \<in> set ranges"
    using assms(2,3) by simp_all
  with all have
    "range_dx_register_index (ranges ! a) - range_binding (ranges ! a) =
       range_dx_register_index (ranges ! b) - range_binding (ranges ! b)"
    "range_type (ranges ! a) = range_type (ranges ! b)"
    "range_dx_register_space (ranges ! a) = range_dx_register_space (ranges ! b)"
    by simp_all
  then show ?thesis by (simp add: algebra_simps)
qed

lemma merge_layout_params_nth:
  "merge_layout_params default_range params = Some merged \<Longrightarrow>
     length merged = length params \<and>
     (\<forall>i < length params. merge_layout_param default_range (params ! i) = Some (merged ! i))"
proof (induction params arbitrary: merged)
  case Nil
  then show ?case by simp
next
  case (Cons p ps)
  from Cons.prems obtain m ms where
    m: "merge_layout_param default_range p = Some m" and
    ms: "merge_layout_params default_range ps = Some ms" and
    merged: "merged = m # ms"
    by (auto split: option.splits)
  from Cons.IH [OF ms] m show ?case
    by (auto simp: merged nth_Cons split: nat.splits)
qed

text \<open>A descriptor set is accepted whenever its ranges have one type, register space 0
  and register indices that run with their binding indices; neither their visibilities
  nor the distances between their bindings matter.\<close>

lemma merge_descriptor_ranges_accepts:
  assumes "\<forall>r \<in> set rs.
        range_array_size r \<le> 1 \<and> range_type r = range_type m \<and>
        range_dx_register_space r = range_dx_register_space m \<and>
        range_dx_register_index r - range_binding r = range_dx_register_index m - range_binding m"
  shows "\<exists>m'. merge_descriptor_ranges m rs = Some m'"
  using assms
proof (induction rs arbitrary: m)
  case Nil
  then show ?case by simp
next
  case (Cons r rs)
  from Cons.prems have r:
    "\<not> range_array_size r > 1" "range_type r = range_type m"
    "range_dx_register_space r = range_dx_register_space m"
    and e: "range_dx_register_index r - range_binding r = range_dx_register_index m - range_binding m"
    and rest: "\<forall>r \<in> set rs.
        range_array_size r \<le> 1 \<and> range_type r = range_type m \<and>
        range_dx_register_space r = range_dx_register_space m \<and>
        range_dx_register_index r - range_binding r = range_dx_register_index m - range_binding m"
    by (simp_all add: not_less)
  from e have d1: "range_dx_register_index r - range_dx_register_index m = range_binding r - range_binding m"
    by (simp add: algebra_simps)
  from e have d2: "range_dx_register_index m - range_dx_register_index r = range_binding m - range_binding r"
    by (simp add: algebra_simps)
  show ?case
  proof (cases "range_binding r \<ge> range_binding m")
    case True
    let ?m1 = "m\<lparr> range_count := range_count m + (range_binding r - range_binding m),
                    range_visibility := range_visibility m OR range_visibility r \<rparr>"
    from rest have "\<exists>m'. merge_descriptor_ranges ?m1 rs = Some m'"
      by (intro Cons.IH) simp
    with True r d1 show ?thesis by (simp add: Let_def)
  next
    case False
    let ?m1 = "m\<lparr> range_binding := range_binding r,
                    range_dx_register_index := range_dx_register_index r,
                    range_count := range_count m + (range_binding m - range_binding r),
                    range_visibility := range_visibility m OR range_visibility r \<rparr>"
    from rest e have "\<exists>m'. merge_descriptor_ranges ?m1 rs = Some m'"
      by (intro Cons.IH) simp
    with False r d2 show ?thesis by (simp add: Let_def)
  qed
qed

lemma merge_layout_params_accepts:
  assumes "\<forall>p \<in> set params. \<exists>range0 rs.
        p = pipeline_layout_param_descriptor_set (range0 # rs) \<and>
        (\<forall>r \<in> set (range0 # rs).
           range_array_size r \<le> 1 \<and> range_dx_register_space r = 0 \<and>
           range_type r = range_type range0 \<and>
           range_dx_register_index r - range_binding r =
             range_dx_register_index range0 - range_binding range0)"
  shows "\<exists>merged. merge_layout_params default_range params = Some merged"
  using assms
proof (induction params)
  case Nil
  then show ?case by simp
next
  case (Cons p ps)
  from Cons.prems obtain range0 rs where
    p: "p = pipeline_layout_param_descriptor_set (range0 # rs)" and
    ok: "\<forall>r \<in> set (range0 # rs).
           range_array_size r \<le> 1 \<and> range_dx_register_space r = 0 \<and>
           range_type r = range_type range0 \<and>
           range_dx_register_index r - range_binding r =
             range_dx_register_index range0 - range_binding range0"
    by auto
  from ok have "\<exists>m'. merge_descriptor_ranges range0 rs = Some m'"
    by (intro merge_descriptor_ranges_accepts) simp
  moreover from ok have "\<not> range_array_size range0 > 1" "range_dx_register_space range0 = 0"
    by (simp_all add: not_less)
  ultimately obtain m where "merge_layout_param default_range p = Some m"
    by (auto simp: p)
  moreover from Cons.prems have "\<exists>merged. merge_layout_params default_range ps = Some merged"
    by (intro Cons.IH) simp
  ultimately show ?case by auto
qed

lemma create_pipeline_layout_fails:
  assumes "i < length params" and "merge_layout_param default_range (params ! i) = None"
  shows "create_pipeline_layout default_range params dev =
           (if dev_free_store dev = 0 then Inl bad_alloc
            else Inr ((False, 0), dev\<lparr> dev_free_store := dev_free_store dev - 1 \<rparr>))"
proof -
  have "merge_layout_params default_range params = None"
  proof (cases "merge_layout_params default_range params")
    case None
    then show ?thesis .
  next
    case (Some merged)
    from merge_layout_params_nth [OF this] assms show ?thesis by auto
  qed
  with assms(1) show ?thesis
    by (auto simp: create_pipeline_layout_def vector_storage_def operator_new_def)
qed

lemma create_pipeline_layout_succeeds:
  assumes "create_pipeline_layout default_range params dev = Inr ((True, h), dev')"
  shows "\<exists>merged. merge_layout_params default_range params = Some merged \<and>
           dev_heap dev' h = Some (pipeline_layout_impl_record merged)"
  using assms
  by (auto simp: create_pipeline_layout_def vector_storage_def operator_new_def new_side_record_def
      construct_side_record_def split: option.splits if_splits sum.splits)

lemma create_pipeline_layout_merged:
  assumes "merge_layout_params default_range params = Some merged" and "2 \<le> dev_free_store dev"
  shows "\<exists>dev'. create_pipeline_layout default_range params dev = Inr ((True, dev_next_alloc dev), dev') \<and>
           dev_heap dev' (dev_next_alloc dev) = Some (pipeline_layout_impl_record merged)"
  using assms
  by (auto simp: create_pipeline_layout_def vector_storage_def operator_new_def new_side_record_def
      construct_side_record_def)

lemma merge_layout_params_visibility:
  assumes "merge_layout_params default_range params = Some merged"
    and "j < length params" and "params ! j = pipeline_layout_param_descriptor_set (range0 # rs)"
  shows "range_visibility (merged ! j) = fold (\<lambda>r v. v OR range_visibility r) rs (range_visibility range0)"
proof -
  from merge_layout_params_nth [OF assms(1)] assms(2)
  have "merge_layout_param default_range (params ! j) = Some (merged ! j)" by simp
  with assms(3) have "merge_descriptor_ranges range0 rs = Some (merged ! j)"
    by (auto split: if_splits)
  then show ?thesis by (rule merge_descriptor_ranges_visibility)
qed

text \<open>
  Claim C3 (amended).  If the parameter list given to \<^verbatim>\<open>create_pipeline_layout\<close> has a
  descriptor set parameter with two ranges \<open>a\<close> and \<open>b\<close> whose register indices are not
  contiguous with their binding indices, that is, the distance between their register
  indices differs from the distance between their binding indices, both distances taken
  as the function computes them, in \<^verbatim>\<open>uint32_t\<close> (modulo \<open>2 ^ 32\<close>), then the call returns
  false, the output handle is zero and no side record is registered: the records of the
  device and its effects are as before, and the one request made to the free store is
  that of the local vector of ranges.  If the free store does not grant that request,
  \<^verbatim>\<open>std::bad_alloc\<close> leaves the function instead.
\<close>

theorem create_pipeline_layout_rejects_noncontiguous_registers:
  assumes "i < length params"
    and "params ! i = pipeline_layout_param_descriptor_set ranges"
    and "a < length ranges" and "b < length ranges"
    and "range_dx_register_index (ranges ! a) - range_dx_register_index (ranges ! b) \<noteq>
         range_binding (ranges ! a) - range_binding (ranges ! b)"
  shows "create_pipeline_layout default_range params dev =
           (if dev_free_store dev = 0 then Inl bad_alloc
            else Inr ((False, 0), dev\<lparr> dev_free_store := dev_free_store dev - 1 \<rparr>))"
proof -
  have "merge_layout_param default_range (params ! i) = None"
  proof (cases "merge_layout_param default_range (params ! i)")
    case None
    then show ?thesis .
  next
    case (Some m)
    then have "merge_layout_param default_range (pipeline_layout_param_descriptor_set ranges) = Some m"
      by (simp add: assms(2))
    from merge_layout_param_descriptor_set [OF this assms(3,4)] assms(5) show ?thesis by simp
  qed
  with assms(1) show ?thesis by (rule create_pipeline_layout_fails)
qed

text \<open>
  The theorem at a set of two shader resource views, binding 0 at register 0 and binding
  1 at register 5, on a device whose free store grants 8 requests.
\<close>

theorem create_pipeline_layout_rejects_noncontiguous_registers_witness:
  "(0::nat) < length
     [pipeline_layout_param_descriptor_set [\<lparr> range_binding = 0, range_dx_register_index = 0, range_dx_register_space = 0, range_type = descriptor_type_shader_resource_view, range_count = 1, range_array_size = 1, range_visibility = 0x10 \<rparr>, \<lparr> range_binding = 1, range_dx_register_index = 5, range_dx_register_space = 0, range_type = descriptor_type_shader_resource_view, range_count = 1, range_array_size = 1, range_visibility = 0x10 \<rparr>]] \<and>
   (5::u32) - 0 \<noteq> 1 - 0 \<and>
   create_pipeline_layout
     (\<lparr> range_binding = 0, range_dx_register_index = 0, range_dx_register_space = 0, range_type = descriptor_type_sampler, range_count = 0, range_array_size = 0, range_visibility = 0 \<rparr>)
     [pipeline_layout_param_descriptor_set [\<lparr> range_binding = 0, range_dx_register_index = 0, range_dx_register_space = 0, range_type = descriptor_type_shader_resource_view, range_count = 1, range_array_size = 1, range_visibility = 0x10 \<rparr>, \<lparr> range_binding = 1, range_dx_register_index = 5, range_dx_register_space = 0, range_type = descriptor_type_shader_resource_view, range_count = 1, range_array_size = 1, range_visibility = 0x10 \<rparr>]]
     (\<lparr> dev_heap = Map.empty, dev_next_alloc = 0x1000, dev_free_store = 8, dev_effects = [] \<rparr>)
   = Inr ((False, 0), \<lparr> dev_heap = Map.empty, dev_next_alloc = 0x1000, dev_free_store = 7, dev_effects = [] \<rparr>)"
  using create_pipeline_layout_rejects_noncontiguous_registers
    [where i = 0 and a = 1 and b = 0
       and params = "[pipeline_layout_param_descriptor_set [\<lparr> range_binding = 0, range_dx_register_index = 0, range_dx_register_space = 0, range_type = descriptor_type_shader_resource_view, range_count = 1, range_array_size = 1, range_visibility = 0x10 \<rparr>, \<lparr> range_binding = 1, range_dx_register_index = 5, range_dx_register_space = 0, range_type = descriptor_type_shader_resource_view, range_count = 1, range_array_size = 1, range_visibility = 0x10 \<rparr>]]"
       and ranges = "[\<lparr> range_binding = 0, range_dx_register_index = 0, range_dx_register_space = 0, range_type = descriptor_type_shader_resource_view, range_count = 1, range_array_size = 1, range_visibility = 0x10 \<rparr>, \<lparr> range_binding = 1, range_dx_register_index = 5, range_dx_register_space = 0, range_type = descriptor_type_shader_resource_view, range_count = 1, range_array_size = 1, range_visibility = 0x10 \<rparr>]"
       and default_range = "\<lparr> range_binding = 0, range_dx_register_index = 0, range_dx_register_space = 0, range_type = descriptor_type_sampler, range_count = 0, range_array_size = 0, range_visibility = 0 \<rparr>"
       and dev = "\<lparr> dev_heap = Map.empty, dev_next_alloc = 0x1000, dev_free_store = 8, dev_effects = [] \<rparr>"]
  by simp

text \<open>
  Claim C3 as stated fails where the distance leaves 32 bits.  For a set of two shader
  resource views, binding 0 at register \<open>0xFFFFFFFF\<close> and binding 1 at register 0, the
  distance between the register indices is \<open>- 4294967295\<close> and the distance between the
  binding indices is 1; in \<^verbatim>\<open>uint32_t\<close> both are 1, and the call returns true with the
  handle of a layout that has the two ranges merged into one.  It also fails where the
  free store grants no request: for the set with binding 0 at register 0 and binding 1 at
  register 5 the call does not return false, \<^verbatim>\<open>std::bad_alloc\<close> leaves it.
\<close>

theorem create_pipeline_layout_rejects_noncontiguous_registers_counterexample:
  "int (unat (0 :: u32)) - int (unat (0xFFFFFFFF :: u32)) \<noteq> int (unat (1 :: u32)) - int (unat (0 :: u32)) \<and>
   (0 :: u32) - 0xFFFFFFFF = 1 - 0 \<and>
   map_sum id fst
     (create_pipeline_layout
        (\<lparr> range_binding = 0, range_dx_register_index = 0, range_dx_register_space = 0, range_type = descriptor_type_sampler, range_count = 0, range_array_size = 0, range_visibility = 0 \<rparr>)
        [pipeline_layout_param_descriptor_set [\<lparr> range_binding = 0, range_dx_register_index = 0xFFFFFFFF, range_dx_register_space = 0, range_type = descriptor_type_shader_resource_view, range_count = 1, range_array_size = 1, range_visibility = 0x10 \<rparr>, \<lparr> range_binding = 1, range_dx_register_index = 0, range_dx_register_space = 0, range_type = descriptor_type_shader_resource_view, range_count = 1, range_array_size = 1, range_visibility = 0x10 \<rparr>]]
        (\<lparr> dev_heap = Map.empty, dev_next_alloc = 0x1000, dev_free_store = 8, dev_effects = [] \<rparr>))
   = Inr (True, 0x1000) \<and>
   dev_heap (snd (projr
     (create_pipeline_layout
        (\<lparr> range_binding = 0, range_dx_register_index = 0, range_dx_register_space = 0, range_type = descriptor_type_sampler, range_count = 0, range_array_size = 0, range_visibility = 0 \<rparr>)
        [pipeline_layout_param_descriptor_set [\<lparr> range_binding = 0, range_dx_register_index = 0xFFFFFFFF, range_dx_register_space = 0, range_type = descriptor_type_shader_resource_view, range_count = 1, range_array_size = 1, range_visibility = 0x10 \<rparr>, \<lparr> range_binding = 1, range_dx_register_index = 0, range_dx_register_space = 0, range_type = descriptor_type_shader_resource_view, range_count = 1, range_array_size = 1, range_visibility = 0x10 \<rparr>]]
        (\<lparr> dev_heap = Map.empty, dev_next_alloc = 0x1000, dev_free_store = 8, dev_effects = [] \<rparr>)))) 0x1000
   = Some (pipeline_layout_impl_record [\<lparr> range_binding = 0, range_dx_register_index = 0xFFFFFFFF, range_dx_register_space = 0, range_type = descriptor_type_shader_resource_view, range_count = 2, range_array_size = 1, range_visibility = 0x10 \<rparr>]) \<and>
   create_pipeline_layout
     (\<lparr> range_binding = 0, range_dx_register_index = 0, range_dx_register_space = 0, range_type = descriptor_type_sampler, range_count = 0, range_array_size = 0, range_visibility = 0 \<rparr>)
     [pipeline_layout_param_descriptor_set [\<lparr> range_binding = 0, range_dx_register_index = 0, range_dx_register_space = 0, range_type = descriptor_type_shader_resource_view, range_count = 1, range_array_size = 1, range_visibility = 0x10 \<rparr>, \<lparr> range_binding = 1, range_dx_register_index = 5, range_dx_register_space = 0, range_type = descriptor_type_shader_resource_view, range_count = 1, range_array_size = 1, range_visibility = 0x10 \<rparr>]]
     (\<lparr> dev_heap = Map.empty, dev_next_alloc = 0x1000, dev_free_store = 0, dev_effects = [] \<rparr>)
   = Inl bad_alloc"
  by (simp add: create_pipeline_layout_def vector_storage_def operator_new_def new_side_record_def
      construct_side_record_def)

text \<open>
  Claim C4 (amended).  If two adjacent ranges of a descriptor set parameter differ in
  descriptor type or in register space, or if the distance between their register
  indices differs from the distance between their binding indices (both distances in
  \<^verbatim>\<open>uint32_t\<close>, modulo \<open>2 ^ 32\<close>), the whole call fails: it returns false with a zero
  output handle and registers nothing, or \<^verbatim>\<open>std::bad_alloc\<close> leaves it if the free store
  does not grant the storage of the local vector of ranges.  A difference in visibility
  and a gap between the bindings are no failures: if every parameter is a descriptor set
  whose ranges have an array size of at most 1, register space 0, one descriptor type and
  register indices that run with their binding indices, and the free store grants two
  requests, the call returns true with the handle of a layout that has one merged range
  for each set, whatever the visibilities of the ranges and the distances between their
  bindings are.  Whenever the call succeeds, the merged range of every descriptor set
  parameter has the union (bitwise OR) of the visibilities of all its ranges.
\<close>

theorem create_pipeline_layout_adjacent_ranges:
  "(i < length params \<and> params ! i = pipeline_layout_param_descriptor_set ranges \<and>
    Suc k < length ranges \<and>
    (range_type (ranges ! k) \<noteq> range_type (ranges ! Suc k) \<or>
     range_dx_register_space (ranges ! k) \<noteq> range_dx_register_space (ranges ! Suc k) \<or>
     range_dx_register_index (ranges ! Suc k) - range_dx_register_index (ranges ! k) \<noteq>
       range_binding (ranges ! Suc k) - range_binding (ranges ! k))
    \<longrightarrow> create_pipeline_layout default_range params dev =
          (if dev_free_store dev = 0 then Inl bad_alloc
            else Inr ((False, 0), dev\<lparr> dev_free_store := dev_free_store dev - 1 \<rparr>))) \<and>
   ((\<forall>p \<in> set sets. \<exists>range0 rs.
        p = pipeline_layout_param_descriptor_set (range0 # rs) \<and>
        (\<forall>r \<in> set (range0 # rs).
           range_array_size r \<le> 1 \<and> range_dx_register_space r = 0 \<and>
           range_type r = range_type range0 \<and>
           range_dx_register_index r - range_binding r =
             range_dx_register_index range0 - range_binding range0)) \<and>
    2 \<le> dev_free_store dev
    \<longrightarrow> (\<exists>after merged.
        create_pipeline_layout default_range sets dev = Inr ((True, dev_next_alloc dev), after) \<and>
        dev_heap after (dev_next_alloc dev) = Some (pipeline_layout_impl_record merged) \<and>
        length merged = length sets \<and>
        (\<forall>j range0 rs. j < length sets \<and>
             sets ! j = pipeline_layout_param_descriptor_set (range0 # rs) \<longrightarrow>
           range_visibility (merged ! j) =
             fold (\<lambda>r v. v OR range_visibility r) rs (range_visibility range0)))) \<and>
   (create_pipeline_layout default_range params' dev = Inr ((True, h), dev') \<longrightarrow>
      (\<exists>merged. dev_heap dev' h = Some (pipeline_layout_impl_record merged) \<and>
         length merged = length params' \<and>
         (\<forall>j range0 rs. j < length params' \<and>
              params' ! j = pipeline_layout_param_descriptor_set (range0 # rs) \<longrightarrow>
            range_visibility (merged ! j) =
              fold (\<lambda>r v. v OR range_visibility r) rs (range_visibility range0))))"
proof (intro conjI impI)
  assume a: "i < length params \<and> params ! i = pipeline_layout_param_descriptor_set ranges \<and>
    Suc k < length ranges \<and>
    (range_type (ranges ! k) \<noteq> range_type (ranges ! Suc k) \<or>
     range_dx_register_space (ranges ! k) \<noteq> range_dx_register_space (ranges ! Suc k) \<or>
     range_dx_register_index (ranges ! Suc k) - range_dx_register_index (ranges ! k) \<noteq>
       range_binding (ranges ! Suc k) - range_binding (ranges ! k))"
  then have i: "i < length params"
    and p: "params ! i = pipeline_layout_param_descriptor_set ranges"
    and k: "Suc k < length ranges" "k < length ranges"
    and d: "range_type (ranges ! k) \<noteq> range_type (ranges ! Suc k) \<or>
     range_dx_register_space (ranges ! k) \<noteq> range_dx_register_space (ranges ! Suc k) \<or>
     range_dx_register_index (ranges ! Suc k) - range_dx_register_index (ranges ! k) \<noteq>
       range_binding (ranges ! Suc k) - range_binding (ranges ! k)"
    by simp_all
  have none: "merge_layout_param default_range (params ! i) = None"
  proof (cases "merge_layout_param default_range (params ! i)")
    case None
    then show ?thesis .
  next
    case (Some m)
    then have m: "merge_layout_param default_range (pipeline_layout_param_descriptor_set ranges) = Some m"
      by (simp add: p)
    from merge_layout_param_descriptor_set [OF m k] d show ?thesis by auto
  qed
  show "create_pipeline_layout default_range params dev =
          (if dev_free_store dev = 0 then Inl bad_alloc
            else Inr ((False, 0), dev\<lparr> dev_free_store := dev_free_store dev - 1 \<rparr>))"
    using i none by (rule create_pipeline_layout_fails)
next
  assume a: "(\<forall>p \<in> set sets. \<exists>range0 rs.
        p = pipeline_layout_param_descriptor_set (range0 # rs) \<and>
        (\<forall>r \<in> set (range0 # rs).
           range_array_size r \<le> 1 \<and> range_dx_register_space r = 0 \<and>
           range_type r = range_type range0 \<and>
           range_dx_register_index r - range_binding r =
             range_dx_register_index range0 - range_binding range0)) \<and>
    2 \<le> dev_free_store dev"
  then have store: "2 \<le> dev_free_store dev" by simp
  from a have "\<exists>merged. merge_layout_params default_range sets = Some merged"
    by (intro merge_layout_params_accepts) simp
  then obtain merged where merged: "merge_layout_params default_range sets = Some merged" ..
  from create_pipeline_layout_merged [OF merged store] obtain after where
    after: "create_pipeline_layout default_range sets dev = Inr ((True, dev_next_alloc dev), after)"
      "dev_heap after (dev_next_alloc dev) = Some (pipeline_layout_impl_record merged)"
    by blast
  from merge_layout_params_nth [OF merged] have len: "length merged = length sets" by simp
  from merge_layout_params_visibility [OF merged]
  have "\<forall>j range0 rs. j < length sets \<and>
             sets ! j = pipeline_layout_param_descriptor_set (range0 # rs) \<longrightarrow>
           range_visibility (merged ! j) =
             fold (\<lambda>r v. v OR range_visibility r) rs (range_visibility range0)"
    by blast
  with after len show "\<exists>after merged.
        create_pipeline_layout default_range sets dev = Inr ((True, dev_next_alloc dev), after) \<and>
        dev_heap after (dev_next_alloc dev) = Some (pipeline_layout_impl_record merged) \<and>
        length merged = length sets \<and>
        (\<forall>j range0 rs. j < length sets \<and>
             sets ! j = pipeline_layout_param_descriptor_set (range0 # rs) \<longrightarrow>
           range_visibility (merged ! j) =
             fold (\<lambda>r v. v OR range_visibility r) rs (range_visibility range0))"
    by blast
next
  assume c: "create_pipeline_layout default_range params' dev = Inr ((True, h), dev')"
  from create_pipeline_layout_succeeds [OF c] obtain merged where
    merged: "merge_layout_params default_range params' = Some merged" and
    heap: "dev_heap dev' h = Some (pipeline_layout_impl_record merged)"
    by blast
  from merge_layout_params_nth [OF merged] have len: "length merged = length params'" by simp
  from merge_layout_params_visibility [OF merged]
  have "\<forall>j range0 rs. j < length params' \<and>
              params' ! j = pipeline_layout_param_descriptor_set (range0 # rs) \<longrightarrow>
            range_visibility (merged ! j) =
              fold (\<lambda>r v. v OR range_visibility r) rs (range_visibility range0)"
    by blast
  with heap len show "\<exists>merged. dev_heap dev' h = Some (pipeline_layout_impl_record merged) \<and>
         length merged = length params' \<and>
         (\<forall>j range0 rs. j < length params' \<and>
              params' ! j = pipeline_layout_param_descriptor_set (range0 # rs) \<longrightarrow>
            range_visibility (merged ! j) =
              fold (\<lambda>r v. v OR range_visibility r) rs (range_visibility range0))"
    by blast
qed

text \<open>
  The theorem at a set whose two ranges differ in type (a sampler and a shader resource
  view), which is rejected, and at a set whose two ranges differ in visibility only
  (vertex stage \<open>0x1\<close> and pixel stage \<open>0x10\<close>), which is merged into one range of
  visibility \<open>0x11\<close>, on a device whose free store grants 8 requests.
\<close>

theorem create_pipeline_layout_adjacent_ranges_witness:
  "descriptor_type_sampler \<noteq> descriptor_type_shader_resource_view \<and>
   create_pipeline_layout
     (\<lparr> range_binding = 0, range_dx_register_index = 0, range_dx_register_space = 0, range_type = descriptor_type_sampler, range_count = 0, range_array_size = 0, range_visibility = 0 \<rparr>)
     [pipeline_layout_param_descriptor_set [\<lparr> range_binding = 0, range_dx_register_index = 0, range_dx_register_space = 0, range_type = descriptor_type_sampler, range_count = 1, range_array_size = 1, range_visibility = 0x10 \<rparr>, \<lparr> range_binding = 1, range_dx_register_index = 1, range_dx_register_space = 0, range_type = descriptor_type_shader_resource_view, range_count = 1, range_array_size = 1, range_visibility = 0x10 \<rparr>]]
     (\<lparr> dev_heap = Map.empty, dev_next_alloc = 0x1000, dev_free_store = 8, dev_effects = [] \<rparr>)
   = Inr ((False, 0), \<lparr> dev_heap = Map.empty, dev_next_alloc = 0x1000, dev_free_store = 7, dev_effects = [] \<rparr>) \<and>
   (2::nat) \<le> 8 \<and>
   map_sum id fst
     (create_pipeline_layout
        (\<lparr> range_binding = 0, range_dx_register_index = 0, range_dx_register_space = 0, range_type = descriptor_type_sampler, range_count = 0, range_array_size = 0, range_visibility = 0 \<rparr>)
        [pipeline_layout_param_descriptor_set [\<lparr> range_binding = 0, range_dx_register_index = 0, range_dx_register_space = 0, range_type = descriptor_type_shader_resource_view, range_count = 1, range_array_size = 1, range_visibility = 0x1 \<rparr>, \<lparr> range_binding = 1, range_dx_register_index = 1, range_dx_register_space = 0, range_type = descriptor_type_shader_resource_view, range_count = 1, range_array_size = 1, range_visibility = 0x10 \<rparr>]]
        (\<lparr> dev_heap = Map.empty, dev_next_alloc = 0x1000, dev_free_store = 8, dev_effects = [] \<rparr>))
   = Inr (True, 0x1000) \<and>
   dev_heap (snd (projr
     (create_pipeline_layout
        (\<lparr> range_binding = 0, range_dx_register_index = 0, range_dx_register_space = 0, range_type = descriptor_type_sampler, range_count = 0, range_array_size = 0, range_visibility = 0 \<rparr>)
        [pipeline_layout_param_descriptor_set [\<lparr> range_binding = 0, range_dx_register_index = 0, range_dx_register_space = 0, range_type = descriptor_type_shader_resource_view, range_count = 1, range_array_size = 1, range_visibility = 0x1 \<rparr>, \<lparr> range_binding = 1, range_dx_register_index = 1, range_dx_register_space = 0, range_type = descriptor_type_shader_resource_view, range_count = 1, range_array_size = 1, range_visibility = 0x10 \<rparr>]]
        (\<lparr> dev_heap = Map.empty, dev_next_alloc = 0x1000, dev_free_store = 8, dev_effects = [] \<rparr>)))) 0x1000
   = Some (pipeline_layout_impl_record [\<lparr> range_binding = 0, range_dx_register_index = 0, range_dx_register_space = 0, range_type = descriptor_type_shader_resource_view, range_count = 2, range_array_size = 1, range_visibility = 0x11 \<rparr>])"
  using create_pipeline_layout_adjacent_ranges
    [where i = 0 and k = 0 and h = "0x1000"
       and params = "[pipeline_layout_param_descriptor_set [\<lparr> range_binding = 0, range_dx_register_index = 0, range_dx_register_space = 0, range_type = descriptor_type_sampler, range_count = 1, range_array_size = 1, range_visibility = 0x10 \<rparr>, \<lparr> range_binding = 1, range_dx_register_index = 1, range_dx_register_space = 0, range_type = descriptor_type_shader_resource_view, range_count = 1, range_array_size = 1, range_visibility = 0x10 \<rparr>]]"
       and ranges = "[\<lparr> range_binding = 0, range_dx_register_index = 0, range_dx_register_space = 0, range_type = descriptor_type_sampler, range_count = 1, range_array_size = 1, range_visibility = 0x10 \<rparr>, \<lparr> range_binding = 1, range_dx_register_index = 1, range_dx_register_space = 0, range_type = descriptor_type_shader_resource_view, range_count = 1, range_array_size = 1, range_visibility = 0x10 \<rparr>]"
       and default_range = "\<lparr> range_binding = 0, range_dx_register_index = 0, range_dx_register_space = 0, range_type = descriptor_type_sampler, range_count = 0, range_array_size = 0, range_visibility = 0 \<rparr>"
       and dev = "\<lparr> dev_heap = Map.empty, dev_next_alloc = 0x1000, dev_free_store = 8, dev_effects = [] \<rparr>"
       and sets = "[pipeline_layout_param_descriptor_set [\<lparr> range_binding = 0, range_dx_register_index = 0, range_dx_register_space = 0, range_type = descriptor_type_shader_resource_view, range_count = 1, range_array_size = 1, range_visibility = 0x1 \<rparr>, \<lparr> range_binding = 1, range_dx_register_index = 1, range_dx_register_space = 0, range_type = descriptor_type_shader_resource_view, range_count = 1, range_array_size = 1, range_visibility = 0x10 \<rparr>]]"
       and params' = "[pipeline_layout_param_descriptor_set [\<lparr> range_binding = 0, range_dx_register_index = 0, range_dx_register_space = 0, range_type = descriptor_type_shader_resource_view, range_count = 1, range_array_size = 1, range_visibility = 0x1 \<rparr>, \<lparr> range_binding = 1, range_dx_register_index = 1, range_dx_register_space = 0, range_type = descriptor_type_shader_resource_view, range_count = 1, range_array_size = 1, range_visibility = 0x10 \<rparr>]]"
       and dev' = "snd (projr (create_pipeline_layout
  (\<lparr> range_binding = 0, range_dx_register_index = 0, range_dx_register_space = 0, range_type = descriptor_type_sampler, range_count = 0, range_array_size = 0, range_visibility = 0 \<rparr>)
  [pipeline_layout_param_descriptor_set [\<lparr> range_binding = 0, range_dx_register_index = 0, range_dx_register_space = 0, range_type = descriptor_type_shader_resource_view, range_count = 1, range_array_size = 1, range_visibility = 0x1 \<rparr>, \<lparr> range_binding = 1, range_dx_register_index = 1, range_dx_register_space = 0, range_type = descriptor_type_shader_resource_view, range_count = 1, range_array_size = 1, range_visibility = 0x10 \<rparr>]]
  (\<lparr> dev_heap = Map.empty, dev_next_alloc = 0x1000, dev_free_store = 8, dev_effects = [] \<rparr>)))"]
  by (simp add: create_pipeline_layout_def vector_storage_def operator_new_def new_side_record_def
      construct_side_record_def)

text \<open>
  Claim C4 as stated fails.  Two adjacent ranges of one set that differ in visibility
  (vertex stage \<open>0x1\<close> at binding and register 0, pixel stage \<open>0x10\<close> at binding and
  register 1) are accepted; and two ranges with a gap between them (binding and register
  0 and binding and register 5, one descriptor each) are accepted and merged into one
  range of 6 descriptors.  Where the free store grants no request, the call for the
  first set does not return at all: \<^verbatim>\<open>std::bad_alloc\<close> leaves it.
\<close>

theorem create_pipeline_layout_adjacent_ranges_counterexample:
  "(0x1 :: u32) \<noteq> 0x10 \<and>
   map_sum id fst
     (create_pipeline_layout
        (\<lparr> range_binding = 0, range_dx_register_index = 0, range_dx_register_space = 0, range_type = descriptor_type_sampler, range_count = 0, range_array_size = 0, range_visibility = 0 \<rparr>)
        [pipeline_layout_param_descriptor_set [\<lparr> range_binding = 0, range_dx_register_index = 0, range_dx_register_space = 0, range_type = descriptor_type_shader_resource_view, range_count = 1, range_array_size = 1, range_visibility = 0x1 \<rparr>, \<lparr> range_binding = 1, range_dx_register_index = 1, range_dx_register_space = 0, range_type = descriptor_type_shader_resource_view, range_count = 1, range_array_size = 1, range_visibility = 0x10 \<rparr>]]
        (\<lparr> dev_heap = Map.empty, dev_next_alloc = 0x1000, dev_free_store = 8, dev_effects = [] \<rparr>))
   = Inr (True, 0x1000) \<and>
   map_sum id fst
     (create_pipeline_layout
        (\<lparr> range_binding = 0, range_dx_register_index = 0, range_dx_register_space = 0, range_type = descriptor_type_sampler, range_count = 0, range_array_size = 0, range_visibility = 0 \<rparr>)
        [pipeline_layout_param_descriptor_set [\<lparr> range_binding = 0, range_dx_register_index = 0, range_dx_register_space = 0, range_type = descriptor_type_shader_resource_view, range_count = 1, range_array_size = 1, range_visibility = 0x10 \<rparr>, \<lparr> range_binding = 5, range_dx_register_index = 5, range_dx_register_space = 0, range_type = descriptor_type_shader_resource_view, range_count = 1, range_array_size = 1, range_visibility = 0x10 \<rparr>]]
        (\<lparr> dev_heap = Map.empty, dev_next_alloc = 0x1000, dev_free_store = 8, dev_effects = [] \<rparr>))
   = Inr (True, 0x1000) \<and>
   dev_heap (snd (projr
     (create_pipeline_layout
        (\<lparr> range_binding = 0, range_dx_register_index = 0, range_dx_register_space = 0, range_type = descriptor_type_sampler, range_count = 0, range_array_size = 0, range_visibility = 0 \<rparr>)
        [pipeline_layout_param_descriptor_set [\<lparr> range_binding = 0, range_dx_register_index = 0, range_dx_register_space = 0, range_type = descriptor_type_shader_resource_view, range_count = 1, range_array_size = 1, range_visibility = 0x10 \<rparr>, \<lparr> range_binding = 5, range_dx_register_index = 5, range_dx_register_space = 0, range_type = descriptor_type_shader_resource_view, range_count = 1, range_array_size = 1, range_visibility = 0x10 \<rparr>]]
        (\<lparr> dev_heap = Map.empty, dev_next_alloc = 0x1000, dev_free_store = 8, dev_effects = [] \<rparr>)))) 0x1000
   = Some (pipeline_layout_impl_record [\<lparr> range_binding = 0, range_dx_register_index = 0, range_dx_register_space = 0, range_type = descriptor_type_shader_resource_view, range_count = 6, range_array_size = 1, range_visibility = 0x10 \<rparr>]) \<and>
   create_pipeline_layout
     (\<lparr> range_binding = 0, range_dx_register_index = 0, range_dx_register_space = 0, range_type = descriptor_type_sampler, range_count = 0, range_array_size = 0, range_visibility = 0 \<rparr>)
     [pipeline_layout_param_descriptor_set [\<lparr> range_binding = 0, range_dx_register_index = 0, range_dx_register_space = 0, range_type = descriptor_type_shader_resource_view, range_count = 1, range_array_size = 1, range_visibility = 0x1 \<rparr>, \<lparr> range_binding = 1, range_dx_register_index = 1, range_dx_register_space = 0, range_type = descriptor_type_shader_resource_view, range_count = 1, range_array_size = 1, range_visibility = 0x10 \<rparr>]]
     (\<lparr> dev_heap = Map.empty, dev_next_alloc = 0x1000, dev_free_store = 0, dev_effects = [] \<rparr>)
   = Inl bad_alloc"
  by (simp add: create_pipeline_layout_def vector_storage_def operator_new_def new_side_record_def
      construct_side_record_def)

subsection \<open>Descriptor sets, resources and handles\<close>

lemma operator_new_granted:
  assumes "operator_new dev = Inr dev1"
  shows "dev_heap dev1 = dev_heap dev" "dev_next_alloc dev1 = dev_next_alloc dev"
    "dev_effects dev1 = dev_effects dev" "dev_free_store dev = Suc (dev_free_store dev1)"
  using assms by (auto simp: operator_new_def split: if_splits)

lemma vector_storage_granted:
  assumes "vector_storage n dev = Inr dev1"
  shows "dev_heap dev1 = dev_heap dev" "dev_next_alloc dev1 = dev_next_alloc dev"
    "dev_effects dev1 = dev_effects dev" "dev_free_store dev \<le> Suc (dev_free_store dev1)"
  using assms by (auto simp: vector_storage_def operator_new_def split: if_splits)

lemma allocate_descriptor_sets_loop_step:
  assumes "allocate_descriptor_sets_loop (Suc n) layout layout_param dev = Inr (out_sets, dev')"
  shows "\<exists>ranges descriptors dev2 rest.
           dev_heap dev layout = Some (pipeline_layout_impl_record ranges) \<and>
           unat layout_param < length ranges \<and>
           resize_descriptors (range_type (ranges ! unat layout_param))
             (range_count (ranges ! unat layout_param)) = Inr descriptors \<and>
           dev_heap dev2 = dev_heap dev \<and>
           allocate_descriptor_sets_loop n layout layout_param
             (snd (construct_side_record
                (descriptor_set_impl_record
                   \<lparr> set_type = range_type (ranges ! unat layout_param),
                     set_count = range_count (ranges ! unat layout_param),
                     set_descriptors = descriptors \<rparr>) dev2)) = Inr (rest, dev') \<and>
           out_sets = dev_next_alloc dev2 # rest"
proof (cases "operator_new dev")
  case (Inl e)
  with assms show ?thesis by simp
next
  case (Inr dev1)
  note heap1 = operator_new_granted(1) [OF Inr]
  from assms Inr obtain ranges where
    ranges: "dev_heap dev1 layout = Some (pipeline_layout_impl_record ranges)"
    by (auto split: option.splits side_record.splits)
  from assms Inr ranges have index: "unat layout_param < length ranges"
    by (auto split: if_splits)
  from assms Inr ranges index obtain descriptors where
    ds: "resize_descriptors (range_type (ranges ! unat layout_param))
           (range_count (ranges ! unat layout_param)) = Inr descriptors"
    by (auto simp: Let_def split: sum.splits)
  from assms Inr ranges index ds obtain dev2 where
    vec: "vector_storage (length descriptors) dev1 = Inr dev2"
    by (auto simp: Let_def split: sum.splits)
  note heap2 = vector_storage_granted(1) [OF vec]
  from assms Inr ranges index ds vec obtain rest where
    "allocate_descriptor_sets_loop n layout layout_param
       (snd (construct_side_record
          (descriptor_set_impl_record
             \<lparr> set_type = range_type (ranges ! unat layout_param),
               set_count = range_count (ranges ! unat layout_param),
               set_descriptors = descriptors \<rparr>) dev2)) = Inr (rest, dev')"
    "out_sets = dev_next_alloc dev2 # rest"
    by (auto simp: Let_def construct_side_record_def split: sum.splits prod.splits)
  with ranges index ds heap1 heap2 show ?thesis by auto
qed

lemma allocate_descriptor_sets_loop_invariant:
  assumes "allocate_descriptor_sets_loop n layout layout_param dev = Inr (out_sets, dev')"
    and "dev_heap dev layout = Some (pipeline_layout_impl_record ranges)"
    and "resize_descriptors (range_type (ranges ! unat layout_param))
           (range_count (ranges ! unat layout_param)) = Inr descriptors"
    and "R = descriptor_set_impl_record
           \<lparr> set_type = range_type (ranges ! unat layout_param),
             set_count = range_count (ranges ! unat layout_param),
             set_descriptors = descriptors \<rparr>"
  shows "(\<forall>q. dev_heap dev q = Some R \<longrightarrow> dev_heap dev' q = Some R) \<and>
         (\<forall>h \<in> set out_sets. dev_heap dev' h = Some R)"
  using assms(1,2)
proof (induction n arbitrary: dev out_sets)
  case 0
  then show ?case by simp
next
  case (Suc n)
  from allocate_descriptor_sets_loop_step [OF Suc.prems(1)] Suc.prems(2) assms(3,4)
  obtain dev2 rest where
    heap2: "dev_heap dev2 = dev_heap dev" and
    rest: "allocate_descriptor_sets_loop n layout layout_param (snd (construct_side_record R dev2)) =
             Inr (rest, dev')" and
    out: "out_sets = dev_next_alloc dev2 # rest"
    by auto
  let ?p = "dev_next_alloc dev2"
  let ?dev3 = "snd (construct_side_record R dev2)"
  have heap3: "dev_heap ?dev3 = (dev_heap dev)(?p \<mapsto> R)"
    by (simp add: construct_side_record_def heap2)
  show ?case
  proof (cases n)
    case 0
    with rest have "rest = []" "dev' = ?dev3" by simp_all
    then show ?thesis by (simp add: out heap3)
  next
    case (Suc m)
    with allocate_descriptor_sets_loop_step [of m layout layout_param ?dev3 rest dev'] rest
    have "\<exists>ranges1. dev_heap ?dev3 layout = Some (pipeline_layout_impl_record ranges1)"
      by auto
    with heap3 Suc.prems(2) assms(4) have "dev_heap ?dev3 layout = Some (pipeline_layout_impl_record ranges)"
      by (auto split: if_splits)
    from Suc.IH [OF rest this] show ?thesis
      by (auto simp: out heap3)
  qed
qed

lemma resize_descriptors_length:
  assumes "resize_descriptors t c = Inr ds"
  shows "case t of
           descriptor_type_constant_buffer \<Rightarrow>
             length ds = unat (c * 3) \<and> (unat c * 3 < 2 ^ 32 \<longrightarrow> length ds = unat c * 3)
         | descriptor_type_sampler \<Rightarrow> length ds = unat c
         | descriptor_type_shader_resource_view \<Rightarrow> length ds = unat c
         | descriptor_type_other v \<Rightarrow> False"
proof (cases t)
  case descriptor_type_constant_buffer
  have "unat c * 3 < 2 ^ 32 \<Longrightarrow> unat (c * 3) = unat c * 3"
    by (simp add: unat_word_ariths)
  with assms descriptor_type_constant_buffer show ?thesis by auto
qed (use assms in auto)

lemma allocate_descriptor_sets_loop_numeral:
  "allocate_descriptor_sets_loop (numeral k) layout layout_param dev =
     allocate_descriptor_sets_loop (Suc (pred_numeral k)) layout layout_param dev"
  by (simp add: numeral_eq_Suc)

lemma replicate_numeral_unfold:
  "replicate (numeral k) x = x # replicate (pred_numeral k) x"
  by (simp add: numeral_eq_Suc)


text \<open>
  Claim C6 (amended).  After a successful \<^verbatim>\<open>allocate_descriptor_sets\<close> every handle \<open>h\<close>
  written to \<^verbatim>\<open>out_sets\<close> is the address of a descriptor set with the type and the count
  of the layout parameter, whose descriptor array has length count x stride, with stride
  1 for samplers and shader resource views and stride 3 for constant buffers, the
  product being that of \<^verbatim>\<open>uint32_t\<close>: for constant buffers the length is the 32-bit product
  \<open>count * 3\<close>, which is the exact product whenever that is below \<open>2 ^ 32\<close>.
\<close>

theorem allocate_descriptor_sets_array_length:
  assumes "allocate_descriptor_sets count layout layout_param dev = Inr ((True, out_sets), dev')"
    and "h \<in> set out_sets"
  shows "\<exists>ranges impl.
           dev_heap dev layout = Some (pipeline_layout_impl_record ranges) \<and>
           unat layout_param < length ranges \<and>
           dev_heap dev' h = Some (descriptor_set_impl_record impl) \<and>
           set_type impl = range_type (ranges ! unat layout_param) \<and>
           set_count impl = range_count (ranges ! unat layout_param) \<and>
           (case set_type impl of
              descriptor_type_constant_buffer \<Rightarrow>
                length (set_descriptors impl) = unat (set_count impl * 3) \<and>
                (unat (set_count impl) * 3 < 2 ^ 32 \<longrightarrow>
                   length (set_descriptors impl) = unat (set_count impl) * 3)
            | descriptor_type_sampler \<Rightarrow> length (set_descriptors impl) = unat (set_count impl)
            | descriptor_type_shader_resource_view \<Rightarrow>
                length (set_descriptors impl) = unat (set_count impl)
            | descriptor_type_other v \<Rightarrow> False)"
proof -
  from assms(1) have loop:
    "allocate_descriptor_sets_loop (unat count) layout layout_param dev = Inr (out_sets, dev')"
    by (auto simp: allocate_descriptor_sets_def split: if_splits sum.splits)
  from assms(2) loop obtain n where n: "unat count = Suc n"
    by (cases "unat count") auto
  from allocate_descriptor_sets_loop_step [of n layout layout_param dev out_sets dev'] loop n
  obtain ranges descriptors where
    ranges: "dev_heap dev layout = Some (pipeline_layout_impl_record ranges)" and
    index: "unat layout_param < length ranges" and
    ds: "resize_descriptors (range_type (ranges ! unat layout_param))
           (range_count (ranges ! unat layout_param)) = Inr descriptors"
    by auto
  let ?impl = "\<lparr> set_type = range_type (ranges ! unat layout_param),
                  set_count = range_count (ranges ! unat layout_param),
                  set_descriptors = descriptors \<rparr>"
  from allocate_descriptor_sets_loop_invariant [OF loop ranges ds refl] assms(2)
  have h: "dev_heap dev' h = Some (descriptor_set_impl_record ?impl)" by blast
  have "dev_heap dev layout = Some (pipeline_layout_impl_record ranges) \<and>
           unat layout_param < length ranges \<and>
           dev_heap dev' h = Some (descriptor_set_impl_record ?impl) \<and>
           set_type ?impl = range_type (ranges ! unat layout_param) \<and>
           set_count ?impl = range_count (ranges ! unat layout_param) \<and>
           (case set_type ?impl of
              descriptor_type_constant_buffer \<Rightarrow>
                length (set_descriptors ?impl) = unat (set_count ?impl * 3) \<and>
                (unat (set_count ?impl) * 3 < 2 ^ 32 \<longrightarrow>
                   length (set_descriptors ?impl) = unat (set_count ?impl) * 3)
            | descriptor_type_sampler \<Rightarrow> length (set_descriptors ?impl) = unat (set_count ?impl)
            | descriptor_type_shader_resource_view \<Rightarrow>
                length (set_descriptors ?impl) = unat (set_count ?impl)
            | descriptor_type_other v \<Rightarrow> False)"
    using ranges index h resize_descriptors_length [OF ds]
    by (cases "range_type (ranges ! unat layout_param)") auto
  then show ?thesis by blast
qed

text \<open>
  Claim C5.  For a resource description that carries both the shared flag and the
  shared NT handle flag, \<^verbatim>\<open>create_resource\<close> returns false with a zero output handle and
  leaves the device state as it is, so that no native call has been made; and
  \<^verbatim>\<open>check_capability\<close> reports \<^verbatim>\<open>shared_resource_nt_handle\<close> as unsupported.
\<close>

theorem create_resource_rejects_shared_nt_handle:
  assumes "desc_flags desc AND resource_flags_shared flags \<noteq> 0"
    and "desc_flags desc AND resource_flags_shared_nt_handle flags \<noteq> 0"
  shows "create_resource flags native desc initial_data shared_handle dev =
           Inr ((False, 0, shared_handle), dev) \<and>
         \<not> check_capability native device_caps_shared_resource_nt_handle"
  using assms by (simp add: create_resource_def)

text \<open>
  Claim C10.  \<^verbatim>\<open>destroy_sampler\<close>, \<^verbatim>\<open>destroy_resource\<close>, \<^verbatim>\<open>destroy_resource_view\<close> and
  \<^verbatim>\<open>destroy_pipeline\<close> with a zero handle leave the device state as it is: no reference
  is released and no side record is deleted.
\<close>

theorem destroy_zero_handle_is_noop:
  "destroy_sampler 0 dev = dev \<and>
   destroy_resource 0 dev = dev \<and>
   destroy_resource_view 0 dev = dev \<and>
   destroy_pipeline 0 dev = Inr dev"
  by (simp add: destroy_sampler_def destroy_resource_def destroy_resource_view_def
      destroy_pipeline_def)






















subsection \<open>The theorems at concrete inputs\<close>

text \<open>
  The theorem at a 2D texture whose flags are \<open>0x802\<close>, with \<open>0x2\<close> for the shared flag
  and \<open>0x800\<close> for the NT handle flag, and a non-null \<^verbatim>\<open>shared_handle\<close> pointer to a null
  handle.
\<close>

theorem create_resource_rejects_shared_nt_handle_witness:
  "(0x802 :: u32) AND 0x2 \<noteq> 0 \<and> (0x802 :: u32) AND 0x800 \<noteq> 0 \<and>
   create_resource (\<lparr> resource_flags_shared = 0x2, resource_flags_shared_nt_handle = 0x800 \<rparr>)
     (\<lparr> hr_GetFeatureLevel = 0xa000, hr_CreateSamplerState = None, hr_OpenSharedResource = None, hr_CreateBuffer = None, hr_CreateTexture1D = None, hr_CreateTexture2D = None, hr_CreateTexture3D = None, hr_QueryInterface_IDXGIResource = None, hr_GetSharedHandle = None, hr_CreateDepthStencilView = None, hr_CreateRenderTargetView = None, hr_CreateShaderResourceView1 = None, internal_elements_empty = False, internal_elements_requests = 1, hr_CreateInputLayout = None, hr_CreateVertexShader = None, hr_CreateGeometryShader = None, hr_CreatePixelShader = None, hr_CreateBlendState1 = None, hr_CreateRasterizerState = None, hr_CreateDepthStencilState = None, hr_CreateQuery = (\<lambda>i. None), convert_primitive_topology = (\<lambda>t. 0) \<rparr>)
     (\<lparr> desc_type = resource_type_texture_2d, desc_union = texture_member 256 256 1 1 28 1, desc_heap = memory_heap_gpu_only, desc_usage = resource_usage_shader_resource, desc_flags = 0x802 \<rparr>)
     False (Some 0) (\<lparr> dev_heap = Map.empty, dev_next_alloc = 0x1000, dev_free_store = 8, dev_effects = [] \<rparr>)
   = Inr ((False, 0, Some 0), \<lparr> dev_heap = Map.empty, dev_next_alloc = 0x1000, dev_free_store = 8, dev_effects = [] \<rparr>)"
  using create_resource_rejects_shared_nt_handle
    [where flags = "\<lparr> resource_flags_shared = 0x2, resource_flags_shared_nt_handle = 0x800 \<rparr>"
       and desc = "\<lparr> desc_type = resource_type_texture_2d, desc_union = texture_member 256 256 1 1 28 1, desc_heap = memory_heap_gpu_only, desc_usage = resource_usage_shader_resource, desc_flags = 0x802 \<rparr>"
       and native = "\<lparr> hr_GetFeatureLevel = 0xa000, hr_CreateSamplerState = None, hr_OpenSharedResource = None, hr_CreateBuffer = None, hr_CreateTexture1D = None, hr_CreateTexture2D = None, hr_CreateTexture3D = None, hr_QueryInterface_IDXGIResource = None, hr_GetSharedHandle = None, hr_CreateDepthStencilView = None, hr_CreateRenderTargetView = None, hr_CreateShaderResourceView1 = None, internal_elements_empty = False, internal_elements_requests = 1, hr_CreateInputLayout = None, hr_CreateVertexShader = None, hr_CreateGeometryShader = None, hr_CreatePixelShader = None, hr_CreateBlendState1 = None, hr_CreateRasterizerState = None, hr_CreateDepthStencilState = None, hr_CreateQuery = (\<lambda>i. None), convert_primitive_topology = (\<lambda>t. 0) \<rparr>"
       and initial_data = False and shared_handle = "Some 0"
       and dev = "\<lparr> dev_heap = Map.empty, dev_next_alloc = 0x1000, dev_free_store = 8, dev_effects = [] \<rparr>"]
  by simp

text \<open>
  The theorem at the allocation of two sets for a layout whose parameter 0 is a range of
  4 constant buffers: each set has a descriptor array of 12 elements.
\<close>

theorem allocate_descriptor_sets_array_length_witness:
  "map_sum id fst (allocate_descriptor_sets 2 0x1000 0
                     (\<lparr> dev_heap = [0x1000 \<mapsto> pipeline_layout_impl_record [\<lparr> range_binding = 0, range_dx_register_index = 0, range_dx_register_space = 0, range_type = descriptor_type_constant_buffer, range_count = 4, range_array_size = 1, range_visibility = 0x7FFFFFFF \<rparr>]], dev_next_alloc = 0x1010, dev_free_store = 8, dev_effects = [] \<rparr>)) = Inr (True, [0x1010, 0x1020]) \<and>
   (0x1010 :: u64) \<in> set [0x1010, 0x1020] \<and>
   dev_heap (snd (projr (allocate_descriptor_sets 2 0x1000 0
                             (\<lparr> dev_heap = [0x1000 \<mapsto> pipeline_layout_impl_record [\<lparr> range_binding = 0, range_dx_register_index = 0, range_dx_register_space = 0, range_type = descriptor_type_constant_buffer, range_count = 4, range_array_size = 1, range_visibility = 0x7FFFFFFF \<rparr>]], dev_next_alloc = 0x1010, dev_free_store = 8, dev_effects = [] \<rparr>)))) 0x1010
   = Some (descriptor_set_impl_record
       \<lparr> set_type = descriptor_type_constant_buffer, set_count = 4,
         set_descriptors = [0, 0, 0, 0, 0, 0, 0, 0, 0, 0, 0, 0] \<rparr>) \<and>
   length [0, 0, 0, 0, 0, 0, 0, 0, 0, 0, 0, 0 :: u64] = 12"
  using allocate_descriptor_sets_array_length
    [where count = 2 and layout = "0x1000" and layout_param = 0 and h = "0x1010"
       and out_sets = "[0x1010, 0x1020]"
       and dev = "\<lparr> dev_heap = [0x1000 \<mapsto> pipeline_layout_impl_record [\<lparr> range_binding = 0, range_dx_register_index = 0, range_dx_register_space = 0, range_type = descriptor_type_constant_buffer, range_count = 4, range_array_size = 1, range_visibility = 0x7FFFFFFF \<rparr>]], dev_next_alloc = 0x1010, dev_free_store = 8, dev_effects = [] \<rparr>"
       and dev' = "snd (projr (allocate_descriptor_sets 2 0x1000 0
  (\<lparr> dev_heap = [0x1000 \<mapsto> pipeline_layout_impl_record [\<lparr> range_binding = 0, range_dx_register_index = 0, range_dx_register_space = 0, range_type = descriptor_type_constant_buffer, range_count = 4, range_array_size = 1, range_visibility = 0x7FFFFFFF \<rparr>]], dev_next_alloc = 0x1010, dev_free_store = 8, dev_effects = [] \<rparr>)))"]
  by (simp add: allocate_descriptor_sets_def operator_new_def vector_storage_def
      construct_side_record_def allocate_descriptor_sets_loop_numeral replicate_numeral_unfold)

text \<open>
  Claim C6 as stated fails where the product leaves 32 bits.  For a layout whose
  parameter 0 is a range of 1431655766 (\<open>0x55555556\<close>) constant buffers the allocation
  succeeds and the set has a descriptor array of 2 elements, not of 4294967298.
\<close>

theorem allocate_descriptor_sets_array_length_counterexample:
  "map_sum id fst (allocate_descriptor_sets 1 0x1000 0
                     (\<lparr> dev_heap = [0x1000 \<mapsto> pipeline_layout_impl_record [\<lparr> range_binding = 0, range_dx_register_index = 0, range_dx_register_space = 0, range_type = descriptor_type_constant_buffer, range_count = 0x55555556, range_array_size = 1, range_visibility = 0x7FFFFFFF \<rparr>]], dev_next_alloc = 0x1010, dev_free_store = 8, dev_effects = [] \<rparr>)) = Inr (True, [0x1010]) \<and>
   dev_heap (snd (projr (allocate_descriptor_sets 1 0x1000 0
                             (\<lparr> dev_heap = [0x1000 \<mapsto> pipeline_layout_impl_record [\<lparr> range_binding = 0, range_dx_register_index = 0, range_dx_register_space = 0, range_type = descriptor_type_constant_buffer, range_count = 0x55555556, range_array_size = 1, range_visibility = 0x7FFFFFFF \<rparr>]], dev_next_alloc = 0x1010, dev_free_store = 8, dev_effects = [] \<rparr>)))) 0x1010
   = Some (descriptor_set_impl_record
       \<lparr> set_type = descriptor_type_constant_buffer, set_count = 0x55555556,
         set_descriptors = [0, 0] \<rparr>) \<and>
   length [0, 0 :: u64] \<noteq> unat (0x55555556 :: u32) * 3"
  by (simp add: allocate_descriptor_sets_def operator_new_def vector_storage_def
      construct_side_record_def allocate_descriptor_sets_loop_numeral replicate_numeral_unfold)



section \<open>Verified properties of the Vulkan device hooks\<close>

text \<open>The four calls of \<open>add_extension\<close>, in the order of the source.\<close>

lemma add_extensions_index:
  "snd ((if NDEBUG then id else add_extension supported VK_EXT_DEBUG_MARKER_EXTENSION_NAME False)
         (add_extension supported VK_KHR_SWAPCHAIN_MUTABLE_FORMAT_EXTENSION_NAME True
         (add_extension supported VK_KHR_IMAGE_FORMAT_LIST_EXTENSION_NAME True
         (add_extension supported VK_KHR_PUSH_DESCRIPTOR_EXTENSION_NAME False (exts, index))))) =
     (if extension_supported supported VK_KHR_IMAGE_FORMAT_LIST_EXTENSION_NAME \<and>
         extension_supported supported VK_KHR_SWAPCHAIN_MUTABLE_FORMAT_EXTENSION_NAME
      then index else UINT32_MAX)"
  by (auto simp: add_extension_def)

lemma add_extensions_names:
  "set (fst ((if NDEBUG then id else add_extension supported VK_EXT_DEBUG_MARKER_EXTENSION_NAME False)
         (add_extension supported VK_KHR_SWAPCHAIN_MUTABLE_FORMAT_EXTENSION_NAME True
         (add_extension supported VK_KHR_IMAGE_FORMAT_LIST_EXTENSION_NAME True
         (add_extension supported VK_KHR_PUSH_DESCRIPTOR_EXTENSION_NAME False (exts, index)))))) \<subseteq>
     set exts \<union> {n. extension_supported supported n}"
  by (auto simp: add_extension_def)

lemma vkCreateDevice_calls_next:
  assumes "vkCreateDevice NDEBUG (Some next_vkCreateDevice) physicalDevice pCreateInfo = Inr outcome"
  shows "\<exists>found enabled_extensions enabled_features.
           find_graphics_queue_family NDEBUG (queue_families physicalDevice) (pQueueCreateInfos pCreateInfo) = Inr found \<and>
           trampoline_extensions outcome = Some enabled_extensions \<and>
           trampoline_features outcome = Some enabled_features \<and>
           returned outcome = next_vkCreateDevice enabled_extensions enabled_features \<and>
           set enabled_extensions \<subseteq> set (ppEnabledExtensionNames pCreateInfo) \<union>
             {n. extension_supported (extensions physicalDevice) n} \<and>
           graphics_queue_family_index_of_device outcome =
             (if returned outcome \<noteq> VK_SUCCESS then None
              else Some
                (if list_ex (\<lambda>name. name = VK_KHR_SWAPCHAIN_EXTENSION_NAME) (ppEnabledExtensionNames pCreateInfo) \<and>
                    extension_supported (extensions physicalDevice) VK_KHR_IMAGE_FORMAT_LIST_EXTENSION_NAME \<and>
                    extension_supported (extensions physicalDevice) VK_KHR_SWAPCHAIN_MUTABLE_FORMAT_EXTENSION_NAME
                 then found else UINT32_MAX))"
proof -
  from assms obtain found where
    found: "find_graphics_queue_family NDEBUG (queue_families physicalDevice) (pQueueCreateInfos pCreateInfo) = Inr found"
    by (auto simp: vkCreateDevice_def split: sum.splits)
  let ?app = "ppEnabledExtensionNames pCreateInfo"
  let ?chain = "(if NDEBUG then id
                 else add_extension (extensions physicalDevice) VK_EXT_DEBUG_MARKER_EXTENSION_NAME False)
         (add_extension (extensions physicalDevice) VK_KHR_SWAPCHAIN_MUTABLE_FORMAT_EXTENSION_NAME True
         (add_extension (extensions physicalDevice) VK_KHR_IMAGE_FORMAT_LIST_EXTENSION_NAME True
         (add_extension (extensions physicalDevice) VK_KHR_PUSH_DESCRIPTOR_EXTENSION_NAME False (?app, found))))"
  obtain exts index where chain: "?chain = (exts, index)"
    by (cases ?chain) auto
  have index: "index =
     (if extension_supported (extensions physicalDevice) VK_KHR_IMAGE_FORMAT_LIST_EXTENSION_NAME \<and>
         extension_supported (extensions physicalDevice) VK_KHR_SWAPCHAIN_MUTABLE_FORMAT_EXTENSION_NAME
      then found else UINT32_MAX)"
    using add_extensions_index [of NDEBUG "extensions physicalDevice" ?app found] chain by simp
  have names: "set exts \<subseteq> set ?app \<union> {n. extension_supported (extensions physicalDevice) n}"
    using add_extensions_names [of NDEBUG "extensions physicalDevice" ?app found] chain by simp
  show ?thesis
  proof (cases "list_ex (\<lambda>name. name = VK_KHR_SWAPCHAIN_EXTENSION_NAME) ?app")
    case False
    with assms found show ?thesis
      by (auto simp: vkCreateDevice_def Let_def split: if_splits)
  next
    case swapchain: True
    show ?thesis
    proof (cases "found = UINT32_MAX")
      case True
      with assms found swapchain show ?thesis
        by (auto simp: vkCreateDevice_def Let_def split: if_splits)
    next
      case False
      with assms found swapchain chain index names show ?thesis
        by (auto simp: vkCreateDevice_def Let_def split: if_splits)
    qed
  qed
qed

lemma erase_command_buffers_registries:
  "g_vulkan_devices (registries (erase_command_buffers cbs layer)) = g_vulkan_devices (registries layer) \<and>
   s_vulkan_queues (registries (erase_command_buffers cbs layer)) = s_vulkan_queues (registries layer) \<and>
   (\<forall>cb \<in> set cbs. s_vulkan_command_buffers (registries (erase_command_buffers cbs layer)) cb = None)"
proof (induction cbs arbitrary: layer)
  case Nil
  then show ?case by simp
next
  case (Cons cb cbs)
  let ?layer1 = "delete_wrapper (s_vulkan_command_buffers (registries layer) cb)
     (record_event (erased ''s_vulkan_command_buffers'' cb)
        (layer\<lparr> registries := (registries layer)
           \<lparr> s_vulkan_command_buffers := (s_vulkan_command_buffers (registries layer))(cb := None) \<rparr> \<rparr>))"
  have step: "erase_command_buffers (cb # cbs) layer = erase_command_buffers cbs ?layer1"
    by (simp add: table_erase_def)
  have reg: "registries ?layer1 = (registries layer)
           \<lparr> s_vulkan_command_buffers := (s_vulkan_command_buffers (registries layer))(cb := None) \<rparr>"
    by (simp add: delete_wrapper_def record_event_def split: option.splits)
  have keep: "s_vulkan_command_buffers (registries (erase_command_buffers cbs l)) k = None"
    if "s_vulkan_command_buffers (registries l) k = None" for l k
    using that
  proof (induction cbs arbitrary: l)
    case Nil
    then show ?case by simp
  next
    case (Cons c cs)
    show ?case
      unfolding erase_command_buffers.simps
      by (auto simp: table_erase_def Let_def delete_wrapper_def record_event_def Cons.prems
          split: option.splits intro!: Cons.IH)
  qed
  from Cons.IH [of ?layer1] reg keep [of ?layer1 cb] show ?case
    unfolding step by auto
qed

lemma erase_command_buffers_events:
  "\<exists>pre. events (erase_command_buffers cbs layer) = events layer @ pre \<and>
     (\<forall>x \<in> set pre. \<forall>name arguments. fst x \<noteq> trampoline_called name arguments) \<and>
     (\<forall>cb \<in> set cbs. erased ''s_vulkan_command_buffers'' cb \<in> fst ` set pre)"
proof (induction cbs arbitrary: layer)
  case Nil
  then show ?case by simp
next
  case (Cons cb cbs)
  let ?layer1 = "delete_wrapper (s_vulkan_command_buffers (registries layer) cb)
     (record_event (erased ''s_vulkan_command_buffers'' cb)
        (layer\<lparr> registries := (registries layer)
           \<lparr> s_vulkan_command_buffers := (s_vulkan_command_buffers (registries layer))(cb := None) \<rparr> \<rparr>))"
  have step: "erase_command_buffers (cb # cbs) layer = erase_command_buffers cbs ?layer1"
    by (simp add: table_erase_def)
  obtain first where first: "events ?layer1 = events layer @ first"
    and first_ok: "\<forall>x \<in> set first. \<forall>name arguments. fst x \<noteq> trampoline_called name arguments"
    and first_has: "erased ''s_vulkan_command_buffers'' cb \<in> fst ` set first"
    by (cases "s_vulkan_command_buffers (registries layer) cb")
       (auto simp: delete_wrapper_def record_event_def)
  from Cons.IH [of ?layer1] obtain rest where
    rest: "events (erase_command_buffers cbs ?layer1) = events ?layer1 @ rest"
    and rest_ok: "\<forall>x \<in> set rest. \<forall>name arguments. fst x \<noteq> trampoline_called name arguments"
    and rest_has: "\<forall>c \<in> set cbs. erased ''s_vulkan_command_buffers'' c \<in> fst ` set rest"
    by blast
  show ?case
    unfolding step
    using first first_ok first_has rest rest_ok rest_has
    by (intro exI [of _ "first @ rest"]) auto
qed

lemma erase_queues_registries:
  "g_vulkan_devices (registries (erase_queues queues layer)) = g_vulkan_devices (registries layer) \<and>
   s_vulkan_command_buffers (registries (erase_queues queues layer)) =
     s_vulkan_command_buffers (registries layer) \<and>
   (\<forall>k. s_vulkan_queues (registries layer) k = None \<or> k \<in> set queues \<longrightarrow>
        s_vulkan_queues (registries (erase_queues queues layer)) k = None)"
proof (induction queues arbitrary: layer)
  case Nil
  then show ?case by simp
next
  case (Cons q queues)
  let ?layer1 = "record_event (deleted q)
     (record_event (erased ''s_vulkan_queues'' q)
        (layer\<lparr> registries := (registries layer)
           \<lparr> s_vulkan_queues := (s_vulkan_queues (registries layer))(q := None) \<rparr> \<rparr>))"
  have step: "erase_queues (q # queues) layer = erase_queues queues ?layer1"
    by (simp add: table_erase_def)
  have reg: "registries ?layer1 = (registries layer)
           \<lparr> s_vulkan_queues := (s_vulkan_queues (registries layer))(q := None) \<rparr>"
    by (simp add: record_event_def)
  from Cons.IH [of ?layer1] reg show ?case
    unfolding step by auto
qed

lemma erase_queues_events:
  "\<exists>pre. events (erase_queues queues layer) = events layer @ pre \<and>
     (\<forall>x \<in> set pre. \<forall>name arguments. fst x \<noteq> trampoline_called name arguments) \<and>
     (\<forall>q \<in> set queues. erased ''s_vulkan_queues'' q \<in> fst ` set pre)"
proof (induction queues arbitrary: layer)
  case Nil
  then show ?case by simp
next
  case (Cons q queues)
  let ?layer1 = "record_event (deleted q)
     (record_event (erased ''s_vulkan_queues'' q)
        (layer\<lparr> registries := (registries layer)
           \<lparr> s_vulkan_queues := (s_vulkan_queues (registries layer))(q := None) \<rparr> \<rparr>))"
  have step: "erase_queues (q # queues) layer = erase_queues queues ?layer1"
    by (simp add: table_erase_def)
  obtain first where first: "events ?layer1 = events layer @ first"
    and first_ok: "\<forall>x \<in> set first. \<forall>name arguments. fst x \<noteq> trampoline_called name arguments"
    and first_has: "erased ''s_vulkan_queues'' q \<in> fst ` set first"
    by (auto simp: record_event_def)
  from Cons.IH [of ?layer1] obtain rest where
    rest: "events (erase_queues queues ?layer1) = events ?layer1 @ rest"
    and rest_ok: "\<forall>x \<in> set rest. \<forall>name arguments. fst x \<noteq> trampoline_called name arguments"
    and rest_has: "\<forall>c \<in> set queues. erased ''s_vulkan_queues'' c \<in> fst ` set rest"
    by blast
  show ?case
    unfolding step
    using first first_ok first_has rest rest_ok rest_has
    by (intro exI [of _ "first @ rest"]) auto
qed

lemma call_trampoline_events:
  assumes "call_trampoline name data arguments layer = Inr layer'"
  shows "events layer' = events layer @ [(trampoline_called name arguments, registries layer)] \<and>
         registries layer' = registries layer"
  using assms by (auto simp: call_trampoline_def record_event_def split: option.splits if_splits)

lemma vkDestroyBuffer_order:
  assumes "vkDestroyBuffer RESHADE_ADDON dispatch_key_from_handle device buffer pAllocator layer = Inr layer'"
  shows "\<exists>pre R. events layer' =
           events layer @ pre @ [(trampoline_called ''DestroyBuffer'' [device, buffer, pAllocator], R)] \<and>
         (\<forall>x \<in> set pre. \<forall>name arguments. fst x \<noteq> trampoline_called name arguments) \<and>
         (RESHADE_ADDON \<longrightarrow>
            erased ''device_impl::_buffers'' buffer \<in> fst ` set pre \<and>
            (\<exists>device_impl. table_at (g_vulkan_devices R) (dispatch_key_from_handle device) = Some device_impl \<and>
               table_at (impl_buffers device_impl) buffer = None)) \<and>
         (\<not> RESHADE_ADDON \<longrightarrow> pre = [] \<and> R = registries layer)"
proof -
  from assms obtain device_impl where
    impl: "g_vulkan_devices (registries layer) (dispatch_key_from_handle device) = Some device_impl"
    by (auto simp: vkDestroyBuffer_def table_at_def split: option.splits)
  let ?layer1 = "if RESHADE_ADDON then
                   record_event (erased ''device_impl::_buffers'' buffer)
                     (layer\<lparr> registries := (registries layer)
                        \<lparr> g_vulkan_devices := (g_vulkan_devices (registries layer))
                             (dispatch_key_from_handle device \<mapsto> unregister_buffer buffer device_impl) \<rparr> \<rparr>)
                 else layer"
  from assms impl have
    "call_trampoline ''DestroyBuffer'' (Some device_impl) [device, buffer, pAllocator] ?layer1 = Inr layer'"
    by (simp add: vkDestroyBuffer_def table_at_def Let_def)
  from call_trampoline_events [OF this] have
    ev: "events layer' = events ?layer1 @
           [(trampoline_called ''DestroyBuffer'' [device, buffer, pAllocator], registries ?layer1)]"
    by simp
  show ?thesis
  proof (cases RESHADE_ADDON)
    case True
    with ev show ?thesis
      by (intro exI [of _ "[(erased ''device_impl::_buffers'' buffer, registries ?layer1)]"]
            exI [of _ "registries ?layer1"])
         (simp add: record_event_def table_at_def unregister_buffer_def table_erase_def)
  next
    case False
    with ev show ?thesis
      by (intro exI [of _ "[]"] exI [of _ "registries ?layer1"]) simp
  qed
qed

lemma vkFreeCommandBuffers_order:
  assumes "vkFreeCommandBuffers RESHADE_ADDON dispatch_key_from_handle device commandPool
             pCommandBuffers layer = Inr layer'"
  shows "\<exists>pre R. events layer' =
           events layer @ pre @
             [(trampoline_called ''FreeCommandBuffers'' (device # commandPool # pCommandBuffers), R)] \<and>
         (\<forall>x \<in> set pre. \<forall>name arguments. fst x \<noteq> trampoline_called name arguments) \<and>
         (RESHADE_ADDON \<longrightarrow>
            (\<forall>commandBuffer \<in> set pCommandBuffers.
               erased ''s_vulkan_command_buffers'' commandBuffer \<in> fst ` set pre \<and>
               table_at (s_vulkan_command_buffers R) commandBuffer = None)) \<and>
         (\<not> RESHADE_ADDON \<longrightarrow> pre = [] \<and> R = registries layer)"
proof -
  let ?layer1 = "if RESHADE_ADDON then erase_command_buffers pCommandBuffers layer else layer"
  from assms have
    "call_trampoline ''FreeCommandBuffers''
       (table_at (g_vulkan_devices (registries ?layer1)) (dispatch_key_from_handle device))
       (device # commandPool # pCommandBuffers) ?layer1 = Inr layer'"
    by (simp add: vkFreeCommandBuffers_def Let_def)
  from call_trampoline_events [OF this] have
    ev: "events layer' = events ?layer1 @
           [(trampoline_called ''FreeCommandBuffers'' (device # commandPool # pCommandBuffers),
             registries ?layer1)]"
    by simp
  show ?thesis
  proof (cases RESHADE_ADDON)
    case True
    from erase_command_buffers_events [of pCommandBuffers layer] obtain pre where
      pre: "events (erase_command_buffers pCommandBuffers layer) = events layer @ pre"
      and ok: "\<forall>x \<in> set pre. \<forall>name arguments. fst x \<noteq> trampoline_called name arguments"
      and has: "\<forall>cb \<in> set pCommandBuffers. erased ''s_vulkan_command_buffers'' cb \<in> fst ` set pre"
      by blast
    from True ev pre ok has erase_command_buffers_registries [of pCommandBuffers layer]
    show ?thesis
      by (intro exI [of _ pre] exI [of _ "registries ?layer1"]) (simp add: table_at_def)
  next
    case False
    with ev show ?thesis
      by (intro exI [of _ "[]"] exI [of _ "registries ?layer1"]) simp
  qed
qed

lemma vkDestroyDevice_order:
  assumes "vkDestroyDevice dispatch_key_from_handle device pAllocator layer = Inr layer'"
  shows "\<exists>pre R device_impl. events layer' =
           events layer @ pre @ [(trampoline_called ''DestroyDevice'' [device, pAllocator], R)] \<and>
         (\<forall>x \<in> set pre. \<forall>name arguments. fst x \<noteq> trampoline_called name arguments) \<and>
         erased ''g_vulkan_devices'' (dispatch_key_from_handle device) \<in> fst ` set pre \<and>
         table_at (g_vulkan_devices R) (dispatch_key_from_handle device) = None \<and>
         table_at (g_vulkan_devices (registries layer)) (dispatch_key_from_handle device) = Some device_impl \<and>
         (\<forall>queue \<in> set (impl_queues device_impl).
            erased ''s_vulkan_queues'' queue \<in> fst ` set pre \<and>
            table_at (s_vulkan_queues R) queue = None) \<and>
         (\<forall>commandBuffer. table_at (s_vulkan_command_buffers R) commandBuffer = None)"
proof -
  let ?key = "dispatch_key_from_handle device"
  let ?layer1 = "record_event (cleared ''s_vulkan_command_buffers'')
                     (layer\<lparr> registries := (registries layer)
                        \<lparr> s_vulkan_command_buffers := Map.empty \<rparr> \<rparr>)"
  let ?layer2 = "record_event (erased ''g_vulkan_devices'' ?key)
                     (?layer1\<lparr> registries := (registries ?layer1)
                        \<lparr> g_vulkan_devices := (g_vulkan_devices (registries ?layer1))(?key := None) \<rparr> \<rparr>)"
  from assms obtain impl where
    impl: "g_vulkan_devices (registries layer) ?key = Some impl"
    by (auto simp: vkDestroyDevice_def table_erase_def table_clear_def record_event_def Let_def
        split: option.splits)
  let ?layer3 = "erase_queues (impl_queues impl) ?layer2"
  from assms impl have call:
    "call_trampoline ''DestroyDevice'' (Some impl) [device, pAllocator]
       (record_event (deleted device) ?layer3) = Inr layer'"
    by (auto simp: vkDestroyDevice_def table_erase_def table_clear_def record_event_def Let_def
        split: if_splits)
  from call_trampoline_events [OF call] have
    ev: "events layer' = events ?layer3 @ [(deleted device, registries ?layer3)] @
           [(trampoline_called ''DestroyDevice'' [device, pAllocator], registries ?layer3)]"
    by (simp add: record_event_def)
  from erase_queues_events [of "impl_queues impl" ?layer2] obtain mid where
    mid: "events ?layer3 = events ?layer2 @ mid"
    and ok: "\<forall>x \<in> set mid. \<forall>name arguments. fst x \<noteq> trampoline_called name arguments"
    and has: "\<forall>q \<in> set (impl_queues impl). erased ''s_vulkan_queues'' q \<in> fst ` set mid"
    by blast
  have ev2: "events ?layer2 = events layer @
      [(cleared ''s_vulkan_command_buffers'', registries ?layer1),
       (erased ''g_vulkan_devices'' ?key, registries ?layer2)]"
    by (simp add: record_event_def)
  let ?pre = "[(cleared ''s_vulkan_command_buffers'', registries ?layer1),
       (erased ''g_vulkan_devices'' ?key, registries ?layer2)] @ mid @
       [(deleted device, registries ?layer3)]"
  have regs: "g_vulkan_devices (registries ?layer3) ?key = None"
    "\<forall>q \<in> set (impl_queues impl). s_vulkan_queues (registries ?layer3) q = None"
    "\<forall>c. s_vulkan_command_buffers (registries ?layer3) c = None"
    using erase_queues_registries [of "impl_queues impl" ?layer2]
    by (simp_all add: record_event_def)
  have "events layer' =
           events layer @ ?pre @ [(trampoline_called ''DestroyDevice'' [device, pAllocator], registries ?layer3)] \<and>
         (\<forall>x \<in> set ?pre. \<forall>name arguments. fst x \<noteq> trampoline_called name arguments) \<and>
         erased ''g_vulkan_devices'' ?key \<in> fst ` set ?pre \<and>
         table_at (g_vulkan_devices (registries ?layer3)) ?key = None \<and>
         table_at (g_vulkan_devices (registries layer)) ?key = Some impl \<and>
         (\<forall>queue \<in> set (impl_queues impl).
            erased ''s_vulkan_queues'' queue \<in> fst ` set ?pre \<and>
            table_at (s_vulkan_queues (registries ?layer3)) queue = None) \<and>
         (\<forall>commandBuffer. table_at (s_vulkan_command_buffers (registries ?layer3)) commandBuffer = None)"
    using ev mid ok has ev2 regs impl
    by (auto simp: table_at_def)
  then show ?thesis by blast
qed

text \<open>
  Claim C8 (amended).  Whenever the next \<^verbatim>\<open>vkCreateDevice\<close> of the chain is resolved and
  the hook returns, it has called that function, with extension names that are names the
  application enabled or names of extensions the device supports, and it returns the
  result of that call: an unavailable extension, required or optional, never aborts the
  creation.  If a required extension (\<^verbatim>\<open>VK_KHR_image_format_list\<close> or
  \<^verbatim>\<open>VK_KHR_swapchain_mutable_format\<close>) is unavailable and the creation succeeds, the
  graphics queue family index of the created device is \<^verbatim>\<open>UINT32_MAX\<close>, which keeps the
  runtime from initialising on that device.  If both are available and the application
  enabled \<^verbatim>\<open>VK_KHR_swapchain\<close>, the index is the graphics queue family that was found,
  whether or not the optional extensions (\<^verbatim>\<open>VK_KHR_push_descriptor\<close>,
  \<^verbatim>\<open>VK_EXT_debug_marker\<close>) are available.
\<close>

theorem vkCreateDevice_unavailable_extensions:
  assumes "vkCreateDevice NDEBUG (Some next_vkCreateDevice) physicalDevice pCreateInfo = Inr outcome"
  shows "\<exists>found enabled_extensions enabled_features.
       find_graphics_queue_family NDEBUG (queue_families physicalDevice) (pQueueCreateInfos pCreateInfo) = Inr found \<and>
       trampoline_extensions outcome = Some enabled_extensions \<and>
       trampoline_features outcome = Some enabled_features \<and>
       returned outcome = next_vkCreateDevice enabled_extensions enabled_features \<and>
       set enabled_extensions \<subseteq> set (ppEnabledExtensionNames pCreateInfo) \<union>
         {name. extension_supported (extensions physicalDevice) name} \<and>
       ((\<not> extension_supported (extensions physicalDevice) VK_KHR_IMAGE_FORMAT_LIST_EXTENSION_NAME \<or>
         \<not> extension_supported (extensions physicalDevice) VK_KHR_SWAPCHAIN_MUTABLE_FORMAT_EXTENSION_NAME) \<and>
        returned outcome = VK_SUCCESS \<longrightarrow>
          graphics_queue_family_index_of_device outcome = Some UINT32_MAX) \<and>
       (extension_supported (extensions physicalDevice) VK_KHR_IMAGE_FORMAT_LIST_EXTENSION_NAME \<and>
        extension_supported (extensions physicalDevice) VK_KHR_SWAPCHAIN_MUTABLE_FORMAT_EXTENSION_NAME \<and>
        list_ex (\<lambda>name. name = VK_KHR_SWAPCHAIN_EXTENSION_NAME) (ppEnabledExtensionNames pCreateInfo) \<and>
        returned outcome = VK_SUCCESS \<longrightarrow>
          graphics_queue_family_index_of_device outcome = Some found)"
  using vkCreateDevice_calls_next [OF assms] by (auto split: if_splits)

text \<open>
  The theorem on a device with one graphics queue family for an application that enables
  \<^verbatim>\<open>VK_KHR_swapchain\<close>: once where only the optional \<^verbatim>\<open>VK_KHR_push_descriptor\<close> is
  unavailable, and once where the required \<^verbatim>\<open>VK_KHR_image_format_list\<close> is.
\<close>

theorem vkCreateDevice_unavailable_extensions_witness:
  "\<not> extension_supported [VK_KHR_SWAPCHAIN_EXTENSION_NAME, VK_KHR_IMAGE_FORMAT_LIST_EXTENSION_NAME, VK_KHR_SWAPCHAIN_MUTABLE_FORMAT_EXTENSION_NAME] VK_KHR_PUSH_DESCRIPTOR_EXTENSION_NAME \<and>
   extension_supported [VK_KHR_SWAPCHAIN_EXTENSION_NAME, VK_KHR_IMAGE_FORMAT_LIST_EXTENSION_NAME, VK_KHR_SWAPCHAIN_MUTABLE_FORMAT_EXTENSION_NAME] VK_KHR_IMAGE_FORMAT_LIST_EXTENSION_NAME \<and>
   extension_supported [VK_KHR_SWAPCHAIN_EXTENSION_NAME, VK_KHR_IMAGE_FORMAT_LIST_EXTENSION_NAME, VK_KHR_SWAPCHAIN_MUTABLE_FORMAT_EXTENSION_NAME] VK_KHR_SWAPCHAIN_MUTABLE_FORMAT_EXTENSION_NAME \<and>
   map_sum id (\<lambda>outcome. (returned outcome, trampoline_extensions outcome,
                           graphics_queue_family_index_of_device outcome))
     (vkCreateDevice True (Some (\<lambda>names features. VK_SUCCESS))
        (\<lparr> queue_families = [0x1], extensions = [VK_KHR_SWAPCHAIN_EXTENSION_NAME, VK_KHR_IMAGE_FORMAT_LIST_EXTENSION_NAME, VK_KHR_SWAPCHAIN_MUTABLE_FORMAT_EXTENSION_NAME] \<rparr>)
        (\<lparr> pQueueCreateInfos = [\<lparr> queueFamilyIndex = 0, queueCount = 1 \<rparr>], ppEnabledExtensionNames = [VK_KHR_SWAPCHAIN_EXTENSION_NAME], pNext_features2 = None, pEnabledFeatures = None \<rparr>))
   = Inr (VK_SUCCESS, Some [VK_KHR_SWAPCHAIN_EXTENSION_NAME, VK_KHR_IMAGE_FORMAT_LIST_EXTENSION_NAME, VK_KHR_SWAPCHAIN_MUTABLE_FORMAT_EXTENSION_NAME], Some 0) \<and>
   \<not> extension_supported [VK_KHR_SWAPCHAIN_EXTENSION_NAME, VK_KHR_PUSH_DESCRIPTOR_EXTENSION_NAME, VK_KHR_SWAPCHAIN_MUTABLE_FORMAT_EXTENSION_NAME] VK_KHR_IMAGE_FORMAT_LIST_EXTENSION_NAME \<and>
   map_sum id (\<lambda>outcome. (returned outcome, trampoline_extensions outcome,
                           graphics_queue_family_index_of_device outcome))
     (vkCreateDevice True (Some (\<lambda>names features. VK_SUCCESS))
        (\<lparr> queue_families = [0x1], extensions = [VK_KHR_SWAPCHAIN_EXTENSION_NAME, VK_KHR_PUSH_DESCRIPTOR_EXTENSION_NAME, VK_KHR_SWAPCHAIN_MUTABLE_FORMAT_EXTENSION_NAME] \<rparr>)
        (\<lparr> pQueueCreateInfos = [\<lparr> queueFamilyIndex = 0, queueCount = 1 \<rparr>], ppEnabledExtensionNames = [VK_KHR_SWAPCHAIN_EXTENSION_NAME], pNext_features2 = None, pEnabledFeatures = None \<rparr>))
   = Inr (VK_SUCCESS, Some [VK_KHR_SWAPCHAIN_EXTENSION_NAME, VK_KHR_PUSH_DESCRIPTOR_EXTENSION_NAME, VK_KHR_SWAPCHAIN_MUTABLE_FORMAT_EXTENSION_NAME], Some UINT32_MAX)"
  using vkCreateDevice_unavailable_extensions
    [where NDEBUG = True and next_vkCreateDevice = "(\<lambda>names features. VK_SUCCESS)"
       and physicalDevice = "\<lparr> queue_families = [0x1], extensions = [VK_KHR_SWAPCHAIN_EXTENSION_NAME, VK_KHR_IMAGE_FORMAT_LIST_EXTENSION_NAME, VK_KHR_SWAPCHAIN_MUTABLE_FORMAT_EXTENSION_NAME] \<rparr>"
       and pCreateInfo = "\<lparr> pQueueCreateInfos = [\<lparr> queueFamilyIndex = 0, queueCount = 1 \<rparr>], ppEnabledExtensionNames = [VK_KHR_SWAPCHAIN_EXTENSION_NAME], pNext_features2 = None, pEnabledFeatures = None \<rparr>"
       and outcome = "projr (vkCreateDevice True (Some (\<lambda>names features. VK_SUCCESS))
  (\<lparr> queue_families = [0x1], extensions = [VK_KHR_SWAPCHAIN_EXTENSION_NAME, VK_KHR_IMAGE_FORMAT_LIST_EXTENSION_NAME, VK_KHR_SWAPCHAIN_MUTABLE_FORMAT_EXTENSION_NAME] \<rparr>)
  (\<lparr> pQueueCreateInfos = [\<lparr> queueFamilyIndex = 0, queueCount = 1 \<rparr>], ppEnabledExtensionNames = [VK_KHR_SWAPCHAIN_EXTENSION_NAME], pNext_features2 = None, pEnabledFeatures = None \<rparr>))"]
    vkCreateDevice_unavailable_extensions
    [where NDEBUG = True and next_vkCreateDevice = "(\<lambda>names features. VK_SUCCESS)"
       and physicalDevice = "\<lparr> queue_families = [0x1], extensions = [VK_KHR_SWAPCHAIN_EXTENSION_NAME, VK_KHR_PUSH_DESCRIPTOR_EXTENSION_NAME, VK_KHR_SWAPCHAIN_MUTABLE_FORMAT_EXTENSION_NAME] \<rparr>"
       and pCreateInfo = "\<lparr> pQueueCreateInfos = [\<lparr> queueFamilyIndex = 0, queueCount = 1 \<rparr>], ppEnabledExtensionNames = [VK_KHR_SWAPCHAIN_EXTENSION_NAME], pNext_features2 = None, pEnabledFeatures = None \<rparr>"
       and outcome = "projr (vkCreateDevice True (Some (\<lambda>names features. VK_SUCCESS))
  (\<lparr> queue_families = [0x1], extensions = [VK_KHR_SWAPCHAIN_EXTENSION_NAME, VK_KHR_PUSH_DESCRIPTOR_EXTENSION_NAME, VK_KHR_SWAPCHAIN_MUTABLE_FORMAT_EXTENSION_NAME] \<rparr>)
  (\<lparr> pQueueCreateInfos = [\<lparr> queueFamilyIndex = 0, queueCount = 1 \<rparr>], ppEnabledExtensionNames = [VK_KHR_SWAPCHAIN_EXTENSION_NAME], pNext_features2 = None, pEnabledFeatures = None \<rparr>))"]
  by (simp add: vkCreateDevice_def add_extension_def extension_supported_def
      VK_EXTENSION_NAME_defs VK_MAX_EXTENSION_NAME_SIZE_def VK_QUEUE_GRAPHICS_BIT_def
      UINT32_MAX_def VK_SUCCESS_def)

text \<open>
  Claim C8 as stated fails.  On a device that does not support the required
  \<^verbatim>\<open>VK_KHR_image_format_list\<close>, for an application that enables \<^verbatim>\<open>VK_KHR_swapchain\<close> on
  a graphics queue, the hook calls the next \<^verbatim>\<open>vkCreateDevice\<close> and, when that succeeds,
  returns \<^verbatim>\<open>VK_SUCCESS\<close> with a device created.
\<close>

theorem vkCreateDevice_unavailable_extensions_counterexample:
  "\<not> extension_supported [VK_KHR_SWAPCHAIN_EXTENSION_NAME, VK_KHR_PUSH_DESCRIPTOR_EXTENSION_NAME, VK_KHR_SWAPCHAIN_MUTABLE_FORMAT_EXTENSION_NAME] VK_KHR_IMAGE_FORMAT_LIST_EXTENSION_NAME \<and>
   map_sum id (\<lambda>outcome. (returned outcome, trampoline_extensions outcome,
                           graphics_queue_family_index_of_device outcome))
     (vkCreateDevice True (Some (\<lambda>names features. VK_SUCCESS))
        (\<lparr> queue_families = [0x1], extensions = [VK_KHR_SWAPCHAIN_EXTENSION_NAME, VK_KHR_PUSH_DESCRIPTOR_EXTENSION_NAME, VK_KHR_SWAPCHAIN_MUTABLE_FORMAT_EXTENSION_NAME] \<rparr>)
        (\<lparr> pQueueCreateInfos = [\<lparr> queueFamilyIndex = 0, queueCount = 1 \<rparr>], ppEnabledExtensionNames = [VK_KHR_SWAPCHAIN_EXTENSION_NAME], pNext_features2 = None, pEnabledFeatures = None \<rparr>))
   = Inr (VK_SUCCESS, Some [VK_KHR_SWAPCHAIN_EXTENSION_NAME, VK_KHR_PUSH_DESCRIPTOR_EXTENSION_NAME, VK_KHR_SWAPCHAIN_MUTABLE_FORMAT_EXTENSION_NAME], Some UINT32_MAX)"
  by (simp add: vkCreateDevice_def add_extension_def extension_supported_def
      VK_EXTENSION_NAME_defs VK_MAX_EXTENSION_NAME_SIZE_def VK_QUEUE_GRAPHICS_BIT_def
      UINT32_MAX_def VK_SUCCESS_def)

text \<open>
  Claim C9 (amended).  Whenever \<^verbatim>\<open>vkDestroyBuffer\<close>, \<^verbatim>\<open>vkFreeCommandBuffers\<close> or
  \<^verbatim>\<open>vkDestroyDevice\<close> returns, what it did is a sequence \<open>pre\<close> of events none of which
  is a call of a trampoline, followed by the call of the native trampoline as the last
  event, with the registries \<open>R\<close> as they are at that moment.  For \<^verbatim>\<open>vkDestroyDevice\<close> the
  erasure of the entry of the device is among \<open>pre\<close>, and in \<open>R\<close> the entry of the device,
  the entries of its queues and every command buffer entry are gone.  For
  \<^verbatim>\<open>vkDestroyBuffer\<close> and \<^verbatim>\<open>vkFreeCommandBuffers\<close> the erasure is compiled under
  \<^verbatim>\<open>#if RESHADE_ADDON\<close>: in a build with the macro the erasure of the entry of the buffer,
  or of every command buffer, is among \<open>pre\<close> and a lookup in \<open>R\<close> finds nothing; in a build
  without it the hook does nothing before it calls the trampoline, which is called with
  the registries as the call found them.
\<close>

theorem destruction_erases_registry_before_trampoline:
  "(vkDestroyBuffer RESHADE_ADDON dispatch_key_from_handle device buffer pAllocator layer = Inr after_buffer
      \<longrightarrow>
      (\<exists>pre R. events after_buffer =
           events layer @ pre @ [(trampoline_called ''DestroyBuffer'' [device, buffer, pAllocator], R)] \<and>
         (\<forall>x \<in> set pre. \<forall>name arguments. fst x \<noteq> trampoline_called name arguments) \<and>
         (RESHADE_ADDON \<longrightarrow>
            erased ''device_impl::_buffers'' buffer \<in> fst ` set pre \<and>
            (\<exists>device_impl. table_at (g_vulkan_devices R) (dispatch_key_from_handle device) = Some device_impl \<and>
               table_at (impl_buffers device_impl) buffer = None)) \<and>
         (\<not> RESHADE_ADDON \<longrightarrow> pre = [] \<and> R = registries layer))) \<and>
   (vkFreeCommandBuffers RESHADE_ADDON dispatch_key_from_handle device commandPool pCommandBuffers layer =
      Inr after_free \<longrightarrow>
      (\<exists>pre R. events after_free =
           events layer @ pre @
             [(trampoline_called ''FreeCommandBuffers'' (device # commandPool # pCommandBuffers), R)] \<and>
         (\<forall>x \<in> set pre. \<forall>name arguments. fst x \<noteq> trampoline_called name arguments) \<and>
         (RESHADE_ADDON \<longrightarrow>
            (\<forall>commandBuffer \<in> set pCommandBuffers.
               erased ''s_vulkan_command_buffers'' commandBuffer \<in> fst ` set pre \<and>
               table_at (s_vulkan_command_buffers R) commandBuffer = None)) \<and>
         (\<not> RESHADE_ADDON \<longrightarrow> pre = [] \<and> R = registries layer))) \<and>
   (vkDestroyDevice dispatch_key_from_handle device pAllocator layer = Inr after_device \<longrightarrow>
      (\<exists>pre R device_impl. events after_device =
           events layer @ pre @ [(trampoline_called ''DestroyDevice'' [device, pAllocator], R)] \<and>
         (\<forall>x \<in> set pre. \<forall>name arguments. fst x \<noteq> trampoline_called name arguments) \<and>
         erased ''g_vulkan_devices'' (dispatch_key_from_handle device) \<in> fst ` set pre \<and>
         table_at (g_vulkan_devices R) (dispatch_key_from_handle device) = None \<and>
         table_at (g_vulkan_devices (registries layer)) (dispatch_key_from_handle device) = Some device_impl \<and>
         (\<forall>queue \<in> set (impl_queues device_impl).
            erased ''s_vulkan_queues'' queue \<in> fst ` set pre \<and>
            table_at (s_vulkan_queues R) queue = None) \<and>
         (\<forall>commandBuffer. table_at (s_vulkan_command_buffers R) commandBuffer = None)))"
  by (intro conjI impI; erule vkDestroyBuffer_order vkFreeCommandBuffers_order vkDestroyDevice_order)

text \<open>
  The theorem on a layer with one device \<open>0xD0\<close> that has the queue \<open>0x51\<close> and the
  registered buffer \<open>0xB1\<close>, and with one command buffer \<open>0xC1\<close>: the events of each of the
  three hooks, in order, in a build with \<^verbatim>\<open>RESHADE_ADDON\<close>, and the events of the first
  two in a build without it.
\<close>

theorem destruction_erases_registry_before_trampoline_witness:
  "map_sum id (\<lambda>layer. map fst (events layer))
     (vkDestroyBuffer True (\<lambda>handle. handle) 0xD0 0xB1 0
        (\<lparr> registries = \<lparr> g_vulkan_devices = [0xD0 \<mapsto> \<lparr> impl_queues = [0x51], impl_dispatch_table = (\<lambda>name. True), impl_buffers = [0xB1 \<mapsto> ()] \<rparr>], s_vulkan_queues = [0x51 \<mapsto> 0x9001], s_vulkan_command_buffers = [0xC1 \<mapsto> 0x9101] \<rparr>, events = [] \<rparr>))
   = Inr [erased ''device_impl::_buffers'' 0xB1, trampoline_called ''DestroyBuffer'' [0xD0, 0xB1, 0]] \<and>
   map_sum id (\<lambda>layer. map fst (events layer))
     (vkFreeCommandBuffers True (\<lambda>handle. handle) 0xD0 0xF0 [0xC1]
        (\<lparr> registries = \<lparr> g_vulkan_devices = [0xD0 \<mapsto> \<lparr> impl_queues = [0x51], impl_dispatch_table = (\<lambda>name. True), impl_buffers = [0xB1 \<mapsto> ()] \<rparr>], s_vulkan_queues = [0x51 \<mapsto> 0x9001], s_vulkan_command_buffers = [0xC1 \<mapsto> 0x9101] \<rparr>, events = [] \<rparr>))
   = Inr [erased ''s_vulkan_command_buffers'' 0xC1, deleted 0x9101,
          trampoline_called ''FreeCommandBuffers'' [0xD0, 0xF0, 0xC1]] \<and>
   map_sum id (\<lambda>layer. map fst (events layer))
     (vkDestroyDevice (\<lambda>handle. handle) 0xD0 0
        (\<lparr> registries = \<lparr> g_vulkan_devices = [0xD0 \<mapsto> \<lparr> impl_queues = [0x51], impl_dispatch_table = (\<lambda>name. True), impl_buffers = [0xB1 \<mapsto> ()] \<rparr>], s_vulkan_queues = [0x51 \<mapsto> 0x9001], s_vulkan_command_buffers = [0xC1 \<mapsto> 0x9101] \<rparr>, events = [] \<rparr>))
   = Inr [cleared ''s_vulkan_command_buffers'', erased ''g_vulkan_devices'' 0xD0,
          erased ''s_vulkan_queues'' 0x51, deleted 0x51, deleted 0xD0,
          trampoline_called ''DestroyDevice'' [0xD0, 0]] \<and>
   map_sum id (\<lambda>layer. map fst (events layer))
     (vkDestroyBuffer False (\<lambda>handle. handle) 0xD0 0xB1 0
        (\<lparr> registries = \<lparr> g_vulkan_devices = [0xD0 \<mapsto> \<lparr> impl_queues = [0x51], impl_dispatch_table = (\<lambda>name. True), impl_buffers = [0xB1 \<mapsto> ()] \<rparr>], s_vulkan_queues = [0x51 \<mapsto> 0x9001], s_vulkan_command_buffers = [0xC1 \<mapsto> 0x9101] \<rparr>, events = [] \<rparr>))
   = Inr [trampoline_called ''DestroyBuffer'' [0xD0, 0xB1, 0]] \<and>
   map_sum id (\<lambda>layer. map fst (events layer))
     (vkFreeCommandBuffers False (\<lambda>handle. handle) 0xD0 0xF0 [0xC1]
        (\<lparr> registries = \<lparr> g_vulkan_devices = [0xD0 \<mapsto> \<lparr> impl_queues = [0x51], impl_dispatch_table = (\<lambda>name. True), impl_buffers = [0xB1 \<mapsto> ()] \<rparr>], s_vulkan_queues = [0x51 \<mapsto> 0x9001], s_vulkan_command_buffers = [0xC1 \<mapsto> 0x9101] \<rparr>, events = [] \<rparr>))
   = Inr [trampoline_called ''FreeCommandBuffers'' [0xD0, 0xF0, 0xC1]]"
  using destruction_erases_registry_before_trampoline
    [where RESHADE_ADDON = True and dispatch_key_from_handle = "(\<lambda>handle. handle)"
       and device = "0xD0" and buffer = "0xB1" and pAllocator = 0 and commandPool = "0xF0"
       and pCommandBuffers = "[0xC1]"
       and layer = "\<lparr> registries = \<lparr> g_vulkan_devices = [0xD0 \<mapsto> \<lparr> impl_queues = [0x51], impl_dispatch_table = (\<lambda>name. True), impl_buffers = [0xB1 \<mapsto> ()] \<rparr>], s_vulkan_queues = [0x51 \<mapsto> 0x9001], s_vulkan_command_buffers = [0xC1 \<mapsto> 0x9101] \<rparr>, events = [] \<rparr>"
       and after_buffer = "projr (vkDestroyBuffer True (\<lambda>handle. handle) 0xD0 0xB1 0
  (\<lparr> registries = \<lparr> g_vulkan_devices = [0xD0 \<mapsto> \<lparr> impl_queues = [0x51], impl_dispatch_table = (\<lambda>name. True), impl_buffers = [0xB1 \<mapsto> ()] \<rparr>], s_vulkan_queues = [0x51 \<mapsto> 0x9001], s_vulkan_command_buffers = [0xC1 \<mapsto> 0x9101] \<rparr>, events = [] \<rparr>))"
       and after_free = "projr (vkFreeCommandBuffers True (\<lambda>handle. handle) 0xD0 0xF0 [0xC1]
  (\<lparr> registries = \<lparr> g_vulkan_devices = [0xD0 \<mapsto> \<lparr> impl_queues = [0x51], impl_dispatch_table = (\<lambda>name. True), impl_buffers = [0xB1 \<mapsto> ()] \<rparr>], s_vulkan_queues = [0x51 \<mapsto> 0x9001], s_vulkan_command_buffers = [0xC1 \<mapsto> 0x9101] \<rparr>, events = [] \<rparr>))"
       and after_device = "projr (vkDestroyDevice (\<lambda>handle. handle) 0xD0 0
  (\<lparr> registries = \<lparr> g_vulkan_devices = [0xD0 \<mapsto> \<lparr> impl_queues = [0x51], impl_dispatch_table = (\<lambda>name. True), impl_buffers = [0xB1 \<mapsto> ()] \<rparr>], s_vulkan_queues = [0x51 \<mapsto> 0x9001], s_vulkan_command_buffers = [0xC1 \<mapsto> 0x9101] \<rparr>, events = [] \<rparr>))"]
    destruction_erases_registry_before_trampoline
    [where RESHADE_ADDON = False and dispatch_key_from_handle = "(\<lambda>handle. handle)"
       and device = "0xD0" and buffer = "0xB1" and pAllocator = 0 and commandPool = "0xF0"
       and pCommandBuffers = "[0xC1]"
       and layer = "\<lparr> registries = \<lparr> g_vulkan_devices = [0xD0 \<mapsto> \<lparr> impl_queues = [0x51], impl_dispatch_table = (\<lambda>name. True), impl_buffers = [0xB1 \<mapsto> ()] \<rparr>], s_vulkan_queues = [0x51 \<mapsto> 0x9001], s_vulkan_command_buffers = [0xC1 \<mapsto> 0x9101] \<rparr>, events = [] \<rparr>"
       and after_buffer = "projr (vkDestroyBuffer False (\<lambda>handle. handle) 0xD0 0xB1 0
  (\<lparr> registries = \<lparr> g_vulkan_devices = [0xD0 \<mapsto> \<lparr> impl_queues = [0x51], impl_dispatch_table = (\<lambda>name. True), impl_buffers = [0xB1 \<mapsto> ()] \<rparr>], s_vulkan_queues = [0x51 \<mapsto> 0x9001], s_vulkan_command_buffers = [0xC1 \<mapsto> 0x9101] \<rparr>, events = [] \<rparr>))"
       and after_free = "projr (vkFreeCommandBuffers False (\<lambda>handle. handle) 0xD0 0xF0 [0xC1]
  (\<lparr> registries = \<lparr> g_vulkan_devices = [0xD0 \<mapsto> \<lparr> impl_queues = [0x51], impl_dispatch_table = (\<lambda>name. True), impl_buffers = [0xB1 \<mapsto> ()] \<rparr>], s_vulkan_queues = [0x51 \<mapsto> 0x9001], s_vulkan_command_buffers = [0xC1 \<mapsto> 0x9101] \<rparr>, events = [] \<rparr>))"
       and after_device = "projr (vkDestroyDevice (\<lambda>handle. handle) 0xD0 0
  (\<lparr> registries = \<lparr> g_vulkan_devices = [0xD0 \<mapsto> \<lparr> impl_queues = [0x51], impl_dispatch_table = (\<lambda>name. True), impl_buffers = [0xB1 \<mapsto> ()] \<rparr>], s_vulkan_queues = [0x51 \<mapsto> 0x9001], s_vulkan_command_buffers = [0xC1 \<mapsto> 0x9101] \<rparr>, events = [] \<rparr>))"]
  by (simp add: vkDestroyBuffer_def vkFreeCommandBuffers_def vkDestroyDevice_def call_trampoline_def
      record_event_def delete_wrapper_def table_at_def table_erase_def table_clear_def
      unregister_buffer_def)

text \<open>
  Claim C9 as stated fails in a build without \<^verbatim>\<open>RESHADE_ADDON\<close>.  On a layer whose device
  \<open>0xD0\<close> has the buffer \<open>0xB1\<close> registered, \<^verbatim>\<open>vkDestroyBuffer\<close> does nothing but call the
  trampoline that destroys the native buffer, and a lookup of the buffer in the registry
  of the device at that moment still finds its entry.
\<close>

theorem destruction_erases_registry_before_trampoline_counterexample:
  "map_sum id (\<lambda>layer. map fst (events layer))
     (vkDestroyBuffer False (\<lambda>handle. handle) 0xD0 0xB1 0
        (\<lparr> registries = \<lparr> g_vulkan_devices = [0xD0 \<mapsto> \<lparr> impl_queues = [0x51], impl_dispatch_table = (\<lambda>name. True), impl_buffers = [0xB1 \<mapsto> ()] \<rparr>], s_vulkan_queues = [0x51 \<mapsto> 0x9001], s_vulkan_command_buffers = [0xC1 \<mapsto> 0x9101] \<rparr>, events = [] \<rparr>))
   = Inr [trampoline_called ''DestroyBuffer'' [0xD0, 0xB1, 0]] \<and>
   map_sum id
     (\<lambda>layer. map (\<lambda>event.
        map_option (\<lambda>device_impl. table_at (impl_buffers device_impl) 0xB1)
          (table_at (g_vulkan_devices (snd event)) 0xD0)) (events layer))
     (vkDestroyBuffer False (\<lambda>handle. handle) 0xD0 0xB1 0
        (\<lparr> registries = \<lparr> g_vulkan_devices = [0xD0 \<mapsto> \<lparr> impl_queues = [0x51], impl_dispatch_table = (\<lambda>name. True), impl_buffers = [0xB1 \<mapsto> ()] \<rparr>], s_vulkan_queues = [0x51 \<mapsto> 0x9001], s_vulkan_command_buffers = [0xC1 \<mapsto> 0x9101] \<rparr>, events = [] \<rparr>))
   = Inr [Some (Some ())]"
  by (simp add: vkDestroyBuffer_def vkFreeCommandBuffers_def vkDestroyDevice_def call_trampoline_def
      record_event_def delete_wrapper_def table_at_def table_erase_def table_clear_def
      unregister_buffer_def)

end
